theory Spec2Isabelle
  imports Main
begin

section \<open>The database driver collaborator\<close>

text \<open>
  The package \<^verbatim>\<open>sqlxcache\<close> keeps prepared statements of
  \<^verbatim>\<open>github.com/jmoiron/sqlx\<close> in maps keyed by the query text. The sqlx
  library and the database behind it are not part of the repository, so they are a
  parameter of every definition below: a record of functions over a driver state
  \<open>'d\<close> (the \<^verbatim>\<open>*sqlx.DB\<close> and everything reachable from it). The other
  type parameters are the opaque values that cross the boundary:
  \<open>'s\<close> a \<^verbatim>\<open>*sqlx.Stmt\<close>, \<open>'n\<close> a \<^verbatim>\<open>*sqlx.NamedStmt\<close>,
  \<open>'t\<close> a \<^verbatim>\<open>*sqlx.Tx\<close>, \<open>'c\<close> a \<^verbatim>\<open>context.Context\<close>,
  \<open>'e\<close> a non-nil \<^verbatim>\<open>error\<close>, \<open>'a\<close> an argument of type
  \<^verbatim>\<open>interface{}\<close> and \<open>'r\<close> whatever a statement hands back
  (\<^verbatim>\<open>sql.Result\<close>, \<^verbatim>\<open>*sql.Rows\<close>, \<^verbatim>\<open>*sqlx.Rows\<close>,
  \<^verbatim>\<open>*sql.Row\<close>, \<^verbatim>\<open>*sqlx.Row\<close>).

  A Go pair \<^verbatim>\<open>(T, error)\<close> is a sum \<open>'e + T\<close> (\<open>Inl\<close> the error), a lone
  \<^verbatim>\<open>error\<close> is an \<open>'e option\<close> (\<open>None\<close> is \<^verbatim>\<open>nil\<close>). Every sqlx
  method \<^verbatim>\<open>M\<close> that has a sibling \<^verbatim>\<open>MContext(ctx, ...)\<close> is one field
  whose first argument is an \<open>'c option\<close>: \<open>None\<close> is \<^verbatim>\<open>M\<close>, and
  \<open>Some ctx\<close> is \<^verbatim>\<open>MContext(ctx, ...)\<close>.

  The fields, by receiver:
  \<^item> \<^verbatim>\<open>*sqlx.DB\<close>: \<open>Preparex\<close>, \<open>PrepareNamed\<close>, \<open>Beginx\<close> (\<open>None\<close> is
    \<^verbatim>\<open>Beginx()\<close>, \<open>Some (ctx, opts)\<close> is \<^verbatim>\<open>BeginTxx(ctx, opts)\<close>) and
    \<open>DB_Close\<close>;
  \<^item> \<^verbatim>\<open>*sqlx.Tx\<close>: the re-binding of a statement into the transaction, \<open>Stmtx\<close>
    for a \<^verbatim>\<open>*sqlx.Stmt\<close> and \<open>NamedStmt\<close> for a \<^verbatim>\<open>*sqlx.NamedStmt\<close>, which
    returns a statement and no error; \<open>Stmtx_of_NamedStmt\<close>, which is
    \<^verbatim>\<open>Stmtx\<close> called with a \<^verbatim>\<open>*sqlx.NamedStmt\<close> (its parameter has type
    \<^verbatim>\<open>interface{}\<close>; \<open>None\<close> is a panic); \<open>SqlxTx_Commit\<close> and
    \<open>SqlxTx_Rollback\<close>;
  \<^item> \<^verbatim>\<open>*sqlx.Stmt\<close>: \<open>Stmt_Exec\<close>, \<open>Stmt_Query\<close> and \<open>Stmt_Queryx\<close> return a
    value and an error; \<open>Stmt_QueryRow\<close> and \<open>Stmt_QueryRowx\<close> return a row and no
    error; \<open>Stmt_Get\<close> and \<open>Stmt_Select\<close> take the destination before the arguments
    and return an error (what they write to the destination is part of the driver
    state);
  \<^item> \<^verbatim>\<open>*sqlx.NamedStmt\<close>: the same methods, with one argument in place of the
    list.
\<close>

type_synonym query = string

record TxOptions =
  Isolation :: int
  ReadOnly :: bool

record ('d, 's, 'n, 't, 'c, 'e, 'a, 'r) driver =
  Preparex :: "'c option \<Rightarrow> query \<Rightarrow> 'd \<Rightarrow> ('e + 's) \<times> 'd"
  PrepareNamed :: "'c option \<Rightarrow> query \<Rightarrow> 'd \<Rightarrow> ('e + 'n) \<times> 'd"
  Beginx :: "('c \<times> TxOptions option) option \<Rightarrow> 'd \<Rightarrow> ('e + 't) \<times> 'd"
  Stmtx :: "'c option \<Rightarrow> 't \<Rightarrow> 's \<Rightarrow> 'd \<Rightarrow> 's \<times> 'd"
  NamedStmt :: "'c option \<Rightarrow> 't \<Rightarrow> 'n \<Rightarrow> 'd \<Rightarrow> 'n \<times> 'd"
  Stmtx_of_NamedStmt :: "'c option \<Rightarrow> 't \<Rightarrow> 'n \<Rightarrow> 'd \<Rightarrow> 's option \<times> 'd"
  Stmt_Exec :: "'c option \<Rightarrow> 's \<Rightarrow> 'a list \<Rightarrow> 'd \<Rightarrow> ('e + 'r) \<times> 'd"
  Stmt_Query :: "'c option \<Rightarrow> 's \<Rightarrow> 'a list \<Rightarrow> 'd \<Rightarrow> ('e + 'r) \<times> 'd"
  Stmt_Queryx :: "'c option \<Rightarrow> 's \<Rightarrow> 'a list \<Rightarrow> 'd \<Rightarrow> ('e + 'r) \<times> 'd"
  Stmt_QueryRow :: "'c option \<Rightarrow> 's \<Rightarrow> 'a list \<Rightarrow> 'd \<Rightarrow> 'r \<times> 'd"
  Stmt_QueryRowx :: "'c option \<Rightarrow> 's \<Rightarrow> 'a list \<Rightarrow> 'd \<Rightarrow> 'r \<times> 'd"
  Stmt_Get :: "'c option \<Rightarrow> 's \<Rightarrow> 'a \<Rightarrow> 'a list \<Rightarrow> 'd \<Rightarrow> 'e option \<times> 'd"
  Stmt_Select :: "'c option \<Rightarrow> 's \<Rightarrow> 'a \<Rightarrow> 'a list \<Rightarrow> 'd \<Rightarrow> 'e option \<times> 'd"
  Named_Exec :: "'c option \<Rightarrow> 'n \<Rightarrow> 'a \<Rightarrow> 'd \<Rightarrow> ('e + 'r) \<times> 'd"
  Named_Query :: "'c option \<Rightarrow> 'n \<Rightarrow> 'a \<Rightarrow> 'd \<Rightarrow> ('e + 'r) \<times> 'd"
  Named_Queryx :: "'c option \<Rightarrow> 'n \<Rightarrow> 'a \<Rightarrow> 'd \<Rightarrow> ('e + 'r) \<times> 'd"
  Named_QueryRow :: "'c option \<Rightarrow> 'n \<Rightarrow> 'a \<Rightarrow> 'd \<Rightarrow> 'r \<times> 'd"
  Named_Get :: "'c option \<Rightarrow> 'n \<Rightarrow> 'a \<Rightarrow> 'a \<Rightarrow> 'd \<Rightarrow> 'e option \<times> 'd"
  Named_Select :: "'c option \<Rightarrow> 'n \<Rightarrow> 'a \<Rightarrow> 'a \<Rightarrow> 'd \<Rightarrow> 'e option \<times> 'd"
  SqlxTx_Commit :: "'t \<Rightarrow> 'd \<Rightarrow> 'e option \<times> 'd"
  SqlxTx_Rollback :: "'t \<Rightarrow> 'd \<Rightarrow> 'e option \<times> 'd"
  DB_Close :: "'d \<Rightarrow> 'e option \<times> 'd"

section \<open>The pool-level cache\<close>

text \<open>
  \<^verbatim>\<open>type Cache struct { db; stmtsLock, namedStmtsLock sync.Mutex; stmts; namedStmts }\<close>.
  The two maps are the fields \<open>stmts\<close> and \<open>namedStmts\<close>; \<open>db\<close> is the
  driver state behind \<^verbatim>\<open>c.db\<close>. The code runs one call at a time here, so a
  mutex is never found held; what the model keeps of the two mutexes is the order of
  their \<^verbatim>\<open>Lock\<close> and \<^verbatim>\<open>Unlock\<close> calls among the driver calls, in the
  field \<open>history\<close>. That field has no counterpart in the Go struct: it records, oldest
  first, every mutex operation and every call into sqlx that the code issues, so that
  "calls the driver once" and "calls no driver" are statements about a value.
\<close>

datatype mutex = stmtsLock | namedStmtsLock

datatype event =
    EvLock mutex
  | EvUnlock mutex
  | EvPreparex query
  | EvPrepareNamed query
  | EvBeginx
  | EvStmtx
  | EvNamedStmt
  | EvStmtx_of_NamedStmt
  | EvRun
  | EvCommit
  | EvRollback
  | EvClose

record ('d, 's, 'n) Cache =
  db :: 'd
  stmts :: "query \<rightharpoonup> 's"
  namedStmts :: "query \<rightharpoonup> 'n"
  history :: "event list"

definition Lock :: "mutex \<Rightarrow> ('d, 's, 'n) Cache \<Rightarrow> ('d, 's, 'n) Cache" where
  "Lock m c = c\<lparr>history := history c @ [EvLock m]\<rparr>"

definition Unlock :: "mutex \<Rightarrow> ('d, 's, 'n) Cache \<Rightarrow> ('d, 's, 'n) Cache" where
  "Unlock m c = c\<lparr>history := history c @ [EvUnlock m]\<rparr>"

text \<open>
  A call into sqlx: the driver function \<open>f\<close> runs on the driver state, its result is
  handed back, and the call is recorded.
\<close>

definition driver_call ::
  "event \<Rightarrow> ('d \<Rightarrow> 'x \<times> 'd) \<Rightarrow> ('d, 's, 'n) Cache \<Rightarrow> 'x \<times> ('d, 's, 'n) Cache" where
  "driver_call ev f c =
     (case f (db c) of (x, d) \<Rightarrow> (x, c\<lparr>db := d, history := history c @ [ev]\<rparr>))"

text \<open>\<^verbatim>\<open>func New(db *sqlx.DB) *Cache\<close>: both maps empty.\<close>

definition New :: "'d \<Rightarrow> ('d, 's, 'n) Cache" where
  "New d = \<lparr>db = d, stmts = Map.empty, namedStmts = Map.empty, history = []\<rparr>"

text \<open>
  \<^verbatim>\<open>func (c *Cache) stmt(query string) (*sqlx.Stmt, error)\<close>. The deferred
  \<^verbatim>\<open>Unlock\<close> runs at each of the three returns.
\<close>

definition Cache_stmt ::
  "('d, 's, 'n, 't, 'c, 'e, 'a, 'r) driver \<Rightarrow> query \<Rightarrow> ('d, 's, 'n) Cache
     \<Rightarrow> ('e + 's) \<times> ('d, 's, 'n) Cache" where
  "Cache_stmt drv query c0 =
     (let c = Lock stmtsLock c0 in
      case stmts c query of
        Some v \<Rightarrow> (Inr v, Unlock stmtsLock c)
      | None \<Rightarrow>
          (case driver_call (EvPreparex query) (Preparex drv None query) c of
             (Inl err, c') \<Rightarrow> (Inl err, Unlock stmtsLock c')
           | (Inr stmt, c') \<Rightarrow>
               (Inr stmt, Unlock stmtsLock (c'\<lparr>stmts := (stmts c')(query \<mapsto> stmt)\<rparr>))))"

text \<open>\<^verbatim>\<open>func (c *Cache) stmtContext(ctx context.Context, query string) (*sqlx.Stmt, error)\<close>\<close>

definition Cache_stmtContext ::
  "('d, 's, 'n, 't, 'c, 'e, 'a, 'r) driver \<Rightarrow> 'c \<Rightarrow> query \<Rightarrow> ('d, 's, 'n) Cache
     \<Rightarrow> ('e + 's) \<times> ('d, 's, 'n) Cache" where
  "Cache_stmtContext drv ctx query c0 =
     (let c = Lock stmtsLock c0 in
      case stmts c query of
        Some v \<Rightarrow> (Inr v, Unlock stmtsLock c)
      | None \<Rightarrow>
          (case driver_call (EvPreparex query) (Preparex drv (Some ctx) query) c of
             (Inl err, c') \<Rightarrow> (Inl err, Unlock stmtsLock c')
           | (Inr stmt, c') \<Rightarrow>
               (Inr stmt, Unlock stmtsLock (c'\<lparr>stmts := (stmts c')(query \<mapsto> stmt)\<rparr>))))"

text \<open>\<^verbatim>\<open>func (c *Cache) namedStmt(query string) (*sqlx.NamedStmt, error)\<close>\<close>

definition Cache_namedStmt ::
  "('d, 's, 'n, 't, 'c, 'e, 'a, 'r) driver \<Rightarrow> query \<Rightarrow> ('d, 's, 'n) Cache
     \<Rightarrow> ('e + 'n) \<times> ('d, 's, 'n) Cache" where
  "Cache_namedStmt drv query c0 =
     (let c = Lock namedStmtsLock c0 in
      case namedStmts c query of
        Some v \<Rightarrow> (Inr v, Unlock namedStmtsLock c)
      | None \<Rightarrow>
          (case driver_call (EvPrepareNamed query) (PrepareNamed drv None query) c of
             (Inl err, c') \<Rightarrow> (Inl err, Unlock namedStmtsLock c')
           | (Inr namedStmt, c') \<Rightarrow>
               (Inr namedStmt,
                Unlock namedStmtsLock (c'\<lparr>namedStmts := (namedStmts c')(query \<mapsto> namedStmt)\<rparr>))))"

text \<open>\<^verbatim>\<open>func (c *Cache) namedStmtContext(ctx context.Context, query string) (*sqlx.NamedStmt, error)\<close>\<close>

definition Cache_namedStmtContext ::
  "('d, 's, 'n, 't, 'c, 'e, 'a, 'r) driver \<Rightarrow> 'c \<Rightarrow> query \<Rightarrow> ('d, 's, 'n) Cache
     \<Rightarrow> ('e + 'n) \<times> ('d, 's, 'n) Cache" where
  "Cache_namedStmtContext drv ctx query c0 =
     (let c = Lock namedStmtsLock c0 in
      case namedStmts c query of
        Some v \<Rightarrow> (Inr v, Unlock namedStmtsLock c)
      | None \<Rightarrow>
          (case driver_call (EvPrepareNamed query) (PrepareNamed drv (Some ctx) query) c of
             (Inl err, c') \<Rightarrow> (Inl err, Unlock namedStmtsLock c')
           | (Inr namedStmt, c') \<Rightarrow>
               (Inr namedStmt,
                Unlock namedStmtsLock (c'\<lparr>namedStmts := (namedStmts c')(query \<mapsto> namedStmt)\<rparr>))))"

subsection \<open>The forwarding methods of the cache\<close>

text \<open>
  \<^verbatim>\<open>func (c *Cache) Exec(query string, args ...interface{})\<close>
  (line 976)
\<close>

definition Cache_Exec ::
  "('d, 's, 'n, 't, 'c, 'e, 'a, 'r) driver \<Rightarrow> query \<Rightarrow> 'a list
     \<Rightarrow> ('d, 's, 'n) Cache
     \<Rightarrow> ('e + 'r) \<times> ('d, 's, 'n) Cache" where
  "Cache_Exec drv query args c =
     (case Cache_stmt drv query c of
        (Inl err, c') \<Rightarrow> (Inl err, c')
      | (Inr stmt, c') \<Rightarrow> driver_call EvRun (Stmt_Exec drv None stmt args) c')"

text \<open>
  \<^verbatim>\<open>func (c *Cache) ExecContext(ctx context.Context, query string, args ...interface{})\<close>
  (line 985)
\<close>

definition Cache_ExecContext ::
  "('d, 's, 'n, 't, 'c, 'e, 'a, 'r) driver \<Rightarrow> 'c \<Rightarrow> query \<Rightarrow> 'a list
     \<Rightarrow> ('d, 's, 'n) Cache
     \<Rightarrow> ('e + 'r) \<times> ('d, 's, 'n) Cache" where
  "Cache_ExecContext drv ctx query args c =
     (case Cache_stmtContext drv ctx query c of
        (Inl err, c') \<Rightarrow> (Inl err, c')
      | (Inr stmt, c') \<Rightarrow> driver_call EvRun (Stmt_Exec drv (Some ctx) stmt args) c')"

text \<open>
  \<^verbatim>\<open>func (c *Cache) NamedExec(query string, arg interface{})\<close>
  (line 994)
\<close>

definition Cache_NamedExec ::
  "('d, 's, 'n, 't, 'c, 'e, 'a, 'r) driver \<Rightarrow> query \<Rightarrow> 'a
     \<Rightarrow> ('d, 's, 'n) Cache
     \<Rightarrow> ('e + 'r) \<times> ('d, 's, 'n) Cache" where
  "Cache_NamedExec drv query arg c =
     (case Cache_namedStmt drv query c of
        (Inl err, c') \<Rightarrow> (Inl err, c')
      | (Inr namedStmt, c') \<Rightarrow> driver_call EvRun (Named_Exec drv None namedStmt arg) c')"

text \<open>
  \<^verbatim>\<open>func (c *Cache) NamedExecContext(ctx context.Context, query string, arg interface{})\<close>
  (line 1003)
\<close>

definition Cache_NamedExecContext ::
  "('d, 's, 'n, 't, 'c, 'e, 'a, 'r) driver \<Rightarrow> 'c \<Rightarrow> query \<Rightarrow> 'a
     \<Rightarrow> ('d, 's, 'n) Cache
     \<Rightarrow> ('e + 'r) \<times> ('d, 's, 'n) Cache" where
  "Cache_NamedExecContext drv ctx query arg c =
     (case Cache_namedStmtContext drv ctx query c of
        (Inl err, c') \<Rightarrow> (Inl err, c')
      | (Inr namedStmt, c') \<Rightarrow> driver_call EvRun (Named_Exec drv (Some ctx) namedStmt arg) c')"

text \<open>
  \<^verbatim>\<open>func (c *Cache) QueryRow(query string, args ...interface{})\<close>
  (line 1012)
\<close>

definition Cache_QueryRow ::
  "('d, 's, 'n, 't, 'c, 'e, 'a, 'r) driver \<Rightarrow> query \<Rightarrow> 'a list
     \<Rightarrow> ('d, 's, 'n) Cache
     \<Rightarrow> ('e + 'r) \<times> ('d, 's, 'n) Cache" where
  "Cache_QueryRow drv query args c =
     (case Cache_stmt drv query c of
        (Inl err, c') \<Rightarrow> (Inl err, c')
      | (Inr stmt, c') \<Rightarrow>
          (case driver_call EvRun (Stmt_QueryRow drv None stmt args) c' of
             (row, c'') \<Rightarrow> (Inr row, c'')))"

text \<open>
  \<^verbatim>\<open>func (c *Cache) QueryRowContext(ctx context.Context, query string, args ...interface{})\<close>
  (line 1021)
\<close>

definition Cache_QueryRowContext ::
  "('d, 's, 'n, 't, 'c, 'e, 'a, 'r) driver \<Rightarrow> 'c \<Rightarrow> query \<Rightarrow> 'a list
     \<Rightarrow> ('d, 's, 'n) Cache
     \<Rightarrow> ('e + 'r) \<times> ('d, 's, 'n) Cache" where
  "Cache_QueryRowContext drv ctx query args c =
     (case Cache_stmtContext drv ctx query c of
        (Inl err, c') \<Rightarrow> (Inl err, c')
      | (Inr stmt, c') \<Rightarrow>
          (case driver_call EvRun (Stmt_QueryRow drv (Some ctx) stmt args) c' of
             (row, c'') \<Rightarrow> (Inr row, c'')))"

text \<open>
  \<^verbatim>\<open>func (c *Cache) QueryxRow(query string, args ...interface{})\<close>
  (line 1030)
\<close>

definition Cache_QueryxRow ::
  "('d, 's, 'n, 't, 'c, 'e, 'a, 'r) driver \<Rightarrow> query \<Rightarrow> 'a list
     \<Rightarrow> ('d, 's, 'n) Cache
     \<Rightarrow> ('e + 'r) \<times> ('d, 's, 'n) Cache" where
  "Cache_QueryxRow drv query args c =
     (case Cache_stmt drv query c of
        (Inl err, c') \<Rightarrow> (Inl err, c')
      | (Inr stmt, c') \<Rightarrow>
          (case driver_call EvRun (Stmt_QueryRowx drv None stmt args) c' of
             (row, c'') \<Rightarrow> (Inr row, c'')))"

text \<open>
  \<^verbatim>\<open>func (c *Cache) QueryRowxContext(ctx context.Context, query string, args ...interface{})\<close>
  (line 1039)
\<close>

definition Cache_QueryRowxContext ::
  "('d, 's, 'n, 't, 'c, 'e, 'a, 'r) driver \<Rightarrow> 'c \<Rightarrow> query \<Rightarrow> 'a list
     \<Rightarrow> ('d, 's, 'n) Cache
     \<Rightarrow> ('e + 'r) \<times> ('d, 's, 'n) Cache" where
  "Cache_QueryRowxContext drv ctx query args c =
     (case Cache_stmtContext drv ctx query c of
        (Inl err, c') \<Rightarrow> (Inl err, c')
      | (Inr stmt, c') \<Rightarrow>
          (case driver_call EvRun (Stmt_QueryRowx drv (Some ctx) stmt args) c' of
             (row, c'') \<Rightarrow> (Inr row, c'')))"

text \<open>
  \<^verbatim>\<open>func (c *Cache) NamedQueryRow(query string, arg interface{})\<close>
  (line 1048)
\<close>

definition Cache_NamedQueryRow ::
  "('d, 's, 'n, 't, 'c, 'e, 'a, 'r) driver \<Rightarrow> query \<Rightarrow> 'a
     \<Rightarrow> ('d, 's, 'n) Cache
     \<Rightarrow> ('e + 'r) \<times> ('d, 's, 'n) Cache" where
  "Cache_NamedQueryRow drv query arg c =
     (case Cache_namedStmt drv query c of
        (Inl err, c') \<Rightarrow> (Inl err, c')
      | (Inr namedStmt, c') \<Rightarrow>
          (case driver_call EvRun (Named_QueryRow drv None namedStmt arg) c' of
             (row, c'') \<Rightarrow> (Inr row, c'')))"

text \<open>
  \<^verbatim>\<open>func (c *Cache) NamedQueryRowContext(ctx context.Context, query string, arg interface{})\<close>
  (line 1057)
\<close>

definition Cache_NamedQueryRowContext ::
  "('d, 's, 'n, 't, 'c, 'e, 'a, 'r) driver \<Rightarrow> 'c \<Rightarrow> query \<Rightarrow> 'a
     \<Rightarrow> ('d, 's, 'n) Cache
     \<Rightarrow> ('e + 'r) \<times> ('d, 's, 'n) Cache" where
  "Cache_NamedQueryRowContext drv ctx query arg c =
     (case Cache_namedStmtContext drv ctx query c of
        (Inl err, c') \<Rightarrow> (Inl err, c')
      | (Inr namedStmt, c') \<Rightarrow>
          (case driver_call EvRun (Named_QueryRow drv (Some ctx) namedStmt arg) c' of
             (row, c'') \<Rightarrow> (Inr row, c'')))"

text \<open>
  \<^verbatim>\<open>func (c *Cache) Query(query string, arg interface{})\<close>
  (line 1066)
\<close>

definition Cache_Query ::
  "('d, 's, 'n, 't, 'c, 'e, 'a, 'r) driver \<Rightarrow> query \<Rightarrow> 'a
     \<Rightarrow> ('d, 's, 'n) Cache
     \<Rightarrow> ('e + 'r) \<times> ('d, 's, 'n) Cache" where
  "Cache_Query drv query arg c =
     (case Cache_stmt drv query c of
        (Inl err, c') \<Rightarrow> (Inl err, c')
      | (Inr stmt, c') \<Rightarrow> driver_call EvRun (Stmt_Query drv None stmt [arg]) c')"

text \<open>
  \<^verbatim>\<open>func (c *Cache) QueryContext(ctx context.Context, query string, arg interface{})\<close>
  (line 1075)
\<close>

definition Cache_QueryContext ::
  "('d, 's, 'n, 't, 'c, 'e, 'a, 'r) driver \<Rightarrow> 'c \<Rightarrow> query \<Rightarrow> 'a
     \<Rightarrow> ('d, 's, 'n) Cache
     \<Rightarrow> ('e + 'r) \<times> ('d, 's, 'n) Cache" where
  "Cache_QueryContext drv ctx query arg c =
     (case Cache_stmtContext drv ctx query c of
        (Inl err, c') \<Rightarrow> (Inl err, c')
      | (Inr stmt, c') \<Rightarrow> driver_call EvRun (Stmt_Query drv (Some ctx) stmt [arg]) c')"

text \<open>
  \<^verbatim>\<open>func (c *Cache) NamedQuery(query string, arg interface{})\<close>
  (line 1084)
\<close>

definition Cache_NamedQuery ::
  "('d, 's, 'n, 't, 'c, 'e, 'a, 'r) driver \<Rightarrow> query \<Rightarrow> 'a
     \<Rightarrow> ('d, 's, 'n) Cache
     \<Rightarrow> ('e + 'r) \<times> ('d, 's, 'n) Cache" where
  "Cache_NamedQuery drv query arg c =
     (case Cache_namedStmt drv query c of
        (Inl err, c') \<Rightarrow> (Inl err, c')
      | (Inr namedStmt, c') \<Rightarrow> driver_call EvRun (Named_Queryx drv None namedStmt arg) c')"

text \<open>
  \<^verbatim>\<open>func (c *Cache) NamedQueryContext(ctx context.Context, query string, arg interface{})\<close>
  (line 1093)
\<close>

definition Cache_NamedQueryContext ::
  "('d, 's, 'n, 't, 'c, 'e, 'a, 'r) driver \<Rightarrow> 'c \<Rightarrow> query \<Rightarrow> 'a
     \<Rightarrow> ('d, 's, 'n) Cache
     \<Rightarrow> ('e + 'r) \<times> ('d, 's, 'n) Cache" where
  "Cache_NamedQueryContext drv ctx query arg c =
     (case Cache_namedStmtContext drv ctx query c of
        (Inl err, c') \<Rightarrow> (Inl err, c')
      | (Inr namedStmt, c') \<Rightarrow> driver_call EvRun (Named_Queryx drv (Some ctx) namedStmt arg) c')"

text \<open>
  \<^verbatim>\<open>func (c *Cache) Queryx(query string, args ...interface{})\<close>
  (line 1102)
\<close>

definition Cache_Queryx ::
  "('d, 's, 'n, 't, 'c, 'e, 'a, 'r) driver \<Rightarrow> query \<Rightarrow> 'a list
     \<Rightarrow> ('d, 's, 'n) Cache
     \<Rightarrow> ('e + 'r) \<times> ('d, 's, 'n) Cache" where
  "Cache_Queryx drv query args c =
     (case Cache_stmt drv query c of
        (Inl err, c') \<Rightarrow> (Inl err, c')
      | (Inr stmt, c') \<Rightarrow> driver_call EvRun (Stmt_Queryx drv None stmt args) c')"

text \<open>
  \<^verbatim>\<open>func (c *Cache) QueryxContext(ctx context.Context, query string, args ...interface{})\<close>
  (line 1111)
\<close>

definition Cache_QueryxContext ::
  "('d, 's, 'n, 't, 'c, 'e, 'a, 'r) driver \<Rightarrow> 'c \<Rightarrow> query \<Rightarrow> 'a list
     \<Rightarrow> ('d, 's, 'n) Cache
     \<Rightarrow> ('e + 'r) \<times> ('d, 's, 'n) Cache" where
  "Cache_QueryxContext drv ctx query args c =
     (case Cache_stmtContext drv ctx query c of
        (Inl err, c') \<Rightarrow> (Inl err, c')
      | (Inr stmt, c') \<Rightarrow> driver_call EvRun (Stmt_Queryx drv (Some ctx) stmt args) c')"

text \<open>
  \<^verbatim>\<open>func (c *Cache) Get(dest interface{}, query string, args ...interface{})\<close>
  (line 1120)
\<close>

definition Cache_Get ::
  "('d, 's, 'n, 't, 'c, 'e, 'a, 'r) driver \<Rightarrow> 'a \<Rightarrow> query \<Rightarrow> 'a list
     \<Rightarrow> ('d, 's, 'n) Cache
     \<Rightarrow> ('e option) \<times> ('d, 's, 'n) Cache" where
  "Cache_Get drv dest query args c =
     (case Cache_stmt drv query c of
        (Inl err, c') \<Rightarrow> (Some err, c')
      | (Inr stmt, c') \<Rightarrow> driver_call EvRun (Stmt_Get drv None stmt dest args) c')"

text \<open>
  \<^verbatim>\<open>func (c *Cache) GetContext(ctx context.Context, dest interface{}, query string, args ...interface{})\<close>
  (line 1129)
\<close>

definition Cache_GetContext ::
  "('d, 's, 'n, 't, 'c, 'e, 'a, 'r) driver \<Rightarrow> 'c \<Rightarrow> 'a \<Rightarrow> query \<Rightarrow> 'a list
     \<Rightarrow> ('d, 's, 'n) Cache
     \<Rightarrow> ('e option) \<times> ('d, 's, 'n) Cache" where
  "Cache_GetContext drv ctx dest query args c =
     (case Cache_stmtContext drv ctx query c of
        (Inl err, c') \<Rightarrow> (Some err, c')
      | (Inr stmt, c') \<Rightarrow> driver_call EvRun (Stmt_Get drv (Some ctx) stmt dest args) c')"

text \<open>
  \<^verbatim>\<open>func (c *Cache) NamedGet(dest interface{}, query string, arg interface{})\<close>
  (line 1138)
\<close>

definition Cache_NamedGet ::
  "('d, 's, 'n, 't, 'c, 'e, 'a, 'r) driver \<Rightarrow> 'a \<Rightarrow> query \<Rightarrow> 'a
     \<Rightarrow> ('d, 's, 'n) Cache
     \<Rightarrow> ('e option) \<times> ('d, 's, 'n) Cache" where
  "Cache_NamedGet drv dest query arg c =
     (case Cache_namedStmt drv query c of
        (Inl err, c') \<Rightarrow> (Some err, c')
      | (Inr namedStmt, c') \<Rightarrow> driver_call EvRun (Named_Get drv None namedStmt dest arg) c')"

text \<open>
  \<^verbatim>\<open>func (c *Cache) NamedGetContext(ctx context.Context, dest interface{}, query string, arg interface{})\<close>
  (line 1147)
\<close>

definition Cache_NamedGetContext ::
  "('d, 's, 'n, 't, 'c, 'e, 'a, 'r) driver \<Rightarrow> 'c \<Rightarrow> 'a \<Rightarrow> query \<Rightarrow> 'a
     \<Rightarrow> ('d, 's, 'n) Cache
     \<Rightarrow> ('e option) \<times> ('d, 's, 'n) Cache" where
  "Cache_NamedGetContext drv ctx dest query arg c =
     (case Cache_namedStmtContext drv ctx query c of
        (Inl err, c') \<Rightarrow> (Some err, c')
      | (Inr namedStmt, c') \<Rightarrow> driver_call EvRun (Named_Get drv (Some ctx) namedStmt dest arg) c')"

text \<open>
  \<^verbatim>\<open>func (c *Cache) Select(dest interface{}, query string, args ...interface{})\<close>
  (line 1156)
\<close>

definition Cache_Select ::
  "('d, 's, 'n, 't, 'c, 'e, 'a, 'r) driver \<Rightarrow> 'a \<Rightarrow> query \<Rightarrow> 'a list
     \<Rightarrow> ('d, 's, 'n) Cache
     \<Rightarrow> ('e option) \<times> ('d, 's, 'n) Cache" where
  "Cache_Select drv dest query args c =
     (case Cache_stmt drv query c of
        (Inl err, c') \<Rightarrow> (Some err, c')
      | (Inr stmt, c') \<Rightarrow> driver_call EvRun (Stmt_Select drv None stmt dest args) c')"

text \<open>
  \<^verbatim>\<open>func (c *Cache) SelectContext(ctx context.Context, dest interface{}, query string, args ...interface{})\<close>
  (line 1165)
\<close>

definition Cache_SelectContext ::
  "('d, 's, 'n, 't, 'c, 'e, 'a, 'r) driver \<Rightarrow> 'c \<Rightarrow> 'a \<Rightarrow> query \<Rightarrow> 'a list
     \<Rightarrow> ('d, 's, 'n) Cache
     \<Rightarrow> ('e option) \<times> ('d, 's, 'n) Cache" where
  "Cache_SelectContext drv ctx dest query args c =
     (case Cache_stmtContext drv ctx query c of
        (Inl err, c') \<Rightarrow> (Some err, c')
      | (Inr stmt, c') \<Rightarrow> driver_call EvRun (Stmt_Select drv (Some ctx) stmt dest args) c')"

text \<open>
  \<^verbatim>\<open>func (c *Cache) NamedSelect(dest interface{}, query string, arg interface{})\<close>
  (line 1174)
\<close>

definition Cache_NamedSelect ::
  "('d, 's, 'n, 't, 'c, 'e, 'a, 'r) driver \<Rightarrow> 'a \<Rightarrow> query \<Rightarrow> 'a
     \<Rightarrow> ('d, 's, 'n) Cache
     \<Rightarrow> ('e option) \<times> ('d, 's, 'n) Cache" where
  "Cache_NamedSelect drv dest query arg c =
     (case Cache_namedStmt drv query c of
        (Inl err, c') \<Rightarrow> (Some err, c')
      | (Inr namedStmt, c') \<Rightarrow> driver_call EvRun (Named_Select drv None namedStmt dest arg) c')"

text \<open>
  \<^verbatim>\<open>func (c *Cache) NamedSelectContext(ctx context.Context, dest interface{}, query string, arg interface{})\<close>
  (line 1183)
\<close>

definition Cache_NamedSelectContext ::
  "('d, 's, 'n, 't, 'c, 'e, 'a, 'r) driver \<Rightarrow> 'c \<Rightarrow> 'a \<Rightarrow> query \<Rightarrow> 'a
     \<Rightarrow> ('d, 's, 'n) Cache
     \<Rightarrow> ('e option) \<times> ('d, 's, 'n) Cache" where
  "Cache_NamedSelectContext drv ctx dest query arg c =
     (case Cache_namedStmtContext drv ctx query c of
        (Inl err, c') \<Rightarrow> (Some err, c')
      | (Inr namedStmt, c') \<Rightarrow> driver_call EvRun (Named_Select drv (Some ctx) namedStmt dest arg) c')"


text \<open>\<^verbatim>\<open>func (c *Cache) Close() error\<close> (line 1196)\<close>

definition Cache_Close ::
  "('d, 's, 'n, 't, 'c, 'e, 'a, 'r) driver \<Rightarrow> ('d, 's, 'n) Cache
     \<Rightarrow> 'e option \<times> ('d, 's, 'n) Cache" where
  "Cache_Close drv c = driver_call EvClose (DB_Close drv) c"

section \<open>The transaction scope (second version, with its own maps)\<close>

text \<open>
  \<^verbatim>\<open>type Tx struct { c *Cache; tx *sqlx.Tx; stmts; namedStmts }\<close> (line 653).
  The fields \<^verbatim>\<open>stmts\<close> and \<^verbatim>\<open>namedStmts\<close> are \<open>tx_stmts\<close> and
  \<open>tx_namedStmts\<close> here (a record field name is global). The pointer
  \<^verbatim>\<open>c\<close> to the cache that began the transaction is not a field of the record:
  every method takes that cache as its last argument and returns it updated.
\<close>

record ('t, 's, 'n) Tx =
  tx :: 't
  tx_stmts :: "query \<rightharpoonup> 's"
  tx_namedStmts :: "query \<rightharpoonup> 'n"

text \<open>\<^verbatim>\<open>func (c *Cache) Begin() (*Tx, error)\<close> (line 660)\<close>

definition Cache_Begin ::
  "('d, 's, 'n, 't, 'c, 'e, 'a, 'r) driver \<Rightarrow> ('d, 's, 'n) Cache
     \<Rightarrow> ('e + ('t, 's, 'n) Tx) \<times> ('d, 's, 'n) Cache" where
  "Cache_Begin drv c =
     (case driver_call EvBeginx (Beginx drv None) c of
        (Inl err, c') \<Rightarrow> (Inl err, c')
      | (Inr x, c') \<Rightarrow>
          (Inr \<lparr>tx = x, tx_stmts = Map.empty, tx_namedStmts = Map.empty\<rparr>, c'))"

text \<open>\<^verbatim>\<open>func (c *Cache) BeginTx(ctx context.Context, opts *sql.TxOptions) (*Tx, error)\<close> (line 674)\<close>

definition Cache_BeginTx ::
  "('d, 's, 'n, 't, 'c, 'e, 'a, 'r) driver \<Rightarrow> 'c \<Rightarrow> TxOptions option \<Rightarrow> ('d, 's, 'n) Cache
     \<Rightarrow> ('e + ('t, 's, 'n) Tx) \<times> ('d, 's, 'n) Cache" where
  "Cache_BeginTx drv ctx opts c =
     (case driver_call EvBeginx (Beginx drv (Some (ctx, opts))) c of
        (Inl err, c') \<Rightarrow> (Inl err, c')
      | (Inr x, c') \<Rightarrow>
          (Inr \<lparr>tx = x, tx_stmts = Map.empty, tx_namedStmts = Map.empty\<rparr>, c'))"

text \<open>\<^verbatim>\<open>func (tx *Tx) stmt(query string) (*sqlx.Stmt, error)\<close> (line 688)\<close>

definition Tx_stmt ::
  "('d, 's, 'n, 't, 'c, 'e, 'a, 'r) driver \<Rightarrow> query \<Rightarrow> ('t, 's, 'n) Tx \<Rightarrow> ('d, 's, 'n) Cache
     \<Rightarrow> ('e + 's) \<times> ('t, 's, 'n) Tx \<times> ('d, 's, 'n) Cache" where
  "Tx_stmt drv query t c =
     (case tx_stmts t query of
        Some stmt \<Rightarrow> (Inr stmt, t, c)
      | None \<Rightarrow>
          (case Cache_stmt drv query c of
             (Inl err, c') \<Rightarrow> (Inl err, t, c')
           | (Inr cachedStmt, c') \<Rightarrow>
               (case driver_call EvStmtx (Stmtx drv None (tx t) cachedStmt) c' of
                  (stmt, c'') \<Rightarrow>
                    (Inr stmt, t\<lparr>tx_stmts := (tx_stmts t)(query \<mapsto> stmt)\<rparr>, c''))))"

text \<open>\<^verbatim>\<open>func (tx *Tx) stmtContext(ctx context.Context, query string) (*sqlx.Stmt, error)\<close> (line 704)\<close>

definition Tx_stmtContext ::
  "('d, 's, 'n, 't, 'c, 'e, 'a, 'r) driver \<Rightarrow> 'c \<Rightarrow> query \<Rightarrow> ('t, 's, 'n) Tx
     \<Rightarrow> ('d, 's, 'n) Cache \<Rightarrow> ('e + 's) \<times> ('t, 's, 'n) Tx \<times> ('d, 's, 'n) Cache" where
  "Tx_stmtContext drv ctx query t c =
     (case tx_stmts t query of
        Some stmt \<Rightarrow> (Inr stmt, t, c)
      | None \<Rightarrow>
          (case Cache_stmtContext drv ctx query c of
             (Inl err, c') \<Rightarrow> (Inl err, t, c')
           | (Inr cachedStmt, c') \<Rightarrow>
               (case driver_call EvStmtx (Stmtx drv (Some ctx) (tx t) cachedStmt) c' of
                  (stmt, c'') \<Rightarrow>
                    (Inr stmt, t\<lparr>tx_stmts := (tx_stmts t)(query \<mapsto> stmt)\<rparr>, c''))))"

text \<open>\<^verbatim>\<open>func (tx *Tx) namedStmt(query string) (*sqlx.NamedStmt, error)\<close> (line 720)\<close>

definition Tx_namedStmt ::
  "('d, 's, 'n, 't, 'c, 'e, 'a, 'r) driver \<Rightarrow> query \<Rightarrow> ('t, 's, 'n) Tx \<Rightarrow> ('d, 's, 'n) Cache
     \<Rightarrow> ('e + 'n) \<times> ('t, 's, 'n) Tx \<times> ('d, 's, 'n) Cache" where
  "Tx_namedStmt drv query t c =
     (case tx_namedStmts t query of
        Some namedStmt \<Rightarrow> (Inr namedStmt, t, c)
      | None \<Rightarrow>
          (case Cache_namedStmt drv query c of
             (Inl err, c') \<Rightarrow> (Inl err, t, c')
           | (Inr cachedNamedStmt, c') \<Rightarrow>
               (case driver_call EvNamedStmt (NamedStmt drv None (tx t) cachedNamedStmt) c' of
                  (namedStmt, c'') \<Rightarrow>
                    (Inr namedStmt,
                     t\<lparr>tx_namedStmts := (tx_namedStmts t)(query \<mapsto> namedStmt)\<rparr>, c''))))"

text \<open>\<^verbatim>\<open>func (tx *Tx) namedStmtContext(ctx context.Context, query string) (*sqlx.NamedStmt, error)\<close> (line 736)\<close>

definition Tx_namedStmtContext ::
  "('d, 's, 'n, 't, 'c, 'e, 'a, 'r) driver \<Rightarrow> 'c \<Rightarrow> query \<Rightarrow> ('t, 's, 'n) Tx
     \<Rightarrow> ('d, 's, 'n) Cache \<Rightarrow> ('e + 'n) \<times> ('t, 's, 'n) Tx \<times> ('d, 's, 'n) Cache" where
  "Tx_namedStmtContext drv ctx query t c =
     (case tx_namedStmts t query of
        Some namedStmt \<Rightarrow> (Inr namedStmt, t, c)
      | None \<Rightarrow>
          (case Cache_namedStmtContext drv ctx query c of
             (Inl err, c') \<Rightarrow> (Inl err, t, c')
           | (Inr cachedNamedStmt, c') \<Rightarrow>
               (case driver_call EvNamedStmt (NamedStmt drv (Some ctx) (tx t) cachedNamedStmt) c' of
                  (namedStmt, c'') \<Rightarrow>
                    (Inr namedStmt,
                     t\<lparr>tx_namedStmts := (tx_namedStmts t)(query \<mapsto> namedStmt)\<rparr>, c''))))"

subsection \<open>The forwarding methods of the transaction\<close>

text \<open>
  \<^verbatim>\<open>func (tx *Tx) Exec(query string, args ...interface{})\<close>
  (line 752)
\<close>

definition Tx_Exec ::
  "('d, 's, 'n, 't, 'c, 'e, 'a, 'r) driver \<Rightarrow> query \<Rightarrow> 'a list
     \<Rightarrow> ('t, 's, 'n) Tx \<Rightarrow> ('d, 's, 'n) Cache
     \<Rightarrow> ('e + 'r) \<times> ('t, 's, 'n) Tx \<times> ('d, 's, 'n) Cache" where
  "Tx_Exec drv query args t c =
     (case Tx_stmt drv query t c of
        (Inl err, t', c') \<Rightarrow> (Inl err, t', c')
      | (Inr stmt, t', c') \<Rightarrow>
          (case driver_call EvRun (Stmt_Exec drv None stmt args) c' of
             (r, c'') \<Rightarrow> (r, t', c'')))"

text \<open>
  \<^verbatim>\<open>func (tx *Tx) ExecContext(ctx context.Context, query string, args ...interface{})\<close>
  (line 761)
\<close>

definition Tx_ExecContext ::
  "('d, 's, 'n, 't, 'c, 'e, 'a, 'r) driver \<Rightarrow> 'c \<Rightarrow> query \<Rightarrow> 'a list
     \<Rightarrow> ('t, 's, 'n) Tx \<Rightarrow> ('d, 's, 'n) Cache
     \<Rightarrow> ('e + 'r) \<times> ('t, 's, 'n) Tx \<times> ('d, 's, 'n) Cache" where
  "Tx_ExecContext drv ctx query args t c =
     (case Tx_stmtContext drv ctx query t c of
        (Inl err, t', c') \<Rightarrow> (Inl err, t', c')
      | (Inr stmt, t', c') \<Rightarrow>
          (case driver_call EvRun (Stmt_Exec drv (Some ctx) stmt args) c' of
             (r, c'') \<Rightarrow> (r, t', c'')))"

text \<open>
  \<^verbatim>\<open>func (tx *Tx) NamedExec(query string, arg interface{})\<close>
  (line 770)
\<close>

definition Tx_NamedExec ::
  "('d, 's, 'n, 't, 'c, 'e, 'a, 'r) driver \<Rightarrow> query \<Rightarrow> 'a
     \<Rightarrow> ('t, 's, 'n) Tx \<Rightarrow> ('d, 's, 'n) Cache
     \<Rightarrow> ('e + 'r) \<times> ('t, 's, 'n) Tx \<times> ('d, 's, 'n) Cache" where
  "Tx_NamedExec drv query arg t c =
     (case Tx_namedStmt drv query t c of
        (Inl err, t', c') \<Rightarrow> (Inl err, t', c')
      | (Inr namedStmt, t', c') \<Rightarrow>
          (case driver_call EvRun (Named_Exec drv None namedStmt arg) c' of
             (r, c'') \<Rightarrow> (r, t', c'')))"

text \<open>
  \<^verbatim>\<open>func (tx *Tx) NamedExecContext(ctx context.Context, query string, arg interface{})\<close>
  (line 779)
\<close>

definition Tx_NamedExecContext ::
  "('d, 's, 'n, 't, 'c, 'e, 'a, 'r) driver \<Rightarrow> 'c \<Rightarrow> query \<Rightarrow> 'a
     \<Rightarrow> ('t, 's, 'n) Tx \<Rightarrow> ('d, 's, 'n) Cache
     \<Rightarrow> ('e + 'r) \<times> ('t, 's, 'n) Tx \<times> ('d, 's, 'n) Cache" where
  "Tx_NamedExecContext drv ctx query arg t c =
     (case Tx_namedStmtContext drv ctx query t c of
        (Inl err, t', c') \<Rightarrow> (Inl err, t', c')
      | (Inr namedStmt, t', c') \<Rightarrow>
          (case driver_call EvRun (Named_Exec drv (Some ctx) namedStmt arg) c' of
             (r, c'') \<Rightarrow> (r, t', c'')))"

text \<open>
  \<^verbatim>\<open>func (tx *Tx) Query(query string, args ...interface{})\<close>
  (line 788)
\<close>

definition Tx_Query ::
  "('d, 's, 'n, 't, 'c, 'e, 'a, 'r) driver \<Rightarrow> query \<Rightarrow> 'a list
     \<Rightarrow> ('t, 's, 'n) Tx \<Rightarrow> ('d, 's, 'n) Cache
     \<Rightarrow> ('e + 'r) \<times> ('t, 's, 'n) Tx \<times> ('d, 's, 'n) Cache" where
  "Tx_Query drv query args t c =
     (case Tx_stmt drv query t c of
        (Inl err, t', c') \<Rightarrow> (Inl err, t', c')
      | (Inr stmt, t', c') \<Rightarrow>
          (case driver_call EvRun (Stmt_Query drv None stmt args) c' of
             (r, c'') \<Rightarrow> (r, t', c'')))"

text \<open>
  \<^verbatim>\<open>func (tx *Tx) QueryContext(ctx context.Context, query string, args ...interface{})\<close>
  (line 797)
\<close>

definition Tx_QueryContext ::
  "('d, 's, 'n, 't, 'c, 'e, 'a, 'r) driver \<Rightarrow> 'c \<Rightarrow> query \<Rightarrow> 'a list
     \<Rightarrow> ('t, 's, 'n) Tx \<Rightarrow> ('d, 's, 'n) Cache
     \<Rightarrow> ('e + 'r) \<times> ('t, 's, 'n) Tx \<times> ('d, 's, 'n) Cache" where
  "Tx_QueryContext drv ctx query args t c =
     (case Tx_stmtContext drv ctx query t c of
        (Inl err, t', c') \<Rightarrow> (Inl err, t', c')
      | (Inr stmt, t', c') \<Rightarrow>
          (case driver_call EvRun (Stmt_Query drv (Some ctx) stmt args) c' of
             (r, c'') \<Rightarrow> (r, t', c'')))"

text \<open>
  \<^verbatim>\<open>func (tx *Tx) NamedQuery(query string, arg interface{})\<close>
  (line 806)
\<close>

definition Tx_NamedQuery ::
  "('d, 's, 'n, 't, 'c, 'e, 'a, 'r) driver \<Rightarrow> query \<Rightarrow> 'a
     \<Rightarrow> ('t, 's, 'n) Tx \<Rightarrow> ('d, 's, 'n) Cache
     \<Rightarrow> ('e + 'r) \<times> ('t, 's, 'n) Tx \<times> ('d, 's, 'n) Cache" where
  "Tx_NamedQuery drv query arg t c =
     (case Tx_namedStmt drv query t c of
        (Inl err, t', c') \<Rightarrow> (Inl err, t', c')
      | (Inr namedStmt, t', c') \<Rightarrow>
          (case driver_call EvRun (Named_Query drv None namedStmt arg) c' of
             (r, c'') \<Rightarrow> (r, t', c'')))"

text \<open>
  \<^verbatim>\<open>func (tx *Tx) NamedQueryContext(ctx context.Context, query string, arg interface{})\<close>
  (line 815)
\<close>

definition Tx_NamedQueryContext ::
  "('d, 's, 'n, 't, 'c, 'e, 'a, 'r) driver \<Rightarrow> 'c \<Rightarrow> query \<Rightarrow> 'a
     \<Rightarrow> ('t, 's, 'n) Tx \<Rightarrow> ('d, 's, 'n) Cache
     \<Rightarrow> ('e + 'r) \<times> ('t, 's, 'n) Tx \<times> ('d, 's, 'n) Cache" where
  "Tx_NamedQueryContext drv ctx query arg t c =
     (case Tx_namedStmtContext drv ctx query t c of
        (Inl err, t', c') \<Rightarrow> (Inl err, t', c')
      | (Inr namedStmt, t', c') \<Rightarrow>
          (case driver_call EvRun (Named_Query drv (Some ctx) namedStmt arg) c' of
             (r, c'') \<Rightarrow> (r, t', c'')))"

text \<open>
  \<^verbatim>\<open>func (tx *Tx) Queryx(query string, args ...interface{})\<close>
  (line 824)
\<close>

definition Tx_Queryx ::
  "('d, 's, 'n, 't, 'c, 'e, 'a, 'r) driver \<Rightarrow> query \<Rightarrow> 'a list
     \<Rightarrow> ('t, 's, 'n) Tx \<Rightarrow> ('d, 's, 'n) Cache
     \<Rightarrow> ('e + 'r) \<times> ('t, 's, 'n) Tx \<times> ('d, 's, 'n) Cache" where
  "Tx_Queryx drv query args t c =
     (case Tx_stmt drv query t c of
        (Inl err, t', c') \<Rightarrow> (Inl err, t', c')
      | (Inr stmt, t', c') \<Rightarrow>
          (case driver_call EvRun (Stmt_Queryx drv None stmt args) c' of
             (r, c'') \<Rightarrow> (r, t', c'')))"

text \<open>
  \<^verbatim>\<open>func (tx *Tx) QueryxContext(ctx context.Context, query string, args ...interface{})\<close>
  (line 833)
\<close>

definition Tx_QueryxContext ::
  "('d, 's, 'n, 't, 'c, 'e, 'a, 'r) driver \<Rightarrow> 'c \<Rightarrow> query \<Rightarrow> 'a list
     \<Rightarrow> ('t, 's, 'n) Tx \<Rightarrow> ('d, 's, 'n) Cache
     \<Rightarrow> ('e + 'r) \<times> ('t, 's, 'n) Tx \<times> ('d, 's, 'n) Cache" where
  "Tx_QueryxContext drv ctx query args t c =
     (case Tx_stmtContext drv ctx query t c of
        (Inl err, t', c') \<Rightarrow> (Inl err, t', c')
      | (Inr stmt, t', c') \<Rightarrow>
          (case driver_call EvRun (Stmt_Queryx drv (Some ctx) stmt args) c' of
             (r, c'') \<Rightarrow> (r, t', c'')))"

text \<open>
  \<^verbatim>\<open>func (tx *Tx) NamedQueryx(query string, arg interface{})\<close>
  (line 842)
\<close>

definition Tx_NamedQueryx ::
  "('d, 's, 'n, 't, 'c, 'e, 'a, 'r) driver \<Rightarrow> query \<Rightarrow> 'a
     \<Rightarrow> ('t, 's, 'n) Tx \<Rightarrow> ('d, 's, 'n) Cache
     \<Rightarrow> ('e + 'r) \<times> ('t, 's, 'n) Tx \<times> ('d, 's, 'n) Cache" where
  "Tx_NamedQueryx drv query arg t c =
     (case Tx_namedStmt drv query t c of
        (Inl err, t', c') \<Rightarrow> (Inl err, t', c')
      | (Inr namedStmt, t', c') \<Rightarrow>
          (case driver_call EvRun (Named_Queryx drv None namedStmt arg) c' of
             (r, c'') \<Rightarrow> (r, t', c'')))"

text \<open>
  \<^verbatim>\<open>func (tx *Tx) NamedQueryxContext(ctx context.Context, query string, arg interface{})\<close>
  (line 851)
\<close>

definition Tx_NamedQueryxContext ::
  "('d, 's, 'n, 't, 'c, 'e, 'a, 'r) driver \<Rightarrow> 'c \<Rightarrow> query \<Rightarrow> 'a
     \<Rightarrow> ('t, 's, 'n) Tx \<Rightarrow> ('d, 's, 'n) Cache
     \<Rightarrow> ('e + 'r) \<times> ('t, 's, 'n) Tx \<times> ('d, 's, 'n) Cache" where
  "Tx_NamedQueryxContext drv ctx query arg t c =
     (case Tx_namedStmtContext drv ctx query t c of
        (Inl err, t', c') \<Rightarrow> (Inl err, t', c')
      | (Inr namedStmt, t', c') \<Rightarrow>
          (case driver_call EvRun (Named_Queryx drv (Some ctx) namedStmt arg) c' of
             (r, c'') \<Rightarrow> (r, t', c'')))"

text \<open>
  \<^verbatim>\<open>func (tx *Tx) QueryxRow(query string, args ...interface{})\<close>
  (line 860)
\<close>

definition Tx_QueryxRow ::
  "('d, 's, 'n, 't, 'c, 'e, 'a, 'r) driver \<Rightarrow> query \<Rightarrow> 'a list
     \<Rightarrow> ('t, 's, 'n) Tx \<Rightarrow> ('d, 's, 'n) Cache
     \<Rightarrow> ('e + 'r) \<times> ('t, 's, 'n) Tx \<times> ('d, 's, 'n) Cache" where
  "Tx_QueryxRow drv query args t c =
     (case Tx_stmt drv query t c of
        (Inl err, t', c') \<Rightarrow> (Inl err, t', c')
      | (Inr stmt, t', c') \<Rightarrow>
          (case driver_call EvRun (Stmt_QueryRowx drv None stmt args) c' of
             (row, c'') \<Rightarrow> (Inr row, t', c'')))"

text \<open>
  \<^verbatim>\<open>func (tx *Tx) QueryRowxContext(ctx context.Context, query string, args ...interface{})\<close>
  (line 869)
\<close>

definition Tx_QueryRowxContext ::
  "('d, 's, 'n, 't, 'c, 'e, 'a, 'r) driver \<Rightarrow> 'c \<Rightarrow> query \<Rightarrow> 'a list
     \<Rightarrow> ('t, 's, 'n) Tx \<Rightarrow> ('d, 's, 'n) Cache
     \<Rightarrow> ('e + 'r) \<times> ('t, 's, 'n) Tx \<times> ('d, 's, 'n) Cache" where
  "Tx_QueryRowxContext drv ctx query args t c =
     (case Tx_stmtContext drv ctx query t c of
        (Inl err, t', c') \<Rightarrow> (Inl err, t', c')
      | (Inr stmt, t', c') \<Rightarrow>
          (case driver_call EvRun (Stmt_QueryRowx drv (Some ctx) stmt args) c' of
             (row, c'') \<Rightarrow> (Inr row, t', c'')))"

text \<open>
  \<^verbatim>\<open>func (tx *Tx) NamedQueryRow(query string, arg interface{})\<close>
  (line 878)
\<close>

definition Tx_NamedQueryRow ::
  "('d, 's, 'n, 't, 'c, 'e, 'a, 'r) driver \<Rightarrow> query \<Rightarrow> 'a
     \<Rightarrow> ('t, 's, 'n) Tx \<Rightarrow> ('d, 's, 'n) Cache
     \<Rightarrow> ('e + 'r) \<times> ('t, 's, 'n) Tx \<times> ('d, 's, 'n) Cache" where
  "Tx_NamedQueryRow drv query arg t c =
     (case Tx_namedStmt drv query t c of
        (Inl err, t', c') \<Rightarrow> (Inl err, t', c')
      | (Inr namedStmt, t', c') \<Rightarrow>
          (case driver_call EvRun (Named_QueryRow drv None namedStmt arg) c' of
             (row, c'') \<Rightarrow> (Inr row, t', c'')))"

text \<open>
  \<^verbatim>\<open>func (tx *Tx) NamedQueryRowContext(ctx context.Context, query string, arg interface{})\<close>
  (line 887)
\<close>

definition Tx_NamedQueryRowContext ::
  "('d, 's, 'n, 't, 'c, 'e, 'a, 'r) driver \<Rightarrow> 'c \<Rightarrow> query \<Rightarrow> 'a
     \<Rightarrow> ('t, 's, 'n) Tx \<Rightarrow> ('d, 's, 'n) Cache
     \<Rightarrow> ('e + 'r) \<times> ('t, 's, 'n) Tx \<times> ('d, 's, 'n) Cache" where
  "Tx_NamedQueryRowContext drv ctx query arg t c =
     (case Tx_namedStmtContext drv ctx query t c of
        (Inl err, t', c') \<Rightarrow> (Inl err, t', c')
      | (Inr namedStmt, t', c') \<Rightarrow>
          (case driver_call EvRun (Named_QueryRow drv (Some ctx) namedStmt arg) c' of
             (row, c'') \<Rightarrow> (Inr row, t', c'')))"

text \<open>
  \<^verbatim>\<open>func (tx *Tx) Get(dest interface{}, query string, args ...interface{})\<close>
  (line 896)
\<close>

definition Tx_Get ::
  "('d, 's, 'n, 't, 'c, 'e, 'a, 'r) driver \<Rightarrow> 'a \<Rightarrow> query \<Rightarrow> 'a list
     \<Rightarrow> ('t, 's, 'n) Tx \<Rightarrow> ('d, 's, 'n) Cache
     \<Rightarrow> ('e option) \<times> ('t, 's, 'n) Tx \<times> ('d, 's, 'n) Cache" where
  "Tx_Get drv dest query args t c =
     (case Tx_stmt drv query t c of
        (Inl err, t', c') \<Rightarrow> (Some err, t', c')
      | (Inr stmt, t', c') \<Rightarrow>
          (case driver_call EvRun (Stmt_Get drv None stmt dest args) c' of
             (r, c'') \<Rightarrow> (r, t', c'')))"

text \<open>
  \<^verbatim>\<open>func (tx *Tx) GetContext(ctx context.Context, dest interface{}, query string, args ...interface{})\<close>
  (line 905)
\<close>

definition Tx_GetContext ::
  "('d, 's, 'n, 't, 'c, 'e, 'a, 'r) driver \<Rightarrow> 'c \<Rightarrow> 'a \<Rightarrow> query \<Rightarrow> 'a list
     \<Rightarrow> ('t, 's, 'n) Tx \<Rightarrow> ('d, 's, 'n) Cache
     \<Rightarrow> ('e option) \<times> ('t, 's, 'n) Tx \<times> ('d, 's, 'n) Cache" where
  "Tx_GetContext drv ctx dest query args t c =
     (case Tx_stmtContext drv ctx query t c of
        (Inl err, t', c') \<Rightarrow> (Some err, t', c')
      | (Inr stmt, t', c') \<Rightarrow>
          (case driver_call EvRun (Stmt_Get drv (Some ctx) stmt dest args) c' of
             (r, c'') \<Rightarrow> (r, t', c'')))"

text \<open>
  \<^verbatim>\<open>func (tx *Tx) NamedGet(dest interface{}, query string, arg interface{})\<close>
  (line 914)
\<close>

definition Tx_NamedGet ::
  "('d, 's, 'n, 't, 'c, 'e, 'a, 'r) driver \<Rightarrow> 'a \<Rightarrow> query \<Rightarrow> 'a
     \<Rightarrow> ('t, 's, 'n) Tx \<Rightarrow> ('d, 's, 'n) Cache
     \<Rightarrow> ('e option) \<times> ('t, 's, 'n) Tx \<times> ('d, 's, 'n) Cache" where
  "Tx_NamedGet drv dest query arg t c =
     (case Tx_namedStmt drv query t c of
        (Inl err, t', c') \<Rightarrow> (Some err, t', c')
      | (Inr namedStmt, t', c') \<Rightarrow>
          (case driver_call EvNamedStmt (NamedStmt drv None (tx t') namedStmt) c' of
             (bound, c'') \<Rightarrow>
               (case driver_call EvRun (Named_Get drv None bound dest arg) c'' of
                  (r, c''') \<Rightarrow> (r, t', c'''))))"

text \<open>
  \<^verbatim>\<open>func (tx *Tx) NamedGetContext(ctx context.Context, dest interface{}, query string, arg interface{})\<close>
  (line 923)
\<close>

definition Tx_NamedGetContext ::
  "('d, 's, 'n, 't, 'c, 'e, 'a, 'r) driver \<Rightarrow> 'c \<Rightarrow> 'a \<Rightarrow> query \<Rightarrow> 'a
     \<Rightarrow> ('t, 's, 'n) Tx \<Rightarrow> ('d, 's, 'n) Cache
     \<Rightarrow> ('e option) \<times> ('t, 's, 'n) Tx \<times> ('d, 's, 'n) Cache" where
  "Tx_NamedGetContext drv ctx dest query arg t c =
     (case Tx_namedStmtContext drv ctx query t c of
        (Inl err, t', c') \<Rightarrow> (Some err, t', c')
      | (Inr namedStmt, t', c') \<Rightarrow>
          (case driver_call EvNamedStmt (NamedStmt drv (Some ctx) (tx t') namedStmt) c' of
             (bound, c'') \<Rightarrow>
               (case driver_call EvRun (Named_Get drv (Some ctx) bound dest arg) c'' of
                  (r, c''') \<Rightarrow> (r, t', c'''))))"

text \<open>
  \<^verbatim>\<open>func (tx *Tx) Select(dest interface{}, query string, args ...interface{})\<close>
  (line 932)
\<close>

definition Tx_Select ::
  "('d, 's, 'n, 't, 'c, 'e, 'a, 'r) driver \<Rightarrow> 'a \<Rightarrow> query \<Rightarrow> 'a list
     \<Rightarrow> ('t, 's, 'n) Tx \<Rightarrow> ('d, 's, 'n) Cache
     \<Rightarrow> ('e option) \<times> ('t, 's, 'n) Tx \<times> ('d, 's, 'n) Cache" where
  "Tx_Select drv dest query args t c =
     (case Tx_stmt drv query t c of
        (Inl err, t', c') \<Rightarrow> (Some err, t', c')
      | (Inr stmt, t', c') \<Rightarrow>
          (case driver_call EvRun (Stmt_Select drv None stmt dest args) c' of
             (r, c'') \<Rightarrow> (r, t', c'')))"

text \<open>
  \<^verbatim>\<open>func (tx *Tx) SelectContext(ctx context.Context, dest interface{}, query string, args ...interface{})\<close>
  (line 941)
\<close>

definition Tx_SelectContext ::
  "('d, 's, 'n, 't, 'c, 'e, 'a, 'r) driver \<Rightarrow> 'c \<Rightarrow> 'a \<Rightarrow> query \<Rightarrow> 'a list
     \<Rightarrow> ('t, 's, 'n) Tx \<Rightarrow> ('d, 's, 'n) Cache
     \<Rightarrow> ('e option) \<times> ('t, 's, 'n) Tx \<times> ('d, 's, 'n) Cache" where
  "Tx_SelectContext drv ctx dest query args t c =
     (case Tx_stmtContext drv ctx query t c of
        (Inl err, t', c') \<Rightarrow> (Some err, t', c')
      | (Inr stmt, t', c') \<Rightarrow>
          (case driver_call EvRun (Stmt_Select drv (Some ctx) stmt dest args) c' of
             (r, c'') \<Rightarrow> (r, t', c'')))"

text \<open>
  \<^verbatim>\<open>func (tx *Tx) NamedSelect(dest interface{}, query string, arg interface{})\<close>
  (line 950)
\<close>

definition Tx_NamedSelect ::
  "('d, 's, 'n, 't, 'c, 'e, 'a, 'r) driver \<Rightarrow> 'a \<Rightarrow> query \<Rightarrow> 'a
     \<Rightarrow> ('t, 's, 'n) Tx \<Rightarrow> ('d, 's, 'n) Cache
     \<Rightarrow> ('e option) \<times> ('t, 's, 'n) Tx \<times> ('d, 's, 'n) Cache" where
  "Tx_NamedSelect drv dest query arg t c =
     (case Tx_namedStmt drv query t c of
        (Inl err, t', c') \<Rightarrow> (Some err, t', c')
      | (Inr namedStmt, t', c') \<Rightarrow>
          (case driver_call EvNamedStmt (NamedStmt drv None (tx t') namedStmt) c' of
             (bound, c'') \<Rightarrow>
               (case driver_call EvRun (Named_Select drv None bound dest arg) c'' of
                  (r, c''') \<Rightarrow> (r, t', c'''))))"

text \<open>
  \<^verbatim>\<open>func (tx *Tx) NamedSelectContext(ctx context.Context, dest interface{}, query string, arg interface{})\<close>
  (line 959)
\<close>

definition Tx_NamedSelectContext ::
  "('d, 's, 'n, 't, 'c, 'e, 'a, 'r) driver \<Rightarrow> 'c \<Rightarrow> 'a \<Rightarrow> query \<Rightarrow> 'a
     \<Rightarrow> ('t, 's, 'n) Tx \<Rightarrow> ('d, 's, 'n) Cache
     \<Rightarrow> ('e option) \<times> ('t, 's, 'n) Tx \<times> ('d, 's, 'n) Cache" where
  "Tx_NamedSelectContext drv ctx dest query arg t c =
     (case Tx_namedStmtContext drv ctx query t c of
        (Inl err, t', c') \<Rightarrow> (Some err, t', c')
      | (Inr namedStmt, t', c') \<Rightarrow>
          (case driver_call EvNamedStmt (NamedStmt drv (Some ctx) (tx t') namedStmt) c' of
             (bound, c'') \<Rightarrow>
               (case driver_call EvRun (Named_Select drv (Some ctx) bound dest arg) c'' of
                  (r, c''') \<Rightarrow> (r, t', c'''))))"


text \<open>\<^verbatim>\<open>func (tx *Tx) Rollback() error\<close> (line 968)\<close>

definition Tx_Rollback ::
  "('d, 's, 'n, 't, 'c, 'e, 'a, 'r) driver \<Rightarrow> ('t, 's, 'n) Tx \<Rightarrow> ('d, 's, 'n) Cache
     \<Rightarrow> 'e option \<times> ('t, 's, 'n) Tx \<times> ('d, 's, 'n) Cache" where
  "Tx_Rollback drv t c =
     (case driver_call EvRollback (SqlxTx_Rollback drv (tx t)) c of (r, c') \<Rightarrow> (r, t, c'))"

text \<open>\<^verbatim>\<open>func (tx *Tx) Commit() error\<close> (line 972)\<close>

definition Tx_Commit ::
  "('d, 's, 'n, 't, 'c, 'e, 'a, 'r) driver \<Rightarrow> ('t, 's, 'n) Tx \<Rightarrow> ('d, 's, 'n) Cache
     \<Rightarrow> 'e option \<times> ('t, 's, 'n) Tx \<times> ('d, 's, 'n) Cache" where
  "Tx_Commit drv t c =
     (case driver_call EvCommit (SqlxTx_Commit drv (tx t)) c of (r, c') \<Rightarrow> (r, t, c'))"

section \<open>The transaction scope (first version, without maps of its own)\<close>

text \<open>
  The file holds an earlier version of the package before the one above (lines 1 to
  546). Its \<^verbatim>\<open>Cache\<close> is the same text (lines 11 to 105 and 324 to 546 are
  lines 557 to 651 and 976 to 1198), so the definitions of the previous sections model
  both. Its \<^verbatim>\<open>type Tx struct { c *Cache; tx *sqlx.Tx }\<close> (line 107) has no maps:
  a transaction is its \<^verbatim>\<open>*sqlx.Tx\<close>, the value \<open>x\<close> below, and every method
  resolves the statement in the pool-level cache and re-binds it into the transaction.

  \<^verbatim>\<open>NamedQuery\<close>, \<^verbatim>\<open>NamedQueryx\<close> and their context variants hand the
  \<^verbatim>\<open>*sqlx.NamedStmt\<close> to \<^verbatim>\<open>tx.tx.Stmtx\<close>, whose parameter has type
  \<^verbatim>\<open>interface{}\<close>. That call is the driver field \<open>Stmtx_of_NamedStmt\<close>; its
  result \<open>None\<close> is a panic inside sqlx, and then the method returns nothing.
\<close>

text \<open>
  First version,
  \<^verbatim>\<open>func (tx *Tx) Exec(query string, args ...interface{})\<close>
  (line 136)
\<close>

definition Tx1_Exec ::
  "('d, 's, 'n, 't, 'c, 'e, 'a, 'r) driver \<Rightarrow> query \<Rightarrow> 'a list
     \<Rightarrow> 't \<Rightarrow> ('d, 's, 'n) Cache
     \<Rightarrow> ('e + 'r) \<times> ('d, 's, 'n) Cache" where
  "Tx1_Exec drv query args x c =
     (case Cache_stmt drv query c of
        (Inl err, c') \<Rightarrow> (Inl err, c')
      | (Inr stmt, c') \<Rightarrow>
          (case driver_call EvStmtx (Stmtx drv None x stmt) c' of
             (bound, c'') \<Rightarrow> driver_call EvRun (Stmt_Exec drv None bound args) c''))"

text \<open>
  First version,
  \<^verbatim>\<open>func (tx *Tx) ExecContext(ctx context.Context, query string, args ...interface{})\<close>
  (line 145)
\<close>

definition Tx1_ExecContext ::
  "('d, 's, 'n, 't, 'c, 'e, 'a, 'r) driver \<Rightarrow> 'c \<Rightarrow> query \<Rightarrow> 'a list
     \<Rightarrow> 't \<Rightarrow> ('d, 's, 'n) Cache
     \<Rightarrow> ('e + 'r) \<times> ('d, 's, 'n) Cache" where
  "Tx1_ExecContext drv ctx query args x c =
     (case Cache_stmtContext drv ctx query c of
        (Inl err, c') \<Rightarrow> (Inl err, c')
      | (Inr stmt, c') \<Rightarrow>
          (case driver_call EvStmtx (Stmtx drv (Some ctx) x stmt) c' of
             (bound, c'') \<Rightarrow> driver_call EvRun (Stmt_Exec drv (Some ctx) bound args) c''))"

text \<open>
  First version,
  \<^verbatim>\<open>func (tx *Tx) NamedExec(query string, arg interface{})\<close>
  (line 154)
\<close>

definition Tx1_NamedExec ::
  "('d, 's, 'n, 't, 'c, 'e, 'a, 'r) driver \<Rightarrow> query \<Rightarrow> 'a
     \<Rightarrow> 't \<Rightarrow> ('d, 's, 'n) Cache
     \<Rightarrow> ('e + 'r) \<times> ('d, 's, 'n) Cache" where
  "Tx1_NamedExec drv query arg x c =
     (case Cache_namedStmt drv query c of
        (Inl err, c') \<Rightarrow> (Inl err, c')
      | (Inr namedStmt, c') \<Rightarrow>
          (case driver_call EvNamedStmt (NamedStmt drv None x namedStmt) c' of
             (bound, c'') \<Rightarrow> driver_call EvRun (Named_Exec drv None bound arg) c''))"

text \<open>
  First version,
  \<^verbatim>\<open>func (tx *Tx) NamedExecContext(ctx context.Context, query string, arg interface{})\<close>
  (line 163)
\<close>

definition Tx1_NamedExecContext ::
  "('d, 's, 'n, 't, 'c, 'e, 'a, 'r) driver \<Rightarrow> 'c \<Rightarrow> query \<Rightarrow> 'a
     \<Rightarrow> 't \<Rightarrow> ('d, 's, 'n) Cache
     \<Rightarrow> ('e + 'r) \<times> ('d, 's, 'n) Cache" where
  "Tx1_NamedExecContext drv ctx query arg x c =
     (case Cache_namedStmtContext drv ctx query c of
        (Inl err, c') \<Rightarrow> (Inl err, c')
      | (Inr namedStmt, c') \<Rightarrow>
          (case driver_call EvNamedStmt (NamedStmt drv (Some ctx) x namedStmt) c' of
             (bound, c'') \<Rightarrow> driver_call EvRun (Named_Exec drv (Some ctx) bound arg) c''))"

text \<open>
  First version,
  \<^verbatim>\<open>func (tx *Tx) Query(query string, args ...interface{})\<close>
  (line 172)
\<close>

definition Tx1_Query ::
  "('d, 's, 'n, 't, 'c, 'e, 'a, 'r) driver \<Rightarrow> query \<Rightarrow> 'a list
     \<Rightarrow> 't \<Rightarrow> ('d, 's, 'n) Cache
     \<Rightarrow> ('e + 'r) \<times> ('d, 's, 'n) Cache" where
  "Tx1_Query drv query args x c =
     (case Cache_stmt drv query c of
        (Inl err, c') \<Rightarrow> (Inl err, c')
      | (Inr stmt, c') \<Rightarrow>
          (case driver_call EvStmtx (Stmtx drv None x stmt) c' of
             (bound, c'') \<Rightarrow> driver_call EvRun (Stmt_Query drv None bound args) c''))"

text \<open>
  First version,
  \<^verbatim>\<open>func (tx *Tx) QueryContext(ctx context.Context, query string, args ...interface{})\<close>
  (line 181)
\<close>

definition Tx1_QueryContext ::
  "('d, 's, 'n, 't, 'c, 'e, 'a, 'r) driver \<Rightarrow> 'c \<Rightarrow> query \<Rightarrow> 'a list
     \<Rightarrow> 't \<Rightarrow> ('d, 's, 'n) Cache
     \<Rightarrow> ('e + 'r) \<times> ('d, 's, 'n) Cache" where
  "Tx1_QueryContext drv ctx query args x c =
     (case Cache_stmtContext drv ctx query c of
        (Inl err, c') \<Rightarrow> (Inl err, c')
      | (Inr stmt, c') \<Rightarrow>
          (case driver_call EvStmtx (Stmtx drv (Some ctx) x stmt) c' of
             (bound, c'') \<Rightarrow> driver_call EvRun (Stmt_Query drv (Some ctx) bound args) c''))"

text \<open>
  First version,
  \<^verbatim>\<open>func (tx *Tx) NamedQuery(query string, arg interface{})\<close>
  (line 190)
\<close>

definition Tx1_NamedQuery ::
  "('d, 's, 'n, 't, 'c, 'e, 'a, 'r) driver \<Rightarrow> query \<Rightarrow> 'a
     \<Rightarrow> 't \<Rightarrow> ('d, 's, 'n) Cache
     \<Rightarrow> ('e + 'r) option \<times> ('d, 's, 'n) Cache" where
  "Tx1_NamedQuery drv query arg x c =
     (case Cache_namedStmt drv query c of
        (Inl err, c') \<Rightarrow> (Some (Inl err), c')
      | (Inr namedStmt, c') \<Rightarrow>
          (case driver_call EvStmtx_of_NamedStmt (Stmtx_of_NamedStmt drv None x namedStmt) c' of
             (None, c'') \<Rightarrow> (None, c'')
           | (Some bound, c'') \<Rightarrow>
               (case driver_call EvRun (Stmt_Query drv None bound [arg]) c'' of
                  (r, c''') \<Rightarrow> (Some r, c'''))))"

text \<open>
  First version,
  \<^verbatim>\<open>func (tx *Tx) NamedQueryContext(ctx context.Context, query string, arg interface{})\<close>
  (line 199)
\<close>

definition Tx1_NamedQueryContext ::
  "('d, 's, 'n, 't, 'c, 'e, 'a, 'r) driver \<Rightarrow> 'c \<Rightarrow> query \<Rightarrow> 'a
     \<Rightarrow> 't \<Rightarrow> ('d, 's, 'n) Cache
     \<Rightarrow> ('e + 'r) option \<times> ('d, 's, 'n) Cache" where
  "Tx1_NamedQueryContext drv ctx query arg x c =
     (case Cache_namedStmtContext drv ctx query c of
        (Inl err, c') \<Rightarrow> (Some (Inl err), c')
      | (Inr namedStmt, c') \<Rightarrow>
          (case driver_call EvStmtx_of_NamedStmt (Stmtx_of_NamedStmt drv (Some ctx) x namedStmt) c' of
             (None, c'') \<Rightarrow> (None, c'')
           | (Some bound, c'') \<Rightarrow>
               (case driver_call EvRun (Stmt_Query drv (Some ctx) bound [arg]) c'' of
                  (r, c''') \<Rightarrow> (Some r, c'''))))"

text \<open>
  First version,
  \<^verbatim>\<open>func (tx *Tx) Queryx(query string, args ...interface{})\<close>
  (line 208)
\<close>

definition Tx1_Queryx ::
  "('d, 's, 'n, 't, 'c, 'e, 'a, 'r) driver \<Rightarrow> query \<Rightarrow> 'a list
     \<Rightarrow> 't \<Rightarrow> ('d, 's, 'n) Cache
     \<Rightarrow> ('e + 'r) \<times> ('d, 's, 'n) Cache" where
  "Tx1_Queryx drv query args x c =
     (case Cache_stmt drv query c of
        (Inl err, c') \<Rightarrow> (Inl err, c')
      | (Inr stmt, c') \<Rightarrow>
          (case driver_call EvStmtx (Stmtx drv None x stmt) c' of
             (bound, c'') \<Rightarrow> driver_call EvRun (Stmt_Queryx drv None bound args) c''))"

text \<open>
  First version,
  \<^verbatim>\<open>func (tx *Tx) QueryxContext(ctx context.Context, query string, args ...interface{})\<close>
  (line 217)
\<close>

definition Tx1_QueryxContext ::
  "('d, 's, 'n, 't, 'c, 'e, 'a, 'r) driver \<Rightarrow> 'c \<Rightarrow> query \<Rightarrow> 'a list
     \<Rightarrow> 't \<Rightarrow> ('d, 's, 'n) Cache
     \<Rightarrow> ('e + 'r) \<times> ('d, 's, 'n) Cache" where
  "Tx1_QueryxContext drv ctx query args x c =
     (case Cache_stmtContext drv ctx query c of
        (Inl err, c') \<Rightarrow> (Inl err, c')
      | (Inr stmt, c') \<Rightarrow>
          (case driver_call EvStmtx (Stmtx drv (Some ctx) x stmt) c' of
             (bound, c'') \<Rightarrow> driver_call EvRun (Stmt_Queryx drv (Some ctx) bound args) c''))"

text \<open>
  First version,
  \<^verbatim>\<open>func (tx *Tx) NamedQueryx(query string, arg interface{})\<close>
  (line 226)
\<close>

definition Tx1_NamedQueryx ::
  "('d, 's, 'n, 't, 'c, 'e, 'a, 'r) driver \<Rightarrow> query \<Rightarrow> 'a
     \<Rightarrow> 't \<Rightarrow> ('d, 's, 'n) Cache
     \<Rightarrow> ('e + 'r) option \<times> ('d, 's, 'n) Cache" where
  "Tx1_NamedQueryx drv query arg x c =
     (case Cache_namedStmt drv query c of
        (Inl err, c') \<Rightarrow> (Some (Inl err), c')
      | (Inr namedStmt, c') \<Rightarrow>
          (case driver_call EvStmtx_of_NamedStmt (Stmtx_of_NamedStmt drv None x namedStmt) c' of
             (None, c'') \<Rightarrow> (None, c'')
           | (Some bound, c'') \<Rightarrow>
               (case driver_call EvRun (Stmt_Queryx drv None bound [arg]) c'' of
                  (r, c''') \<Rightarrow> (Some r, c'''))))"

text \<open>
  First version,
  \<^verbatim>\<open>func (tx *Tx) NamedQueryxContext(ctx context.Context, query string, arg interface{})\<close>
  (line 235)
\<close>

definition Tx1_NamedQueryxContext ::
  "('d, 's, 'n, 't, 'c, 'e, 'a, 'r) driver \<Rightarrow> 'c \<Rightarrow> query \<Rightarrow> 'a
     \<Rightarrow> 't \<Rightarrow> ('d, 's, 'n) Cache
     \<Rightarrow> ('e + 'r) option \<times> ('d, 's, 'n) Cache" where
  "Tx1_NamedQueryxContext drv ctx query arg x c =
     (case Cache_namedStmtContext drv ctx query c of
        (Inl err, c') \<Rightarrow> (Some (Inl err), c')
      | (Inr namedStmt, c') \<Rightarrow>
          (case driver_call EvStmtx_of_NamedStmt (Stmtx_of_NamedStmt drv (Some ctx) x namedStmt) c' of
             (None, c'') \<Rightarrow> (None, c'')
           | (Some bound, c'') \<Rightarrow>
               (case driver_call EvRun (Stmt_Queryx drv (Some ctx) bound [arg]) c'' of
                  (r, c''') \<Rightarrow> (Some r, c'''))))"

text \<open>
  First version,
  \<^verbatim>\<open>func (tx *Tx) Get(dest interface{}, query string, args ...interface{})\<close>
  (line 244)
\<close>

definition Tx1_Get ::
  "('d, 's, 'n, 't, 'c, 'e, 'a, 'r) driver \<Rightarrow> 'a \<Rightarrow> query \<Rightarrow> 'a list
     \<Rightarrow> 't \<Rightarrow> ('d, 's, 'n) Cache
     \<Rightarrow> ('e option) \<times> ('d, 's, 'n) Cache" where
  "Tx1_Get drv dest query args x c =
     (case Cache_stmt drv query c of
        (Inl err, c') \<Rightarrow> (Some err, c')
      | (Inr stmt, c') \<Rightarrow>
          (case driver_call EvStmtx (Stmtx drv None x stmt) c' of
             (bound, c'') \<Rightarrow> driver_call EvRun (Stmt_Get drv None bound dest args) c''))"

text \<open>
  First version,
  \<^verbatim>\<open>func (tx *Tx) GetContext(ctx context.Context, dest interface{}, query string, args ...interface{})\<close>
  (line 253)
\<close>

definition Tx1_GetContext ::
  "('d, 's, 'n, 't, 'c, 'e, 'a, 'r) driver \<Rightarrow> 'c \<Rightarrow> 'a \<Rightarrow> query \<Rightarrow> 'a list
     \<Rightarrow> 't \<Rightarrow> ('d, 's, 'n) Cache
     \<Rightarrow> ('e option) \<times> ('d, 's, 'n) Cache" where
  "Tx1_GetContext drv ctx dest query args x c =
     (case Cache_stmtContext drv ctx query c of
        (Inl err, c') \<Rightarrow> (Some err, c')
      | (Inr stmt, c') \<Rightarrow>
          (case driver_call EvStmtx (Stmtx drv (Some ctx) x stmt) c' of
             (bound, c'') \<Rightarrow> driver_call EvRun (Stmt_Get drv (Some ctx) bound dest args) c''))"

text \<open>
  First version,
  \<^verbatim>\<open>func (tx *Tx) GetNamed(dest interface{}, query string, arg interface{})\<close>
  (line 262)
\<close>

definition Tx1_GetNamed ::
  "('d, 's, 'n, 't, 'c, 'e, 'a, 'r) driver \<Rightarrow> 'a \<Rightarrow> query \<Rightarrow> 'a
     \<Rightarrow> 't \<Rightarrow> ('d, 's, 'n) Cache
     \<Rightarrow> ('e option) \<times> ('d, 's, 'n) Cache" where
  "Tx1_GetNamed drv dest query arg x c =
     (case Cache_namedStmt drv query c of
        (Inl err, c') \<Rightarrow> (Some err, c')
      | (Inr namedStmt, c') \<Rightarrow>
          (case driver_call EvNamedStmt (NamedStmt drv None x namedStmt) c' of
             (bound, c'') \<Rightarrow> driver_call EvRun (Named_Get drv None bound dest arg) c''))"

text \<open>
  First version,
  \<^verbatim>\<open>func (tx *Tx) GetNamedContext(ctx context.Context, dest interface{}, query string, arg interface{})\<close>
  (line 271)
\<close>

definition Tx1_GetNamedContext ::
  "('d, 's, 'n, 't, 'c, 'e, 'a, 'r) driver \<Rightarrow> 'c \<Rightarrow> 'a \<Rightarrow> query \<Rightarrow> 'a
     \<Rightarrow> 't \<Rightarrow> ('d, 's, 'n) Cache
     \<Rightarrow> ('e option) \<times> ('d, 's, 'n) Cache" where
  "Tx1_GetNamedContext drv ctx dest query arg x c =
     (case Cache_namedStmtContext drv ctx query c of
        (Inl err, c') \<Rightarrow> (Some err, c')
      | (Inr namedStmt, c') \<Rightarrow>
          (case driver_call EvNamedStmt (NamedStmt drv (Some ctx) x namedStmt) c' of
             (bound, c'') \<Rightarrow> driver_call EvRun (Named_Get drv (Some ctx) bound dest arg) c''))"

text \<open>
  First version,
  \<^verbatim>\<open>func (tx *Tx) Select(dest interface{}, query string, args ...interface{})\<close>
  (line 280)
\<close>

definition Tx1_Select ::
  "('d, 's, 'n, 't, 'c, 'e, 'a, 'r) driver \<Rightarrow> 'a \<Rightarrow> query \<Rightarrow> 'a list
     \<Rightarrow> 't \<Rightarrow> ('d, 's, 'n) Cache
     \<Rightarrow> ('e option) \<times> ('d, 's, 'n) Cache" where
  "Tx1_Select drv dest query args x c =
     (case Cache_stmt drv query c of
        (Inl err, c') \<Rightarrow> (Some err, c')
      | (Inr stmt, c') \<Rightarrow>
          (case driver_call EvStmtx (Stmtx drv None x stmt) c' of
             (bound, c'') \<Rightarrow> driver_call EvRun (Stmt_Select drv None bound dest args) c''))"

text \<open>
  First version,
  \<^verbatim>\<open>func (tx *Tx) SelectContext(ctx context.Context, dest interface{}, query string, args ...interface{})\<close>
  (line 289)
\<close>

definition Tx1_SelectContext ::
  "('d, 's, 'n, 't, 'c, 'e, 'a, 'r) driver \<Rightarrow> 'c \<Rightarrow> 'a \<Rightarrow> query \<Rightarrow> 'a list
     \<Rightarrow> 't \<Rightarrow> ('d, 's, 'n) Cache
     \<Rightarrow> ('e option) \<times> ('d, 's, 'n) Cache" where
  "Tx1_SelectContext drv ctx dest query args x c =
     (case Cache_stmtContext drv ctx query c of
        (Inl err, c') \<Rightarrow> (Some err, c')
      | (Inr stmt, c') \<Rightarrow>
          (case driver_call EvStmtx (Stmtx drv (Some ctx) x stmt) c' of
             (bound, c'') \<Rightarrow> driver_call EvRun (Stmt_Select drv (Some ctx) bound dest args) c''))"

text \<open>
  First version,
  \<^verbatim>\<open>func (tx *Tx) NamedSelect(dest interface{}, query string, arg interface{})\<close>
  (line 298)
\<close>

definition Tx1_NamedSelect ::
  "('d, 's, 'n, 't, 'c, 'e, 'a, 'r) driver \<Rightarrow> 'a \<Rightarrow> query \<Rightarrow> 'a
     \<Rightarrow> 't \<Rightarrow> ('d, 's, 'n) Cache
     \<Rightarrow> ('e option) \<times> ('d, 's, 'n) Cache" where
  "Tx1_NamedSelect drv dest query arg x c =
     (case Cache_namedStmt drv query c of
        (Inl err, c') \<Rightarrow> (Some err, c')
      | (Inr namedStmt, c') \<Rightarrow>
          (case driver_call EvNamedStmt (NamedStmt drv None x namedStmt) c' of
             (bound, c'') \<Rightarrow> driver_call EvRun (Named_Select drv None bound dest arg) c''))"

text \<open>
  First version,
  \<^verbatim>\<open>func (tx *Tx) NamedSelectContext(ctx context.Context, dest interface{}, query string, arg interface{})\<close>
  (line 307)
\<close>

definition Tx1_NamedSelectContext ::
  "('d, 's, 'n, 't, 'c, 'e, 'a, 'r) driver \<Rightarrow> 'c \<Rightarrow> 'a \<Rightarrow> query \<Rightarrow> 'a
     \<Rightarrow> 't \<Rightarrow> ('d, 's, 'n) Cache
     \<Rightarrow> ('e option) \<times> ('d, 's, 'n) Cache" where
  "Tx1_NamedSelectContext drv ctx dest query arg x c =
     (case Cache_namedStmtContext drv ctx query c of
        (Inl err, c') \<Rightarrow> (Some err, c')
      | (Inr namedStmt, c') \<Rightarrow>
          (case driver_call EvNamedStmt (NamedStmt drv (Some ctx) x namedStmt) c' of
             (bound, c'') \<Rightarrow> driver_call EvRun (Named_Select drv (Some ctx) bound dest arg) c''))"


text \<open>First version: \<^verbatim>\<open>func (tx *Tx) Rollback() error\<close> (line 316)\<close>

definition Tx1_Rollback ::
  "('d, 's, 'n, 't, 'c, 'e, 'a, 'r) driver \<Rightarrow> 't \<Rightarrow> ('d, 's, 'n) Cache
     \<Rightarrow> 'e option \<times> ('d, 's, 'n) Cache" where
  "Tx1_Rollback drv x c = driver_call EvRollback (SqlxTx_Rollback drv x) c"

text \<open>First version: \<^verbatim>\<open>func (tx *Tx) Commit() error\<close> (line 320)\<close>

definition Tx1_Commit ::
  "('d, 's, 'n, 't, 'c, 'e, 'a, 'r) driver \<Rightarrow> 't \<Rightarrow> ('d, 's, 'n) Cache
     \<Rightarrow> 'e option \<times> ('d, 's, 'n) Cache" where
  "Tx1_Commit drv x c = driver_call EvCommit (SqlxTx_Commit drv x) c"

section \<open>Calls, replies and the whole system\<close>

text \<open>
  A method call with its arguments. The context variants share a constructor: its first
  argument is \<open>None\<close> for \<^verbatim>\<open>M\<close> and \<open>Some ctx\<close> for the context-taking
  sibling (\<^verbatim>\<open>MContext\<close>; \<^verbatim>\<open>QueryRowxContext\<close> for
  \<^verbatim>\<open>QueryxRow\<close>). The constructors are the method names of the second version;
  the first version calls \<^verbatim>\<open>NamedGet\<close> \<^verbatim>\<open>GetNamed\<close>.
\<close>

datatype ('c, 'a) call =
    Exec "'c option" query "'a list"
  | NamedExec "'c option" query 'a
  | QueryRow "'c option" query "'a list"
  | QueryxRow "'c option" query "'a list"
  | NamedQueryRow "'c option" query 'a
  | Query "'c option" query "'a list"
  | NamedQuery "'c option" query 'a
  | Queryx "'c option" query "'a list"
  | NamedQueryx "'c option" query 'a
  | Get "'c option" 'a query "'a list"
  | NamedGet "'c option" 'a query 'a
  | Select "'c option" 'a query "'a list"
  | NamedSelect "'c option" 'a query 'a
  | Rollback
  | Commit
  | Close

text \<open>
  What the caller gets back: a pair \<^verbatim>\<open>(T, error)\<close>, a lone
  \<^verbatim>\<open>error\<close>, or no return at all because sqlx panicked.
\<close>

datatype ('e, 'r) reply = Value "'e + 'r" | Status "'e option" | Panic

definition value_of :: "('e + 'r) \<times> 'w \<Rightarrow> (('e, 'r) reply \<times> 'w) option" where
  "value_of p = Some (Value (fst p), snd p)"

definition status_of :: "'e option \<times> 'w \<Rightarrow> (('e, 'r) reply \<times> 'w) option" where
  "status_of p = Some (Status (fst p), snd p)"

definition value_or_panic :: "('e + 'r) option \<times> 'w \<Rightarrow> (('e, 'r) reply \<times> 'w) option" where
  "value_or_panic p = Some (case fst p of None \<Rightarrow> Panic | Some v \<Rightarrow> Value v, snd p)"

text \<open>
  The methods of \<^verbatim>\<open>*Cache\<close>. \<open>None\<close>: the type has no such method
  (\<^verbatim>\<open>Cache.Query\<close> takes exactly one argument, and there is no
  \<^verbatim>\<open>Cache.NamedQueryx\<close>, \<^verbatim>\<open>Cache.Commit\<close> or \<^verbatim>\<open>Cache.Rollback\<close>).
\<close>

definition Cache_call ::
  "('d, 's, 'n, 't, 'c, 'e, 'a, 'r) driver \<Rightarrow> ('c, 'a) call \<Rightarrow> ('d, 's, 'n) Cache
     \<Rightarrow> (('e, 'r) reply \<times> ('d, 's, 'n) Cache) option" where
  "Cache_call drv call c =
     (case call of
        Exec None q args \<Rightarrow> value_of (Cache_Exec drv q args c)
      | Exec (Some ctx) q args \<Rightarrow> value_of (Cache_ExecContext drv ctx q args c)
      | NamedExec None q arg \<Rightarrow> value_of (Cache_NamedExec drv q arg c)
      | NamedExec (Some ctx) q arg \<Rightarrow> value_of (Cache_NamedExecContext drv ctx q arg c)
      | QueryRow None q args \<Rightarrow> value_of (Cache_QueryRow drv q args c)
      | QueryRow (Some ctx) q args \<Rightarrow> value_of (Cache_QueryRowContext drv ctx q args c)
      | QueryxRow None q args \<Rightarrow> value_of (Cache_QueryxRow drv q args c)
      | QueryxRow (Some ctx) q args \<Rightarrow> value_of (Cache_QueryRowxContext drv ctx q args c)
      | NamedQueryRow None q arg \<Rightarrow> value_of (Cache_NamedQueryRow drv q arg c)
      | NamedQueryRow (Some ctx) q arg \<Rightarrow> value_of (Cache_NamedQueryRowContext drv ctx q arg c)
      | Query None q [arg] \<Rightarrow> value_of (Cache_Query drv q arg c)
      | Query (Some ctx) q [arg] \<Rightarrow> value_of (Cache_QueryContext drv ctx q arg c)
      | Query co q args \<Rightarrow> None
      | NamedQuery None q arg \<Rightarrow> value_of (Cache_NamedQuery drv q arg c)
      | NamedQuery (Some ctx) q arg \<Rightarrow> value_of (Cache_NamedQueryContext drv ctx q arg c)
      | Queryx None q args \<Rightarrow> value_of (Cache_Queryx drv q args c)
      | Queryx (Some ctx) q args \<Rightarrow> value_of (Cache_QueryxContext drv ctx q args c)
      | NamedQueryx co q arg \<Rightarrow> None
      | Get None dest q args \<Rightarrow> status_of (Cache_Get drv dest q args c)
      | Get (Some ctx) dest q args \<Rightarrow> status_of (Cache_GetContext drv ctx dest q args c)
      | NamedGet None dest q arg \<Rightarrow> status_of (Cache_NamedGet drv dest q arg c)
      | NamedGet (Some ctx) dest q arg \<Rightarrow> status_of (Cache_NamedGetContext drv ctx dest q arg c)
      | Select None dest q args \<Rightarrow> status_of (Cache_Select drv dest q args c)
      | Select (Some ctx) dest q args \<Rightarrow> status_of (Cache_SelectContext drv ctx dest q args c)
      | NamedSelect None dest q arg \<Rightarrow> status_of (Cache_NamedSelect drv dest q arg c)
      | NamedSelect (Some ctx) dest q arg \<Rightarrow>
          status_of (Cache_NamedSelectContext drv ctx dest q arg c)
      | Rollback \<Rightarrow> None
      | Commit \<Rightarrow> None
      | Close \<Rightarrow> status_of (Cache_Close drv c))"

text \<open>
  The methods of \<^verbatim>\<open>*Tx\<close> in the second version (the one with its own maps).
  \<open>None\<close>: no such method (\<^verbatim>\<open>QueryRow\<close>, \<^verbatim>\<open>QueryRowContext\<close> and
  \<^verbatim>\<open>Close\<close>).
\<close>

definition Tx_call ::
  "('d, 's, 'n, 't, 'c, 'e, 'a, 'r) driver \<Rightarrow> ('c, 'a) call \<Rightarrow> ('t, 's, 'n) Tx
     \<Rightarrow> ('d, 's, 'n) Cache \<Rightarrow> (('e, 'r) reply \<times> ('t, 's, 'n) Tx \<times> ('d, 's, 'n) Cache) option" where
  "Tx_call drv call t c =
     (case call of
        Exec None q args \<Rightarrow> value_of (Tx_Exec drv q args t c)
      | Exec (Some ctx) q args \<Rightarrow> value_of (Tx_ExecContext drv ctx q args t c)
      | NamedExec None q arg \<Rightarrow> value_of (Tx_NamedExec drv q arg t c)
      | NamedExec (Some ctx) q arg \<Rightarrow> value_of (Tx_NamedExecContext drv ctx q arg t c)
      | QueryRow co q args \<Rightarrow> None
      | QueryxRow None q args \<Rightarrow> value_of (Tx_QueryxRow drv q args t c)
      | QueryxRow (Some ctx) q args \<Rightarrow> value_of (Tx_QueryRowxContext drv ctx q args t c)
      | NamedQueryRow None q arg \<Rightarrow> value_of (Tx_NamedQueryRow drv q arg t c)
      | NamedQueryRow (Some ctx) q arg \<Rightarrow> value_of (Tx_NamedQueryRowContext drv ctx q arg t c)
      | Query None q args \<Rightarrow> value_of (Tx_Query drv q args t c)
      | Query (Some ctx) q args \<Rightarrow> value_of (Tx_QueryContext drv ctx q args t c)
      | NamedQuery None q arg \<Rightarrow> value_of (Tx_NamedQuery drv q arg t c)
      | NamedQuery (Some ctx) q arg \<Rightarrow> value_of (Tx_NamedQueryContext drv ctx q arg t c)
      | Queryx None q args \<Rightarrow> value_of (Tx_Queryx drv q args t c)
      | Queryx (Some ctx) q args \<Rightarrow> value_of (Tx_QueryxContext drv ctx q args t c)
      | NamedQueryx None q arg \<Rightarrow> value_of (Tx_NamedQueryx drv q arg t c)
      | NamedQueryx (Some ctx) q arg \<Rightarrow> value_of (Tx_NamedQueryxContext drv ctx q arg t c)
      | Get None dest q args \<Rightarrow> status_of (Tx_Get drv dest q args t c)
      | Get (Some ctx) dest q args \<Rightarrow> status_of (Tx_GetContext drv ctx dest q args t c)
      | NamedGet None dest q arg \<Rightarrow> status_of (Tx_NamedGet drv dest q arg t c)
      | NamedGet (Some ctx) dest q arg \<Rightarrow> status_of (Tx_NamedGetContext drv ctx dest q arg t c)
      | Select None dest q args \<Rightarrow> status_of (Tx_Select drv dest q args t c)
      | Select (Some ctx) dest q args \<Rightarrow> status_of (Tx_SelectContext drv ctx dest q args t c)
      | NamedSelect None dest q arg \<Rightarrow> status_of (Tx_NamedSelect drv dest q arg t c)
      | NamedSelect (Some ctx) dest q arg \<Rightarrow>
          status_of (Tx_NamedSelectContext drv ctx dest q arg t c)
      | Rollback \<Rightarrow> status_of (Tx_Rollback drv t c)
      | Commit \<Rightarrow> status_of (Tx_Commit drv t c)
      | Close \<Rightarrow> None)"

text \<open>
  The methods of \<^verbatim>\<open>*Tx\<close> in the first version (no maps of its own; the value
  \<open>x\<close> is its \<^verbatim>\<open>*sqlx.Tx\<close>). It has no single-row methods.
\<close>

definition Tx1_call ::
  "('d, 's, 'n, 't, 'c, 'e, 'a, 'r) driver \<Rightarrow> ('c, 'a) call \<Rightarrow> 't
     \<Rightarrow> ('d, 's, 'n) Cache \<Rightarrow> (('e, 'r) reply \<times> ('d, 's, 'n) Cache) option" where
  "Tx1_call drv call x c =
     (case call of
        Exec None q args \<Rightarrow> value_of (Tx1_Exec drv q args x c)
      | Exec (Some ctx) q args \<Rightarrow> value_of (Tx1_ExecContext drv ctx q args x c)
      | NamedExec None q arg \<Rightarrow> value_of (Tx1_NamedExec drv q arg x c)
      | NamedExec (Some ctx) q arg \<Rightarrow> value_of (Tx1_NamedExecContext drv ctx q arg x c)
      | QueryRow co q args \<Rightarrow> None
      | QueryxRow co q args \<Rightarrow> None
      | NamedQueryRow co q arg \<Rightarrow> None
      | Query None q args \<Rightarrow> value_of (Tx1_Query drv q args x c)
      | Query (Some ctx) q args \<Rightarrow> value_of (Tx1_QueryContext drv ctx q args x c)
      | NamedQuery None q arg \<Rightarrow> value_or_panic (Tx1_NamedQuery drv q arg x c)
      | NamedQuery (Some ctx) q arg \<Rightarrow> value_or_panic (Tx1_NamedQueryContext drv ctx q arg x c)
      | Queryx None q args \<Rightarrow> value_of (Tx1_Queryx drv q args x c)
      | Queryx (Some ctx) q args \<Rightarrow> value_of (Tx1_QueryxContext drv ctx q args x c)
      | NamedQueryx None q arg \<Rightarrow> value_or_panic (Tx1_NamedQueryx drv q arg x c)
      | NamedQueryx (Some ctx) q arg \<Rightarrow> value_or_panic (Tx1_NamedQueryxContext drv ctx q arg x c)
      | Get None dest q args \<Rightarrow> status_of (Tx1_Get drv dest q args x c)
      | Get (Some ctx) dest q args \<Rightarrow> status_of (Tx1_GetContext drv ctx dest q args x c)
      | NamedGet None dest q arg \<Rightarrow> status_of (Tx1_GetNamed drv dest q arg x c)
      | NamedGet (Some ctx) dest q arg \<Rightarrow> status_of (Tx1_GetNamedContext drv ctx dest q arg x c)
      | Select None dest q args \<Rightarrow> status_of (Tx1_Select drv dest q args x c)
      | Select (Some ctx) dest q args \<Rightarrow> status_of (Tx1_SelectContext drv ctx dest q args x c)
      | NamedSelect None dest q arg \<Rightarrow> status_of (Tx1_NamedSelect drv dest q arg x c)
      | NamedSelect (Some ctx) dest q arg \<Rightarrow>
          status_of (Tx1_NamedSelectContext drv ctx dest q arg x c)
      | Rollback \<Rightarrow> status_of (Tx1_Rollback drv x c)
      | Commit \<Rightarrow> status_of (Tx1_Commit drv x c)
      | Close \<Rightarrow> None)"

text \<open>
  The whole system: one cache and the transactions begun from it, in the order they
  were begun (a \<^verbatim>\<open>*Tx\<close> is its position in the list). A step is one call of the
  public interface; a call on a transaction that was never begun, or of a method the
  receiver does not have, is not a step of any program and leaves the system as it is.
  \<^verbatim>\<open>func (c *Cache) DB() *sqlx.DB\<close> (line 1192) returns \<^verbatim>\<open>c.db\<close>; what
  the caller then does with it, outside this package, is a step \<open>ViaDB f\<close> that changes
  the driver state by some function \<open>f\<close> and nothing else.
\<close>

record ('d, 's, 'n, 't) World =
  cache :: "('d, 's, 'n) Cache"
  txs :: "('t, 's, 'n) Tx list"

datatype ('c, 'a, 'd) api =
    OnCache "('c, 'a) call"
  | OnTx nat "('c, 'a) call"
  | Begin
  | BeginTx 'c "TxOptions option"
  | ViaDB "'d \<Rightarrow> 'd"

definition api_step ::
  "('d, 's, 'n, 't, 'c, 'e, 'a, 'r) driver \<Rightarrow> ('c, 'a, 'd) api \<Rightarrow> ('d, 's, 'n, 't) World
     \<Rightarrow> ('d, 's, 'n, 't) World" where
  "api_step drv a w =
     (case a of
        OnCache call \<Rightarrow>
          (case Cache_call drv call (cache w) of
             None \<Rightarrow> w
           | Some (r, c') \<Rightarrow> w\<lparr>cache := c'\<rparr>)
      | OnTx i call \<Rightarrow>
          (if i < length (txs w) then
             (case Tx_call drv call (txs w ! i) (cache w) of
                None \<Rightarrow> w
              | Some (r, t', c') \<Rightarrow> w\<lparr>cache := c', txs := (txs w)[i := t']\<rparr>)
           else w)
      | Begin \<Rightarrow>
          (case Cache_Begin drv (cache w) of
             (Inl err, c') \<Rightarrow> w\<lparr>cache := c'\<rparr>
           | (Inr t, c') \<Rightarrow> w\<lparr>cache := c', txs := txs w @ [t]\<rparr>)
      | BeginTx ctx opts \<Rightarrow>
          (case Cache_BeginTx drv ctx opts (cache w) of
             (Inl err, c') \<Rightarrow> w\<lparr>cache := c'\<rparr>
           | (Inr t, c') \<Rightarrow> w\<lparr>cache := c', txs := txs w @ [t]\<rparr>)
      | ViaDB f \<Rightarrow> w\<lparr>cache := (cache w)\<lparr>db := f (db (cache w))\<rparr>\<rparr>)"

fun run_api ::
  "('d, 's, 'n, 't, 'c, 'e, 'a, 'r) driver \<Rightarrow> ('c, 'a, 'd) api list \<Rightarrow> ('d, 's, 'n, 't) World
     \<Rightarrow> ('d, 's, 'n, 't) World" where
  "run_api drv [] w = w"
| "run_api drv (a # as) w = run_api drv as (api_step drv a w)"

text \<open>
  A program that makes the calls \<open>calls\<close> on one transaction, and what it sees: the
  replies in order. A panic ends the program; a call the version does not have ends the
  run (such a program does not compile).
\<close>

fun run_Tx1 ::
  "('d, 's, 'n, 't, 'c, 'e, 'a, 'r) driver \<Rightarrow> ('c, 'a) call list \<Rightarrow> 't
     \<Rightarrow> ('d, 's, 'n) Cache \<Rightarrow> ('e, 'r) reply list" where
  "run_Tx1 drv [] x c = []"
| "run_Tx1 drv (a # as) x c =
     (case Tx1_call drv a x c of
        None \<Rightarrow> []
      | Some (r, c') \<Rightarrow> (if r = Panic then [Panic] else r # run_Tx1 drv as x c'))"

fun run_Tx ::
  "('d, 's, 'n, 't, 'c, 'e, 'a, 'r) driver \<Rightarrow> ('c, 'a) call list \<Rightarrow> ('t, 's, 'n) Tx
     \<Rightarrow> ('d, 's, 'n) Cache \<Rightarrow> ('e, 'r) reply list" where
  "run_Tx drv [] t c = []"
| "run_Tx drv (a # as) t c =
     (case Tx_call drv a t c of
        None \<Rightarrow> []
      | Some (r, t', c') \<Rightarrow> (if r = Panic then [Panic] else r # run_Tx drv as t' c'))"

section \<open>A driver double\<close>

text \<open>
  A concrete driver to run the definitions on. It follows what sqlx and
  \<^verbatim>\<open>database/sql\<close> do where the examples below depend on it: preparing fails
  under a cancelled context, while the connection is down (\<open>outage\<close> counts the
  attempts that will still fail) and on an empty query; re-binding into a transaction
  returns a new statement that wraps the given one, or, under a cancelled context, a
  statement that carries the context's error and fails whenever it is run;
  \<^verbatim>\<open>Tx.Stmtx\<close> panics on a value that is not a statement. The double keeps the
  statements it ran in \<open>executed\<close>.
\<close>

datatype fake_ctx = Background | Canceled

datatype fake_stmt = Prepared query | Bound nat fake_stmt | Broken

datatype fake_named = NamedPrepared query | NamedBound nat fake_named | NamedBroken

datatype fake_result = Ran fake_stmt "int list" | NamedRan fake_named int

record fake_db =
  outage :: nat
  begun :: nat
  executed :: "(fake_stmt + fake_named) list"

definition fake_prepare ::
  "(query \<Rightarrow> 'h) \<Rightarrow> fake_ctx option \<Rightarrow> query \<Rightarrow> fake_db \<Rightarrow> (string + 'h) \<times> fake_db" where
  "fake_prepare mk co q d =
     (if co = Some Canceled then (Inl ''context canceled'', d)
      else if 0 < outage d then (Inl ''connection refused'', d\<lparr>outage := outage d - 1\<rparr>)
      else if q = [] then (Inl ''syntax error'', d)
      else (Inr (mk q), d))"

definition fake_begin ::
  "(fake_ctx \<times> TxOptions option) option \<Rightarrow> fake_db \<Rightarrow> (string + nat) \<times> fake_db" where
  "fake_begin opt d =
     (if 0 < outage d then (Inl ''connection refused'', d)
      else (Inr (begun d), d\<lparr>begun := begun d + 1\<rparr>))"

definition fake_run ::
  "fake_ctx option \<Rightarrow> fake_stmt \<Rightarrow> int list \<Rightarrow> fake_db \<Rightarrow> (string + fake_result) \<times> fake_db" where
  "fake_run co h args d =
     (if co = Some Canceled \<or> h = Broken then (Inl ''context canceled'', d)
      else (Inr (Ran h args), d\<lparr>executed := executed d @ [Inl h]\<rparr>))"

definition fake_row ::
  "fake_ctx option \<Rightarrow> fake_stmt \<Rightarrow> int list \<Rightarrow> fake_db \<Rightarrow> fake_result \<times> fake_db" where
  "fake_row co h args d = (Ran h args, d\<lparr>executed := executed d @ [Inl h]\<rparr>)"

definition fake_scan ::
  "fake_ctx option \<Rightarrow> fake_stmt \<Rightarrow> int \<Rightarrow> int list \<Rightarrow> fake_db \<Rightarrow> string option \<times> fake_db" where
  "fake_scan co h dest args d =
     (if co = Some Canceled \<or> h = Broken then (Some ''context canceled'', d)
      else (None, d\<lparr>executed := executed d @ [Inl h]\<rparr>))"

definition fake_named_run ::
  "fake_ctx option \<Rightarrow> fake_named \<Rightarrow> int \<Rightarrow> fake_db \<Rightarrow> (string + fake_result) \<times> fake_db" where
  "fake_named_run co h arg d =
     (if co = Some Canceled \<or> h = NamedBroken then (Inl ''context canceled'', d)
      else (Inr (NamedRan h arg), d\<lparr>executed := executed d @ [Inr h]\<rparr>))"

definition fake_named_row ::
  "fake_ctx option \<Rightarrow> fake_named \<Rightarrow> int \<Rightarrow> fake_db \<Rightarrow> fake_result \<times> fake_db" where
  "fake_named_row co h arg d = (NamedRan h arg, d\<lparr>executed := executed d @ [Inr h]\<rparr>)"

definition fake_named_scan ::
  "fake_ctx option \<Rightarrow> fake_named \<Rightarrow> int \<Rightarrow> int \<Rightarrow> fake_db \<Rightarrow> string option \<times> fake_db" where
  "fake_named_scan co h dest arg d =
     (if co = Some Canceled \<or> h = NamedBroken then (Some ''context canceled'', d)
      else (None, d\<lparr>executed := executed d @ [Inr h]\<rparr>))"

definition fake ::
  "(fake_db, fake_stmt, fake_named, nat, fake_ctx, string, int, fake_result) driver" where
  "fake =
     \<lparr>Preparex = fake_prepare Prepared,
      PrepareNamed = fake_prepare NamedPrepared,
      Beginx = fake_begin,
      Stmtx = (\<lambda>co x h d. (if co = Some Canceled then Broken else Bound x h, d)),
      NamedStmt = (\<lambda>co x h d. (if co = Some Canceled then NamedBroken else NamedBound x h, d)),
      Stmtx_of_NamedStmt = (\<lambda>co x h d. (None, d)),
      Stmt_Exec = fake_run,
      Stmt_Query = fake_run,
      Stmt_Queryx = fake_run,
      Stmt_QueryRow = fake_row,
      Stmt_QueryRowx = fake_row,
      Stmt_Get = fake_scan,
      Stmt_Select = fake_scan,
      Named_Exec = fake_named_run,
      Named_Query = fake_named_run,
      Named_Queryx = fake_named_run,
      Named_QueryRow = fake_named_row,
      Named_Get = fake_named_scan,
      Named_Select = fake_named_scan,
      SqlxTx_Commit = (\<lambda>x d. (None, d)),
      SqlxTx_Rollback = (\<lambda>x d. (None, d)),
      DB_Close = (\<lambda>d. (None, d))\<rparr>"

definition fake_db0 :: fake_db where
  "fake_db0 = \<lparr>outage = 0, begun = 0, executed = []\<rparr>"

section \<open>Notions for comparing the two versions of the transaction\<close>

text \<open>
  Two caches agree when they have the same driver state and the same two maps (their
  histories may differ). The entries of a transaction are bound when each is the
  re-binding, by the functions \<open>bind\<close> and \<open>nbind\<close>, of the entry the cache holds for
  the same query.
\<close>

definition same_pool :: "('d, 's, 'n) Cache \<Rightarrow> ('d, 's, 'n) Cache \<Rightarrow> bool" where
  "same_pool c1 c2 \<longleftrightarrow> db c1 = db c2 \<and> stmts c1 = stmts c2 \<and> namedStmts c1 = namedStmts c2"

definition bound_entries ::
  "('t \<Rightarrow> 's \<Rightarrow> 's) \<Rightarrow> ('t \<Rightarrow> 'n \<Rightarrow> 'n) \<Rightarrow> ('t, 's, 'n) Tx \<Rightarrow> ('d, 's, 'n) Cache \<Rightarrow> bool" where
  "bound_entries bind nbind t c \<longleftrightarrow>
     (\<forall>q s. tx_stmts t q = Some s \<longrightarrow> (\<exists>p. stmts c q = Some p \<and> s = bind (tx t) p)) \<and>
     (\<forall>q n. tx_namedStmts t q = Some n \<longrightarrow> (\<exists>p. namedStmts c q = Some p \<and> n = nbind (tx t) p))"

section \<open>What a resolution in the pool-level cache does\<close>

lemma driver_call_eq:
  "driver_call ev f c = (fst (f (db c)), c\<lparr>db := snd (f (db c)), history := history c @ [ev]\<rparr>)"
  by (simp add: driver_call_def split: prod.split)

lemma Cache_stmt_eq:
  "Cache_stmt drv q c =
     (case stmts c q of
        Some v \<Rightarrow> (Inr v, c\<lparr>history := history c @ [EvLock stmtsLock, EvUnlock stmtsLock]\<rparr>)
      | None \<Rightarrow>
          (case Preparex drv None q (db c) of
             (Inl e, d) \<Rightarrow>
               (Inl e, c\<lparr>db := d,
                  history := history c @ [EvLock stmtsLock, EvPreparex q, EvUnlock stmtsLock]\<rparr>)
           | (Inr s, d) \<Rightarrow>
               (Inr s, c\<lparr>db := d, stmts := (stmts c)(q \<mapsto> s),
                  history := history c @ [EvLock stmtsLock, EvPreparex q, EvUnlock stmtsLock]\<rparr>)))"
  by (simp add: Cache_stmt_def Lock_def Unlock_def driver_call_def Let_def
      split: option.split prod.split sum.split)

lemma Cache_stmtContext_eq:
  "Cache_stmtContext drv ctx q c =
     (case stmts c q of
        Some v \<Rightarrow> (Inr v, c\<lparr>history := history c @ [EvLock stmtsLock, EvUnlock stmtsLock]\<rparr>)
      | None \<Rightarrow>
          (case Preparex drv (Some ctx) q (db c) of
             (Inl e, d) \<Rightarrow>
               (Inl e, c\<lparr>db := d,
                  history := history c @ [EvLock stmtsLock, EvPreparex q, EvUnlock stmtsLock]\<rparr>)
           | (Inr s, d) \<Rightarrow>
               (Inr s, c\<lparr>db := d, stmts := (stmts c)(q \<mapsto> s),
                  history := history c @ [EvLock stmtsLock, EvPreparex q, EvUnlock stmtsLock]\<rparr>)))"
  by (simp add: Cache_stmtContext_def Lock_def Unlock_def driver_call_def Let_def
      split: option.split prod.split sum.split)

lemma Cache_namedStmt_eq:
  "Cache_namedStmt drv q c =
     (case namedStmts c q of
        Some v \<Rightarrow>
          (Inr v, c\<lparr>history := history c @ [EvLock namedStmtsLock, EvUnlock namedStmtsLock]\<rparr>)
      | None \<Rightarrow>
          (case PrepareNamed drv None q (db c) of
             (Inl e, d) \<Rightarrow>
               (Inl e, c\<lparr>db := d,
                  history := history c @
                    [EvLock namedStmtsLock, EvPrepareNamed q, EvUnlock namedStmtsLock]\<rparr>)
           | (Inr s, d) \<Rightarrow>
               (Inr s, c\<lparr>db := d, namedStmts := (namedStmts c)(q \<mapsto> s),
                  history := history c @
                    [EvLock namedStmtsLock, EvPrepareNamed q, EvUnlock namedStmtsLock]\<rparr>)))"
  by (simp add: Cache_namedStmt_def Lock_def Unlock_def driver_call_def Let_def
      split: option.split prod.split sum.split)

lemma Cache_namedStmtContext_eq:
  "Cache_namedStmtContext drv ctx q c =
     (case namedStmts c q of
        Some v \<Rightarrow>
          (Inr v, c\<lparr>history := history c @ [EvLock namedStmtsLock, EvUnlock namedStmtsLock]\<rparr>)
      | None \<Rightarrow>
          (case PrepareNamed drv (Some ctx) q (db c) of
             (Inl e, d) \<Rightarrow>
               (Inl e, c\<lparr>db := d,
                  history := history c @
                    [EvLock namedStmtsLock, EvPrepareNamed q, EvUnlock namedStmtsLock]\<rparr>)
           | (Inr s, d) \<Rightarrow>
               (Inr s, c\<lparr>db := d, namedStmts := (namedStmts c)(q \<mapsto> s),
                  history := history c @
                    [EvLock namedStmtsLock, EvPrepareNamed q, EvUnlock namedStmtsLock]\<rparr>)))"
  by (simp add: Cache_namedStmtContext_def Lock_def Unlock_def driver_call_def Let_def
      split: option.split prod.split sum.split)

lemmas pool_resolution_eqs =
  Cache_stmt_eq Cache_stmtContext_eq Cache_namedStmt_eq Cache_namedStmtContext_eq

text \<open>What a pool-level resolution does to the two maps.\<close>

lemma Cache_stmt_maps:
  "stmts c \<subseteq>\<^sub>m stmts (snd (Cache_stmt drv q c))"
  "namedStmts (snd (Cache_stmt drv q c)) = namedStmts c"
  "fst (Cache_stmt drv q c) = Inr s \<Longrightarrow> stmts (snd (Cache_stmt drv q c)) q = Some s"
  "dom (stmts (snd (Cache_stmt drv q c))) \<subseteq> insert q (dom (stmts c))"
  by (auto simp add: Cache_stmt_eq map_le_def split: option.splits prod.splits sum.splits)

lemma Cache_stmtContext_maps:
  "stmts c \<subseteq>\<^sub>m stmts (snd (Cache_stmtContext drv ctx q c))"
  "namedStmts (snd (Cache_stmtContext drv ctx q c)) = namedStmts c"
  "fst (Cache_stmtContext drv ctx q c) = Inr s \<Longrightarrow>
     stmts (snd (Cache_stmtContext drv ctx q c)) q = Some s"
  "dom (stmts (snd (Cache_stmtContext drv ctx q c))) \<subseteq> insert q (dom (stmts c))"
  by (auto simp add: Cache_stmtContext_eq map_le_def split: option.splits prod.splits sum.splits)

lemma Cache_namedStmt_maps:
  "namedStmts c \<subseteq>\<^sub>m namedStmts (snd (Cache_namedStmt drv q c))"
  "stmts (snd (Cache_namedStmt drv q c)) = stmts c"
  "fst (Cache_namedStmt drv q c) = Inr s \<Longrightarrow> namedStmts (snd (Cache_namedStmt drv q c)) q = Some s"
  "dom (namedStmts (snd (Cache_namedStmt drv q c))) \<subseteq> insert q (dom (namedStmts c))"
  by (auto simp add: Cache_namedStmt_eq map_le_def split: option.splits prod.splits sum.splits)

lemma Cache_namedStmtContext_maps:
  "namedStmts c \<subseteq>\<^sub>m namedStmts (snd (Cache_namedStmtContext drv ctx q c))"
  "stmts (snd (Cache_namedStmtContext drv ctx q c)) = stmts c"
  "fst (Cache_namedStmtContext drv ctx q c) = Inr s \<Longrightarrow>
     namedStmts (snd (Cache_namedStmtContext drv ctx q c)) q = Some s"
  "dom (namedStmts (snd (Cache_namedStmtContext drv ctx q c))) \<subseteq> insert q (dom (namedStmts c))"
  by (auto simp add: Cache_namedStmtContext_eq map_le_def
      split: option.splits prod.splits sum.splits)

subsection \<open>The forwarding methods leave the maps as the resolution left them\<close>

lemma Cache_Exec_maps [simp]:
  "stmts (snd (Cache_Exec drv query args c)) = stmts (snd (Cache_stmt drv query c))"
  "namedStmts (snd (Cache_Exec drv query args c)) = namedStmts (snd (Cache_stmt drv query c))"
  by (simp_all add: Cache_Exec_def driver_call_eq split: prod.split sum.split)

lemma Cache_ExecContext_maps [simp]:
  "stmts (snd (Cache_ExecContext drv ctx query args c)) = stmts (snd (Cache_stmtContext drv ctx query c))"
  "namedStmts (snd (Cache_ExecContext drv ctx query args c)) = namedStmts (snd (Cache_stmtContext drv ctx query c))"
  by (simp_all add: Cache_ExecContext_def driver_call_eq split: prod.split sum.split)

lemma Cache_NamedExec_maps [simp]:
  "stmts (snd (Cache_NamedExec drv query arg c)) = stmts (snd (Cache_namedStmt drv query c))"
  "namedStmts (snd (Cache_NamedExec drv query arg c)) = namedStmts (snd (Cache_namedStmt drv query c))"
  by (simp_all add: Cache_NamedExec_def driver_call_eq split: prod.split sum.split)

lemma Cache_NamedExecContext_maps [simp]:
  "stmts (snd (Cache_NamedExecContext drv ctx query arg c)) = stmts (snd (Cache_namedStmtContext drv ctx query c))"
  "namedStmts (snd (Cache_NamedExecContext drv ctx query arg c)) = namedStmts (snd (Cache_namedStmtContext drv ctx query c))"
  by (simp_all add: Cache_NamedExecContext_def driver_call_eq split: prod.split sum.split)

lemma Cache_QueryRow_maps [simp]:
  "stmts (snd (Cache_QueryRow drv query args c)) = stmts (snd (Cache_stmt drv query c))"
  "namedStmts (snd (Cache_QueryRow drv query args c)) = namedStmts (snd (Cache_stmt drv query c))"
  by (simp_all add: Cache_QueryRow_def driver_call_eq split: prod.split sum.split)

lemma Cache_QueryRowContext_maps [simp]:
  "stmts (snd (Cache_QueryRowContext drv ctx query args c)) = stmts (snd (Cache_stmtContext drv ctx query c))"
  "namedStmts (snd (Cache_QueryRowContext drv ctx query args c)) = namedStmts (snd (Cache_stmtContext drv ctx query c))"
  by (simp_all add: Cache_QueryRowContext_def driver_call_eq split: prod.split sum.split)

lemma Cache_QueryxRow_maps [simp]:
  "stmts (snd (Cache_QueryxRow drv query args c)) = stmts (snd (Cache_stmt drv query c))"
  "namedStmts (snd (Cache_QueryxRow drv query args c)) = namedStmts (snd (Cache_stmt drv query c))"
  by (simp_all add: Cache_QueryxRow_def driver_call_eq split: prod.split sum.split)

lemma Cache_QueryRowxContext_maps [simp]:
  "stmts (snd (Cache_QueryRowxContext drv ctx query args c)) = stmts (snd (Cache_stmtContext drv ctx query c))"
  "namedStmts (snd (Cache_QueryRowxContext drv ctx query args c)) = namedStmts (snd (Cache_stmtContext drv ctx query c))"
  by (simp_all add: Cache_QueryRowxContext_def driver_call_eq split: prod.split sum.split)

lemma Cache_NamedQueryRow_maps [simp]:
  "stmts (snd (Cache_NamedQueryRow drv query arg c)) = stmts (snd (Cache_namedStmt drv query c))"
  "namedStmts (snd (Cache_NamedQueryRow drv query arg c)) = namedStmts (snd (Cache_namedStmt drv query c))"
  by (simp_all add: Cache_NamedQueryRow_def driver_call_eq split: prod.split sum.split)

lemma Cache_NamedQueryRowContext_maps [simp]:
  "stmts (snd (Cache_NamedQueryRowContext drv ctx query arg c)) = stmts (snd (Cache_namedStmtContext drv ctx query c))"
  "namedStmts (snd (Cache_NamedQueryRowContext drv ctx query arg c)) = namedStmts (snd (Cache_namedStmtContext drv ctx query c))"
  by (simp_all add: Cache_NamedQueryRowContext_def driver_call_eq split: prod.split sum.split)

lemma Cache_Query_maps [simp]:
  "stmts (snd (Cache_Query drv query arg c)) = stmts (snd (Cache_stmt drv query c))"
  "namedStmts (snd (Cache_Query drv query arg c)) = namedStmts (snd (Cache_stmt drv query c))"
  by (simp_all add: Cache_Query_def driver_call_eq split: prod.split sum.split)

lemma Cache_QueryContext_maps [simp]:
  "stmts (snd (Cache_QueryContext drv ctx query arg c)) = stmts (snd (Cache_stmtContext drv ctx query c))"
  "namedStmts (snd (Cache_QueryContext drv ctx query arg c)) = namedStmts (snd (Cache_stmtContext drv ctx query c))"
  by (simp_all add: Cache_QueryContext_def driver_call_eq split: prod.split sum.split)

lemma Cache_NamedQuery_maps [simp]:
  "stmts (snd (Cache_NamedQuery drv query arg c)) = stmts (snd (Cache_namedStmt drv query c))"
  "namedStmts (snd (Cache_NamedQuery drv query arg c)) = namedStmts (snd (Cache_namedStmt drv query c))"
  by (simp_all add: Cache_NamedQuery_def driver_call_eq split: prod.split sum.split)

lemma Cache_NamedQueryContext_maps [simp]:
  "stmts (snd (Cache_NamedQueryContext drv ctx query arg c)) = stmts (snd (Cache_namedStmtContext drv ctx query c))"
  "namedStmts (snd (Cache_NamedQueryContext drv ctx query arg c)) = namedStmts (snd (Cache_namedStmtContext drv ctx query c))"
  by (simp_all add: Cache_NamedQueryContext_def driver_call_eq split: prod.split sum.split)

lemma Cache_Queryx_maps [simp]:
  "stmts (snd (Cache_Queryx drv query args c)) = stmts (snd (Cache_stmt drv query c))"
  "namedStmts (snd (Cache_Queryx drv query args c)) = namedStmts (snd (Cache_stmt drv query c))"
  by (simp_all add: Cache_Queryx_def driver_call_eq split: prod.split sum.split)

lemma Cache_QueryxContext_maps [simp]:
  "stmts (snd (Cache_QueryxContext drv ctx query args c)) = stmts (snd (Cache_stmtContext drv ctx query c))"
  "namedStmts (snd (Cache_QueryxContext drv ctx query args c)) = namedStmts (snd (Cache_stmtContext drv ctx query c))"
  by (simp_all add: Cache_QueryxContext_def driver_call_eq split: prod.split sum.split)

lemma Cache_Get_maps [simp]:
  "stmts (snd (Cache_Get drv dest query args c)) = stmts (snd (Cache_stmt drv query c))"
  "namedStmts (snd (Cache_Get drv dest query args c)) = namedStmts (snd (Cache_stmt drv query c))"
  by (simp_all add: Cache_Get_def driver_call_eq split: prod.split sum.split)

lemma Cache_GetContext_maps [simp]:
  "stmts (snd (Cache_GetContext drv ctx dest query args c)) = stmts (snd (Cache_stmtContext drv ctx query c))"
  "namedStmts (snd (Cache_GetContext drv ctx dest query args c)) = namedStmts (snd (Cache_stmtContext drv ctx query c))"
  by (simp_all add: Cache_GetContext_def driver_call_eq split: prod.split sum.split)

lemma Cache_NamedGet_maps [simp]:
  "stmts (snd (Cache_NamedGet drv dest query arg c)) = stmts (snd (Cache_namedStmt drv query c))"
  "namedStmts (snd (Cache_NamedGet drv dest query arg c)) = namedStmts (snd (Cache_namedStmt drv query c))"
  by (simp_all add: Cache_NamedGet_def driver_call_eq split: prod.split sum.split)

lemma Cache_NamedGetContext_maps [simp]:
  "stmts (snd (Cache_NamedGetContext drv ctx dest query arg c)) = stmts (snd (Cache_namedStmtContext drv ctx query c))"
  "namedStmts (snd (Cache_NamedGetContext drv ctx dest query arg c)) = namedStmts (snd (Cache_namedStmtContext drv ctx query c))"
  by (simp_all add: Cache_NamedGetContext_def driver_call_eq split: prod.split sum.split)

lemma Cache_Select_maps [simp]:
  "stmts (snd (Cache_Select drv dest query args c)) = stmts (snd (Cache_stmt drv query c))"
  "namedStmts (snd (Cache_Select drv dest query args c)) = namedStmts (snd (Cache_stmt drv query c))"
  by (simp_all add: Cache_Select_def driver_call_eq split: prod.split sum.split)

lemma Cache_SelectContext_maps [simp]:
  "stmts (snd (Cache_SelectContext drv ctx dest query args c)) = stmts (snd (Cache_stmtContext drv ctx query c))"
  "namedStmts (snd (Cache_SelectContext drv ctx dest query args c)) = namedStmts (snd (Cache_stmtContext drv ctx query c))"
  by (simp_all add: Cache_SelectContext_def driver_call_eq split: prod.split sum.split)

lemma Cache_NamedSelect_maps [simp]:
  "stmts (snd (Cache_NamedSelect drv dest query arg c)) = stmts (snd (Cache_namedStmt drv query c))"
  "namedStmts (snd (Cache_NamedSelect drv dest query arg c)) = namedStmts (snd (Cache_namedStmt drv query c))"
  by (simp_all add: Cache_NamedSelect_def driver_call_eq split: prod.split sum.split)

lemma Cache_NamedSelectContext_maps [simp]:
  "stmts (snd (Cache_NamedSelectContext drv ctx dest query arg c)) = stmts (snd (Cache_namedStmtContext drv ctx query c))"
  "namedStmts (snd (Cache_NamedSelectContext drv ctx dest query arg c)) = namedStmts (snd (Cache_namedStmtContext drv ctx query c))"
  by (simp_all add: Cache_NamedSelectContext_def driver_call_eq split: prod.split sum.split)

lemma Tx_Exec_maps [simp]:
  "fst (snd (Tx_Exec drv query args t c)) = fst (snd (Tx_stmt drv query t c))"
  "stmts (snd (snd (Tx_Exec drv query args t c))) = stmts (snd (snd (Tx_stmt drv query t c)))"
  "namedStmts (snd (snd (Tx_Exec drv query args t c))) = namedStmts (snd (snd (Tx_stmt drv query t c)))"
  by (simp_all add: Tx_Exec_def driver_call_eq split: prod.split sum.split)

lemma Tx_ExecContext_maps [simp]:
  "fst (snd (Tx_ExecContext drv ctx query args t c)) = fst (snd (Tx_stmtContext drv ctx query t c))"
  "stmts (snd (snd (Tx_ExecContext drv ctx query args t c))) = stmts (snd (snd (Tx_stmtContext drv ctx query t c)))"
  "namedStmts (snd (snd (Tx_ExecContext drv ctx query args t c))) = namedStmts (snd (snd (Tx_stmtContext drv ctx query t c)))"
  by (simp_all add: Tx_ExecContext_def driver_call_eq split: prod.split sum.split)

lemma Tx_NamedExec_maps [simp]:
  "fst (snd (Tx_NamedExec drv query arg t c)) = fst (snd (Tx_namedStmt drv query t c))"
  "stmts (snd (snd (Tx_NamedExec drv query arg t c))) = stmts (snd (snd (Tx_namedStmt drv query t c)))"
  "namedStmts (snd (snd (Tx_NamedExec drv query arg t c))) = namedStmts (snd (snd (Tx_namedStmt drv query t c)))"
  by (simp_all add: Tx_NamedExec_def driver_call_eq split: prod.split sum.split)

lemma Tx_NamedExecContext_maps [simp]:
  "fst (snd (Tx_NamedExecContext drv ctx query arg t c)) = fst (snd (Tx_namedStmtContext drv ctx query t c))"
  "stmts (snd (snd (Tx_NamedExecContext drv ctx query arg t c))) = stmts (snd (snd (Tx_namedStmtContext drv ctx query t c)))"
  "namedStmts (snd (snd (Tx_NamedExecContext drv ctx query arg t c))) = namedStmts (snd (snd (Tx_namedStmtContext drv ctx query t c)))"
  by (simp_all add: Tx_NamedExecContext_def driver_call_eq split: prod.split sum.split)

lemma Tx_Query_maps [simp]:
  "fst (snd (Tx_Query drv query args t c)) = fst (snd (Tx_stmt drv query t c))"
  "stmts (snd (snd (Tx_Query drv query args t c))) = stmts (snd (snd (Tx_stmt drv query t c)))"
  "namedStmts (snd (snd (Tx_Query drv query args t c))) = namedStmts (snd (snd (Tx_stmt drv query t c)))"
  by (simp_all add: Tx_Query_def driver_call_eq split: prod.split sum.split)

lemma Tx_QueryContext_maps [simp]:
  "fst (snd (Tx_QueryContext drv ctx query args t c)) = fst (snd (Tx_stmtContext drv ctx query t c))"
  "stmts (snd (snd (Tx_QueryContext drv ctx query args t c))) = stmts (snd (snd (Tx_stmtContext drv ctx query t c)))"
  "namedStmts (snd (snd (Tx_QueryContext drv ctx query args t c))) = namedStmts (snd (snd (Tx_stmtContext drv ctx query t c)))"
  by (simp_all add: Tx_QueryContext_def driver_call_eq split: prod.split sum.split)

lemma Tx_NamedQuery_maps [simp]:
  "fst (snd (Tx_NamedQuery drv query arg t c)) = fst (snd (Tx_namedStmt drv query t c))"
  "stmts (snd (snd (Tx_NamedQuery drv query arg t c))) = stmts (snd (snd (Tx_namedStmt drv query t c)))"
  "namedStmts (snd (snd (Tx_NamedQuery drv query arg t c))) = namedStmts (snd (snd (Tx_namedStmt drv query t c)))"
  by (simp_all add: Tx_NamedQuery_def driver_call_eq split: prod.split sum.split)

lemma Tx_NamedQueryContext_maps [simp]:
  "fst (snd (Tx_NamedQueryContext drv ctx query arg t c)) = fst (snd (Tx_namedStmtContext drv ctx query t c))"
  "stmts (snd (snd (Tx_NamedQueryContext drv ctx query arg t c))) = stmts (snd (snd (Tx_namedStmtContext drv ctx query t c)))"
  "namedStmts (snd (snd (Tx_NamedQueryContext drv ctx query arg t c))) = namedStmts (snd (snd (Tx_namedStmtContext drv ctx query t c)))"
  by (simp_all add: Tx_NamedQueryContext_def driver_call_eq split: prod.split sum.split)

lemma Tx_Queryx_maps [simp]:
  "fst (snd (Tx_Queryx drv query args t c)) = fst (snd (Tx_stmt drv query t c))"
  "stmts (snd (snd (Tx_Queryx drv query args t c))) = stmts (snd (snd (Tx_stmt drv query t c)))"
  "namedStmts (snd (snd (Tx_Queryx drv query args t c))) = namedStmts (snd (snd (Tx_stmt drv query t c)))"
  by (simp_all add: Tx_Queryx_def driver_call_eq split: prod.split sum.split)

lemma Tx_QueryxContext_maps [simp]:
  "fst (snd (Tx_QueryxContext drv ctx query args t c)) = fst (snd (Tx_stmtContext drv ctx query t c))"
  "stmts (snd (snd (Tx_QueryxContext drv ctx query args t c))) = stmts (snd (snd (Tx_stmtContext drv ctx query t c)))"
  "namedStmts (snd (snd (Tx_QueryxContext drv ctx query args t c))) = namedStmts (snd (snd (Tx_stmtContext drv ctx query t c)))"
  by (simp_all add: Tx_QueryxContext_def driver_call_eq split: prod.split sum.split)

lemma Tx_NamedQueryx_maps [simp]:
  "fst (snd (Tx_NamedQueryx drv query arg t c)) = fst (snd (Tx_namedStmt drv query t c))"
  "stmts (snd (snd (Tx_NamedQueryx drv query arg t c))) = stmts (snd (snd (Tx_namedStmt drv query t c)))"
  "namedStmts (snd (snd (Tx_NamedQueryx drv query arg t c))) = namedStmts (snd (snd (Tx_namedStmt drv query t c)))"
  by (simp_all add: Tx_NamedQueryx_def driver_call_eq split: prod.split sum.split)

lemma Tx_NamedQueryxContext_maps [simp]:
  "fst (snd (Tx_NamedQueryxContext drv ctx query arg t c)) = fst (snd (Tx_namedStmtContext drv ctx query t c))"
  "stmts (snd (snd (Tx_NamedQueryxContext drv ctx query arg t c))) = stmts (snd (snd (Tx_namedStmtContext drv ctx query t c)))"
  "namedStmts (snd (snd (Tx_NamedQueryxContext drv ctx query arg t c))) = namedStmts (snd (snd (Tx_namedStmtContext drv ctx query t c)))"
  by (simp_all add: Tx_NamedQueryxContext_def driver_call_eq split: prod.split sum.split)

lemma Tx_QueryxRow_maps [simp]:
  "fst (snd (Tx_QueryxRow drv query args t c)) = fst (snd (Tx_stmt drv query t c))"
  "stmts (snd (snd (Tx_QueryxRow drv query args t c))) = stmts (snd (snd (Tx_stmt drv query t c)))"
  "namedStmts (snd (snd (Tx_QueryxRow drv query args t c))) = namedStmts (snd (snd (Tx_stmt drv query t c)))"
  by (simp_all add: Tx_QueryxRow_def driver_call_eq split: prod.split sum.split)

lemma Tx_QueryRowxContext_maps [simp]:
  "fst (snd (Tx_QueryRowxContext drv ctx query args t c)) = fst (snd (Tx_stmtContext drv ctx query t c))"
  "stmts (snd (snd (Tx_QueryRowxContext drv ctx query args t c))) = stmts (snd (snd (Tx_stmtContext drv ctx query t c)))"
  "namedStmts (snd (snd (Tx_QueryRowxContext drv ctx query args t c))) = namedStmts (snd (snd (Tx_stmtContext drv ctx query t c)))"
  by (simp_all add: Tx_QueryRowxContext_def driver_call_eq split: prod.split sum.split)

lemma Tx_NamedQueryRow_maps [simp]:
  "fst (snd (Tx_NamedQueryRow drv query arg t c)) = fst (snd (Tx_namedStmt drv query t c))"
  "stmts (snd (snd (Tx_NamedQueryRow drv query arg t c))) = stmts (snd (snd (Tx_namedStmt drv query t c)))"
  "namedStmts (snd (snd (Tx_NamedQueryRow drv query arg t c))) = namedStmts (snd (snd (Tx_namedStmt drv query t c)))"
  by (simp_all add: Tx_NamedQueryRow_def driver_call_eq split: prod.split sum.split)

lemma Tx_NamedQueryRowContext_maps [simp]:
  "fst (snd (Tx_NamedQueryRowContext drv ctx query arg t c)) = fst (snd (Tx_namedStmtContext drv ctx query t c))"
  "stmts (snd (snd (Tx_NamedQueryRowContext drv ctx query arg t c))) = stmts (snd (snd (Tx_namedStmtContext drv ctx query t c)))"
  "namedStmts (snd (snd (Tx_NamedQueryRowContext drv ctx query arg t c))) = namedStmts (snd (snd (Tx_namedStmtContext drv ctx query t c)))"
  by (simp_all add: Tx_NamedQueryRowContext_def driver_call_eq split: prod.split sum.split)

lemma Tx_Get_maps [simp]:
  "fst (snd (Tx_Get drv dest query args t c)) = fst (snd (Tx_stmt drv query t c))"
  "stmts (snd (snd (Tx_Get drv dest query args t c))) = stmts (snd (snd (Tx_stmt drv query t c)))"
  "namedStmts (snd (snd (Tx_Get drv dest query args t c))) = namedStmts (snd (snd (Tx_stmt drv query t c)))"
  by (simp_all add: Tx_Get_def driver_call_eq split: prod.split sum.split)

lemma Tx_GetContext_maps [simp]:
  "fst (snd (Tx_GetContext drv ctx dest query args t c)) = fst (snd (Tx_stmtContext drv ctx query t c))"
  "stmts (snd (snd (Tx_GetContext drv ctx dest query args t c))) = stmts (snd (snd (Tx_stmtContext drv ctx query t c)))"
  "namedStmts (snd (snd (Tx_GetContext drv ctx dest query args t c))) = namedStmts (snd (snd (Tx_stmtContext drv ctx query t c)))"
  by (simp_all add: Tx_GetContext_def driver_call_eq split: prod.split sum.split)

lemma Tx_NamedGet_maps [simp]:
  "fst (snd (Tx_NamedGet drv dest query arg t c)) = fst (snd (Tx_namedStmt drv query t c))"
  "stmts (snd (snd (Tx_NamedGet drv dest query arg t c))) = stmts (snd (snd (Tx_namedStmt drv query t c)))"
  "namedStmts (snd (snd (Tx_NamedGet drv dest query arg t c))) = namedStmts (snd (snd (Tx_namedStmt drv query t c)))"
  by (simp_all add: Tx_NamedGet_def driver_call_eq split: prod.split sum.split)

lemma Tx_NamedGetContext_maps [simp]:
  "fst (snd (Tx_NamedGetContext drv ctx dest query arg t c)) = fst (snd (Tx_namedStmtContext drv ctx query t c))"
  "stmts (snd (snd (Tx_NamedGetContext drv ctx dest query arg t c))) = stmts (snd (snd (Tx_namedStmtContext drv ctx query t c)))"
  "namedStmts (snd (snd (Tx_NamedGetContext drv ctx dest query arg t c))) = namedStmts (snd (snd (Tx_namedStmtContext drv ctx query t c)))"
  by (simp_all add: Tx_NamedGetContext_def driver_call_eq split: prod.split sum.split)

lemma Tx_Select_maps [simp]:
  "fst (snd (Tx_Select drv dest query args t c)) = fst (snd (Tx_stmt drv query t c))"
  "stmts (snd (snd (Tx_Select drv dest query args t c))) = stmts (snd (snd (Tx_stmt drv query t c)))"
  "namedStmts (snd (snd (Tx_Select drv dest query args t c))) = namedStmts (snd (snd (Tx_stmt drv query t c)))"
  by (simp_all add: Tx_Select_def driver_call_eq split: prod.split sum.split)

lemma Tx_SelectContext_maps [simp]:
  "fst (snd (Tx_SelectContext drv ctx dest query args t c)) = fst (snd (Tx_stmtContext drv ctx query t c))"
  "stmts (snd (snd (Tx_SelectContext drv ctx dest query args t c))) = stmts (snd (snd (Tx_stmtContext drv ctx query t c)))"
  "namedStmts (snd (snd (Tx_SelectContext drv ctx dest query args t c))) = namedStmts (snd (snd (Tx_stmtContext drv ctx query t c)))"
  by (simp_all add: Tx_SelectContext_def driver_call_eq split: prod.split sum.split)

lemma Tx_NamedSelect_maps [simp]:
  "fst (snd (Tx_NamedSelect drv dest query arg t c)) = fst (snd (Tx_namedStmt drv query t c))"
  "stmts (snd (snd (Tx_NamedSelect drv dest query arg t c))) = stmts (snd (snd (Tx_namedStmt drv query t c)))"
  "namedStmts (snd (snd (Tx_NamedSelect drv dest query arg t c))) = namedStmts (snd (snd (Tx_namedStmt drv query t c)))"
  by (simp_all add: Tx_NamedSelect_def driver_call_eq split: prod.split sum.split)

lemma Tx_NamedSelectContext_maps [simp]:
  "fst (snd (Tx_NamedSelectContext drv ctx dest query arg t c)) = fst (snd (Tx_namedStmtContext drv ctx query t c))"
  "stmts (snd (snd (Tx_NamedSelectContext drv ctx dest query arg t c))) = stmts (snd (snd (Tx_namedStmtContext drv ctx query t c)))"
  "namedStmts (snd (snd (Tx_NamedSelectContext drv ctx dest query arg t c))) = namedStmts (snd (snd (Tx_namedStmtContext drv ctx query t c)))"
  by (simp_all add: Tx_NamedSelectContext_def driver_call_eq split: prod.split sum.split)

subsection \<open>What a resolution in a transaction does\<close>

lemma Tx_stmt_maps:
  "stmts c \<subseteq>\<^sub>m stmts (snd (snd (Tx_stmt drv q t c)))"
  "namedStmts (snd (snd (Tx_stmt drv q t c))) = namedStmts c"
  "tx (fst (snd (Tx_stmt drv q t c))) = tx t"
  "tx_namedStmts (fst (snd (Tx_stmt drv q t c))) = tx_namedStmts t"
  "tx_stmts t \<subseteq>\<^sub>m tx_stmts (fst (snd (Tx_stmt drv q t c)))"
  "dom (tx_stmts t) \<subseteq> dom (stmts c) \<Longrightarrow>
     dom (tx_stmts (fst (snd (Tx_stmt drv q t c)))) \<subseteq> dom (stmts (snd (snd (Tx_stmt drv q t c))))"
  by (auto simp add: Tx_stmt_def Cache_stmt_eq driver_call_eq map_le_def
      split: option.splits prod.splits sum.splits)

lemma Tx_stmtContext_maps:
  "stmts c \<subseteq>\<^sub>m stmts (snd (snd (Tx_stmtContext drv ctx q t c)))"
  "namedStmts (snd (snd (Tx_stmtContext drv ctx q t c))) = namedStmts c"
  "tx (fst (snd (Tx_stmtContext drv ctx q t c))) = tx t"
  "tx_namedStmts (fst (snd (Tx_stmtContext drv ctx q t c))) = tx_namedStmts t"
  "tx_stmts t \<subseteq>\<^sub>m tx_stmts (fst (snd (Tx_stmtContext drv ctx q t c)))"
  "dom (tx_stmts t) \<subseteq> dom (stmts c) \<Longrightarrow>
     dom (tx_stmts (fst (snd (Tx_stmtContext drv ctx q t c))))
       \<subseteq> dom (stmts (snd (snd (Tx_stmtContext drv ctx q t c))))"
  by (auto simp add: Tx_stmtContext_def Cache_stmtContext_eq driver_call_eq map_le_def
      split: option.splits prod.splits sum.splits)

lemma Tx_namedStmt_maps:
  "namedStmts c \<subseteq>\<^sub>m namedStmts (snd (snd (Tx_namedStmt drv q t c)))"
  "stmts (snd (snd (Tx_namedStmt drv q t c))) = stmts c"
  "tx (fst (snd (Tx_namedStmt drv q t c))) = tx t"
  "tx_stmts (fst (snd (Tx_namedStmt drv q t c))) = tx_stmts t"
  "tx_namedStmts t \<subseteq>\<^sub>m tx_namedStmts (fst (snd (Tx_namedStmt drv q t c)))"
  "dom (tx_namedStmts t) \<subseteq> dom (namedStmts c) \<Longrightarrow>
     dom (tx_namedStmts (fst (snd (Tx_namedStmt drv q t c))))
       \<subseteq> dom (namedStmts (snd (snd (Tx_namedStmt drv q t c))))"
  by (auto simp add: Tx_namedStmt_def Cache_namedStmt_eq driver_call_eq map_le_def
      split: option.splits prod.splits sum.splits)

lemma Tx_namedStmtContext_maps:
  "namedStmts c \<subseteq>\<^sub>m namedStmts (snd (snd (Tx_namedStmtContext drv ctx q t c)))"
  "stmts (snd (snd (Tx_namedStmtContext drv ctx q t c))) = stmts c"
  "tx (fst (snd (Tx_namedStmtContext drv ctx q t c))) = tx t"
  "tx_stmts (fst (snd (Tx_namedStmtContext drv ctx q t c))) = tx_stmts t"
  "tx_namedStmts t \<subseteq>\<^sub>m tx_namedStmts (fst (snd (Tx_namedStmtContext drv ctx q t c)))"
  "dom (tx_namedStmts t) \<subseteq> dom (namedStmts c) \<Longrightarrow>
     dom (tx_namedStmts (fst (snd (Tx_namedStmtContext drv ctx q t c))))
       \<subseteq> dom (namedStmts (snd (snd (Tx_namedStmtContext drv ctx q t c))))"
  by (auto simp add: Tx_namedStmtContext_def Cache_namedStmtContext_eq driver_call_eq map_le_def
      split: option.splits prod.splits sum.splits)

subsection \<open>Every call only adds entries to the maps of the cache\<close>

lemma Cache_call_grows:
  assumes "Cache_call drv call c = Some (r, c')"
  shows "stmts c \<subseteq>\<^sub>m stmts c' \<and> namedStmts c \<subseteq>\<^sub>m namedStmts c'"
  using assms
  by (auto simp add: Cache_call_def value_of_def status_of_def
      Cache_stmt_maps Cache_stmtContext_maps Cache_namedStmt_maps Cache_namedStmtContext_maps
      Cache_Close_def driver_call_eq
      split: call.splits option.splits list.splits)

lemma snd_eq_pair: "snd p = (a, b) \<longleftrightarrow> a = fst (snd p) \<and> b = snd (snd p)"
  by (cases p) auto

lemma Tx_end_maps [simp]:
  "fst (snd (Tx_Commit drv t c)) = t"
  "stmts (snd (snd (Tx_Commit drv t c))) = stmts c"
  "namedStmts (snd (snd (Tx_Commit drv t c))) = namedStmts c"
  "fst (snd (Tx_Rollback drv t c)) = t"
  "stmts (snd (snd (Tx_Rollback drv t c))) = stmts c"
  "namedStmts (snd (snd (Tx_Rollback drv t c))) = namedStmts c"
  by (simp_all add: Tx_Commit_def Tx_Rollback_def driver_call_eq)

lemma Cache_Close_maps [simp]:
  "stmts (snd (Cache_Close drv c)) = stmts c"
  "namedStmts (snd (Cache_Close drv c)) = namedStmts c"
  by (simp_all add: Cache_Close_def driver_call_eq)

lemma Tx_call_grows:
  assumes "Tx_call drv call t c = Some (r, t', c')"
  shows "stmts c \<subseteq>\<^sub>m stmts c' \<and> namedStmts c \<subseteq>\<^sub>m namedStmts c'"
  using assms
  by (auto simp add: Tx_call_def value_of_def status_of_def snd_eq_pair
      Tx_stmt_maps Tx_stmtContext_maps Tx_namedStmt_maps Tx_namedStmtContext_maps
      split: call.splits option.splits)

lemma Tx_call_keeps_inv:
  assumes "Tx_call drv call t c = Some (r, t', c')"
    and "dom (tx_stmts t) \<subseteq> dom (stmts c)"
    and "dom (tx_namedStmts t) \<subseteq> dom (namedStmts c)"
  shows "dom (tx_stmts t') \<subseteq> dom (stmts c') \<and> dom (tx_namedStmts t') \<subseteq> dom (namedStmts c')"
  using assms
  by (simp add: Tx_call_def value_of_def status_of_def snd_eq_pair
      Tx_stmt_maps Tx_stmtContext_maps Tx_namedStmt_maps Tx_namedStmtContext_maps
      split: call.splits option.splits)

subsection \<open>Steps of the whole system\<close>

lemma Cache_Begin_maps:
  "stmts (snd (Cache_Begin drv c)) = stmts c"
  "namedStmts (snd (Cache_Begin drv c)) = namedStmts c"
  "fst (Cache_Begin drv c) = Inr t \<Longrightarrow> tx_stmts t = Map.empty \<and> tx_namedStmts t = Map.empty"
  "stmts (snd (Cache_BeginTx drv ctx opts c)) = stmts c"
  "namedStmts (snd (Cache_BeginTx drv ctx opts c)) = namedStmts c"
  "fst (Cache_BeginTx drv ctx opts c) = Inr t \<Longrightarrow>
     tx_stmts t = Map.empty \<and> tx_namedStmts t = Map.empty"
  by (auto simp add: Cache_Begin_def Cache_BeginTx_def driver_call_eq split: sum.splits prod.splits)

lemma api_step_grows:
  "stmts (cache w) \<subseteq>\<^sub>m stmts (cache (api_step drv a w)) \<and>
   namedStmts (cache w) \<subseteq>\<^sub>m namedStmts (cache (api_step drv a w))"
proof (cases a)
  case (OnCache call)
  then show ?thesis
    using Cache_call_grows [of drv call "cache w"]
    by (auto simp add: api_step_def split: option.splits)
next
  case (OnTx i call)
  then show ?thesis
    using Tx_call_grows [of drv call "txs w ! i" "cache w"]
    by (auto simp add: api_step_def split: option.splits)
next
  case Begin
  then show ?thesis
    using Cache_Begin_maps(1,2) [of drv "cache w"]
    by (auto simp add: api_step_def split: sum.splits prod.splits)
next
  case (BeginTx ctx opts)
  then show ?thesis
    using Cache_Begin_maps(4,5) [of drv ctx opts "cache w"]
    by (auto simp add: api_step_def split: sum.splits prod.splits)
next
  case (ViaDB f)
  then show ?thesis by (simp add: api_step_def)
qed

lemma run_api_grows:
  "stmts (cache w) \<subseteq>\<^sub>m stmts (cache (run_api drv as w)) \<and>
   namedStmts (cache w) \<subseteq>\<^sub>m namedStmts (cache (run_api drv as w))"
proof (induction as arbitrary: w)
  case Nil
  show ?case by simp
next
  case (Cons a as)
  show ?case
    using api_step_grows [of w drv a] Cons.IH [of "api_step drv a w"]
    by (auto intro: map_le_trans)
qed

lemma api_step_inv:
  assumes inv: "\<forall>t \<in> set (txs w).
      dom (tx_stmts t) \<subseteq> dom (stmts (cache w)) \<and>
      dom (tx_namedStmts t) \<subseteq> dom (namedStmts (cache w))"
  shows "\<forall>t \<in> set (txs (api_step drv a w)).
      dom (tx_stmts t) \<subseteq> dom (stmts (cache (api_step drv a w))) \<and>
      dom (tx_namedStmts t) \<subseteq> dom (namedStmts (cache (api_step drv a w)))"
proof
  fix t
  assume t: "t \<in> set (txs (api_step drv a w))"
  let ?w' = "api_step drv a w"
  have grow: "dom (stmts (cache w)) \<subseteq> dom (stmts (cache ?w'))"
    "dom (namedStmts (cache w)) \<subseteq> dom (namedStmts (cache ?w'))"
    using api_step_grows [of w drv a] by (auto dest: map_le_implies_dom_le)
  have old: "dom (tx_stmts t) \<subseteq> dom (stmts (cache ?w')) \<and>
             dom (tx_namedStmts t) \<subseteq> dom (namedStmts (cache ?w'))"
    if "t \<in> set (txs w)"
    using that inv grow by blast
  show "dom (tx_stmts t) \<subseteq> dom (stmts (cache ?w')) \<and>
        dom (tx_namedStmts t) \<subseteq> dom (namedStmts (cache ?w'))"
  proof (cases a)
    case (OnCache call)
    then have "txs ?w' = txs w"
      by (simp add: api_step_def split: option.splits)
    with t old show ?thesis by simp
  next
    case (OnTx i call)
    show ?thesis
    proof (cases "i < length (txs w)")
      case False
      with OnTx have "?w' = w" by (simp add: api_step_def)
      with t old show ?thesis by simp
    next
      case True
      show ?thesis
      proof (cases "Tx_call drv call (txs w ! i) (cache w)")
        case None
        with OnTx True have "?w' = w" by (simp add: api_step_def)
        with t old show ?thesis by simp
      next
        case (Some res)
        obtain r t' c' where res: "res = (r, t', c')" by (cases res) auto
        from OnTx True Some res
        have w': "?w' = w\<lparr>cache := c', txs := (txs w)[i := t']\<rparr>"
          by (simp add: api_step_def)
        from True inv have "dom (tx_stmts (txs w ! i)) \<subseteq> dom (stmts (cache w))"
          "dom (tx_namedStmts (txs w ! i)) \<subseteq> dom (namedStmts (cache w))"
          by auto
        with Some res
        have new: "dom (tx_stmts t') \<subseteq> dom (stmts c') \<and> dom (tx_namedStmts t') \<subseteq> dom (namedStmts c')"
          using Tx_call_keeps_inv [of drv call "txs w ! i" "cache w" r t' c'] by simp
        from t w' have "t = t' \<or> t \<in> set (txs w)"
          using set_update_subset_insert [of "txs w" i t'] by auto
        then show ?thesis
        proof
          assume "t = t'"
          with new w' show ?thesis by simp
        next
          assume "t \<in> set (txs w)"
          then show ?thesis by (rule old)
        qed
      qed
    qed
  next
    case Begin
    show ?thesis
    proof (cases "fst (Cache_Begin drv (cache w))")
      case (Inl e)
      with Begin have "txs ?w' = txs w"
        by (auto simp add: api_step_def split: prod.splits sum.splits)
      with t old show ?thesis by simp
    next
      case (Inr t0)
      with Begin have "txs ?w' = txs w @ [t0]"
        by (auto simp add: api_step_def split: prod.splits sum.splits)
      with t have "t = t0 \<or> t \<in> set (txs w)" by auto
      then show ?thesis
      proof
        assume "t = t0"
        with Inr show ?thesis using Cache_Begin_maps(3) [of drv "cache w" t0] by simp
      next
        assume "t \<in> set (txs w)"
        then show ?thesis by (rule old)
      qed
    qed
  next
    case (BeginTx ctx opts)
    show ?thesis
    proof (cases "fst (Cache_BeginTx drv ctx opts (cache w))")
      case (Inl e)
      with BeginTx have "txs ?w' = txs w"
        by (auto simp add: api_step_def split: prod.splits sum.splits)
      with t old show ?thesis by simp
    next
      case (Inr t0)
      with BeginTx have "txs ?w' = txs w @ [t0]"
        by (auto simp add: api_step_def split: prod.splits sum.splits)
      with t have "t = t0 \<or> t \<in> set (txs w)" by auto
      then show ?thesis
      proof
        assume "t = t0"
        with Inr show ?thesis using Cache_Begin_maps(6) [of drv ctx opts "cache w" t0] by simp
      next
        assume "t \<in> set (txs w)"
        then show ?thesis by (rule old)
      qed
    qed
  next
    case (ViaDB f)
    then have "txs ?w' = txs w" by (simp add: api_step_def)
    with t old show ?thesis by simp
  qed
qed

lemma run_api_inv:
  assumes "\<forall>t \<in> set (txs w).
      dom (tx_stmts t) \<subseteq> dom (stmts (cache w)) \<and>
      dom (tx_namedStmts t) \<subseteq> dom (namedStmts (cache w))"
  shows "\<forall>t \<in> set (txs (run_api drv as w)).
      dom (tx_stmts t) \<subseteq> dom (stmts (cache (run_api drv as w))) \<and>
      dom (tx_namedStmts t) \<subseteq> dom (namedStmts (cache (run_api drv as w)))"
  using assms
proof (induction as arbitrary: w)
  case Nil
  then show ?case by simp
next
  case (Cons a as)
  from Cons.prems have "\<forall>t \<in> set (txs (api_step drv a w)).
      dom (tx_stmts t) \<subseteq> dom (stmts (cache (api_step drv a w))) \<and>
      dom (tx_namedStmts t) \<subseteq> dom (namedStmts (cache (api_step drv a w)))"
    by (rule api_step_inv)
  then show ?case
    using Cons.IH [of "api_step drv a w"] by simp
qed

section \<open>Running the model\<close>

text \<open>
  The defining equations, collected for evaluating the model on a concrete driver: the
  methods of the cache and of the transaction, the calls and the steps of the system,
  and the driver double.
\<close>

lemmas method_defs =
  Cache_Exec_def Cache_ExecContext_def Cache_NamedExec_def Cache_NamedExecContext_def
  Cache_QueryRow_def Cache_QueryRowContext_def Cache_QueryxRow_def
  Cache_QueryRowxContext_def Cache_NamedQueryRow_def Cache_NamedQueryRowContext_def
  Cache_Query_def Cache_QueryContext_def Cache_NamedQuery_def
  Cache_NamedQueryContext_def Cache_Queryx_def Cache_QueryxContext_def Cache_Get_def
  Cache_GetContext_def Cache_NamedGet_def Cache_NamedGetContext_def Cache_Select_def
  Cache_SelectContext_def Cache_NamedSelect_def Cache_NamedSelectContext_def
  Cache_Close_def Cache_Begin_def Cache_BeginTx_def Tx_stmt_def Tx_stmtContext_def
  Tx_namedStmt_def Tx_namedStmtContext_def Tx_Exec_def Tx_ExecContext_def
  Tx_NamedExec_def Tx_NamedExecContext_def Tx_Query_def Tx_QueryContext_def
  Tx_NamedQuery_def Tx_NamedQueryContext_def Tx_Queryx_def Tx_QueryxContext_def
  Tx_NamedQueryx_def Tx_NamedQueryxContext_def Tx_QueryxRow_def Tx_QueryRowxContext_def
  Tx_NamedQueryRow_def Tx_NamedQueryRowContext_def Tx_Get_def Tx_GetContext_def
  Tx_NamedGet_def Tx_NamedGetContext_def Tx_Select_def Tx_SelectContext_def
  Tx_NamedSelect_def Tx_NamedSelectContext_def Tx_Rollback_def Tx_Commit_def

lemmas call_defs =
  Cache_call_def Tx_call_def value_of_def status_of_def api_step_def New_def

lemmas fake_defs =
  fake_def fake_db0_def fake_prepare_def fake_begin_def fake_run_def fake_row_def
  fake_scan_def fake_named_run_def fake_named_row_def fake_named_scan_def

section \<open>Resolution in the pool-level cache is memoized\<close>

lemma run_api_keeps_entry:
  "stmts (cache w) q = Some h \<Longrightarrow> stmts (cache (run_api drv as w)) q = Some h"
  "namedStmts (cache w) q = Some n \<Longrightarrow> namedStmts (cache (run_api drv as w)) q = Some n"
  using run_api_grows [of w drv as] by (auto simp add: map_le_def dom_def)

lemma pool_positional_hit:
  assumes "stmts c q = Some h"
  shows "Cache_stmt drv q c =
           (Inr h, c\<lparr>history := history c @ [EvLock stmtsLock, EvUnlock stmtsLock]\<rparr>)"
    and "Cache_stmtContext drv ctx q c =
           (Inr h, c\<lparr>history := history c @ [EvLock stmtsLock, EvUnlock stmtsLock]\<rparr>)"
  using assms by (simp_all add: Cache_stmt_eq Cache_stmtContext_eq)

lemma pool_named_hit:
  assumes "namedStmts c q = Some n"
  shows "Cache_namedStmt drv q c =
           (Inr n, c\<lparr>history := history c @ [EvLock namedStmtsLock, EvUnlock namedStmtsLock]\<rparr>)"
    and "Cache_namedStmtContext drv ctx q c =
           (Inr n, c\<lparr>history := history c @ [EvLock namedStmtsLock, EvUnlock namedStmtsLock]\<rparr>)"
  using assms by (simp_all add: Cache_namedStmt_eq Cache_namedStmtContext_eq)

lemma pool_positional_miss:
  assumes "stmts c q = None"
  shows "history (snd (Cache_stmt drv q c)) =
           history c @ [EvLock stmtsLock, EvPreparex q, EvUnlock stmtsLock]"
    and "(fst (Cache_stmt drv q c), db (snd (Cache_stmt drv q c))) = Preparex drv None q (db c)"
    and "stmts (snd (Cache_stmt drv q c)) =
           (case fst (Cache_stmt drv q c) of Inl e \<Rightarrow> stmts c | Inr s \<Rightarrow> (stmts c)(q \<mapsto> s))"
    and "history (snd (Cache_stmtContext drv ctx q c)) =
           history c @ [EvLock stmtsLock, EvPreparex q, EvUnlock stmtsLock]"
    and "(fst (Cache_stmtContext drv ctx q c), db (snd (Cache_stmtContext drv ctx q c))) =
           Preparex drv (Some ctx) q (db c)"
    and "stmts (snd (Cache_stmtContext drv ctx q c)) =
           (case fst (Cache_stmtContext drv ctx q c) of
              Inl e \<Rightarrow> stmts c | Inr s \<Rightarrow> (stmts c)(q \<mapsto> s))"
  using assms
  by (simp_all add: Cache_stmt_eq Cache_stmtContext_eq split: prod.split sum.split)

lemma pool_named_miss:
  assumes "namedStmts c q = None"
  shows "history (snd (Cache_namedStmt drv q c)) =
           history c @ [EvLock namedStmtsLock, EvPrepareNamed q, EvUnlock namedStmtsLock]"
    and "(fst (Cache_namedStmt drv q c), db (snd (Cache_namedStmt drv q c))) =
           PrepareNamed drv None q (db c)"
    and "namedStmts (snd (Cache_namedStmt drv q c)) =
           (case fst (Cache_namedStmt drv q c) of
              Inl e \<Rightarrow> namedStmts c | Inr s \<Rightarrow> (namedStmts c)(q \<mapsto> s))"
    and "history (snd (Cache_namedStmtContext drv ctx q c)) =
           history c @ [EvLock namedStmtsLock, EvPrepareNamed q, EvUnlock namedStmtsLock]"
    and "(fst (Cache_namedStmtContext drv ctx q c), db (snd (Cache_namedStmtContext drv ctx q c))) =
           PrepareNamed drv (Some ctx) q (db c)"
    and "namedStmts (snd (Cache_namedStmtContext drv ctx q c)) =
           (case fst (Cache_namedStmtContext drv ctx q c) of
              Inl e \<Rightarrow> namedStmts c | Inr s \<Rightarrow> (namedStmts c)(q \<mapsto> s))"
  using assms
  by (simp_all add: Cache_namedStmt_eq Cache_namedStmtContext_eq split: prod.split sum.split)

lemma pool_keeps_entry:
  "stmts c q' = Some h \<Longrightarrow> stmts (snd (Cache_stmt drv q c)) q' = Some h"
  "stmts c q' = Some h \<Longrightarrow> stmts (snd (Cache_stmtContext drv ctx q c)) q' = Some h"
  "namedStmts c q' = Some n \<Longrightarrow> namedStmts (snd (Cache_namedStmt drv q c)) q' = Some n"
  "namedStmts c q' = Some n \<Longrightarrow> namedStmts (snd (Cache_namedStmtContext drv ctx q c)) q' = Some n"
  using Cache_stmt_maps(1) [of c drv q] Cache_stmtContext_maps(1) [of c drv ctx q]
    Cache_namedStmt_maps(1) [of c drv q] Cache_namedStmtContext_maps(1) [of c drv ctx q]
  by (auto simp add: map_le_def dom_def)

text \<open>
  Claim C1. For \<^verbatim>\<open>Cache.stmt\<close> and \<^verbatim>\<open>Cache.stmtContext\<close> on a query
  \<open>q\<close>:
  \<^item> if the positional map holds \<open>h\<close> under \<open>q\<close>, the call returns \<open>h\<close> and changes
    nothing but the history, which gains the \<^verbatim>\<open>Lock\<close> and the \<^verbatim>\<open>Unlock\<close> and
    no driver call;
  \<^item> if the map holds nothing under \<open>q\<close>, the history gains exactly one driver call, the
    prepare of \<open>q\<close>, between the \<^verbatim>\<open>Lock\<close> and the \<^verbatim>\<open>Unlock\<close>; what is
    returned and the driver state are that call's; and when the call returned a handle
    the map is the old one with that handle stored under \<open>q\<close> itself (when it returned
    an error the map is the old one);
  \<^item> an entry of the map, under \<open>q\<close> or any other query, is still there with the same
    handle after the call, and after any sequence of calls of the public interface: a
    handle once stored is never replaced.

  \<^verbatim>\<open>Cache.namedStmt\<close> and \<^verbatim>\<open>Cache.namedStmtContext\<close> satisfy the same over
  the named map, its mutex and \<^verbatim>\<open>PrepareNamed\<close>.
\<close>

theorem C1_pool_resolution_memoizes:
  "(stmts c q = Some h \<longrightarrow>
      Cache_stmt drv q c =
        (Inr h, c\<lparr>history := history c @ [EvLock stmtsLock, EvUnlock stmtsLock]\<rparr>) \<and>
      Cache_stmtContext drv ctx q c =
        (Inr h, c\<lparr>history := history c @ [EvLock stmtsLock, EvUnlock stmtsLock]\<rparr>)) \<and>
   (stmts c q = None \<longrightarrow>
      history (snd (Cache_stmt drv q c)) =
        history c @ [EvLock stmtsLock, EvPreparex q, EvUnlock stmtsLock] \<and>
      (fst (Cache_stmt drv q c), db (snd (Cache_stmt drv q c))) = Preparex drv None q (db c) \<and>
      stmts (snd (Cache_stmt drv q c)) =
        (case fst (Cache_stmt drv q c) of Inl e \<Rightarrow> stmts c | Inr s \<Rightarrow> (stmts c)(q \<mapsto> s)) \<and>
      history (snd (Cache_stmtContext drv ctx q c)) =
        history c @ [EvLock stmtsLock, EvPreparex q, EvUnlock stmtsLock] \<and>
      (fst (Cache_stmtContext drv ctx q c), db (snd (Cache_stmtContext drv ctx q c))) =
        Preparex drv (Some ctx) q (db c) \<and>
      stmts (snd (Cache_stmtContext drv ctx q c)) =
        (case fst (Cache_stmtContext drv ctx q c) of
           Inl e \<Rightarrow> stmts c | Inr s \<Rightarrow> (stmts c)(q \<mapsto> s))) \<and>
   (stmts c q' = Some h' \<longrightarrow>
      stmts (snd (Cache_stmt drv q c)) q' = Some h' \<and>
      stmts (snd (Cache_stmtContext drv ctx q c)) q' = Some h') \<and>
   (stmts (cache w) q = Some h \<longrightarrow> stmts (cache (run_api drv as w)) q = Some h) \<and>
   (namedStmts c q = Some n \<longrightarrow>
      Cache_namedStmt drv q c =
        (Inr n, c\<lparr>history := history c @ [EvLock namedStmtsLock, EvUnlock namedStmtsLock]\<rparr>) \<and>
      Cache_namedStmtContext drv ctx q c =
        (Inr n, c\<lparr>history := history c @ [EvLock namedStmtsLock, EvUnlock namedStmtsLock]\<rparr>)) \<and>
   (namedStmts c q = None \<longrightarrow>
      history (snd (Cache_namedStmt drv q c)) =
        history c @ [EvLock namedStmtsLock, EvPrepareNamed q, EvUnlock namedStmtsLock] \<and>
      (fst (Cache_namedStmt drv q c), db (snd (Cache_namedStmt drv q c))) =
        PrepareNamed drv None q (db c) \<and>
      namedStmts (snd (Cache_namedStmt drv q c)) =
        (case fst (Cache_namedStmt drv q c) of
           Inl e \<Rightarrow> namedStmts c | Inr s \<Rightarrow> (namedStmts c)(q \<mapsto> s)) \<and>
      history (snd (Cache_namedStmtContext drv ctx q c)) =
        history c @ [EvLock namedStmtsLock, EvPrepareNamed q, EvUnlock namedStmtsLock] \<and>
      (fst (Cache_namedStmtContext drv ctx q c), db (snd (Cache_namedStmtContext drv ctx q c))) =
        PrepareNamed drv (Some ctx) q (db c) \<and>
      namedStmts (snd (Cache_namedStmtContext drv ctx q c)) =
        (case fst (Cache_namedStmtContext drv ctx q c) of
           Inl e \<Rightarrow> namedStmts c | Inr s \<Rightarrow> (namedStmts c)(q \<mapsto> s))) \<and>
   (namedStmts c q' = Some n' \<longrightarrow>
      namedStmts (snd (Cache_namedStmt drv q c)) q' = Some n' \<and>
      namedStmts (snd (Cache_namedStmtContext drv ctx q c)) q' = Some n') \<and>
   (namedStmts (cache w) q = Some n \<longrightarrow> namedStmts (cache (run_api drv as w)) q = Some n)"
  by (simp add: pool_positional_hit pool_positional_miss pool_keeps_entry run_api_keeps_entry
      pool_named_hit pool_named_miss)

text \<open>
  On the driver double: the first resolution of a query in a new cache prepares it once
  and stores it; the second finds it and calls no driver; resolving another query, or
  running calls of the public interface, leaves the entry in place.
\<close>

theorem C1_witness:
  "stmts (New fake_db0 :: (fake_db, fake_stmt, fake_named) Cache) ''SELECT 1'' = None \<and>
   fst (Cache_stmt fake ''SELECT 1'' (New fake_db0)) = Inr (Prepared ''SELECT 1'') \<and>
   history (snd (Cache_stmt fake ''SELECT 1'' (New fake_db0))) =
     [EvLock stmtsLock, EvPreparex ''SELECT 1'', EvUnlock stmtsLock] \<and>
   stmts (snd (Cache_stmt fake ''SELECT 1'' (New fake_db0))) ''SELECT 1'' =
     Some (Prepared ''SELECT 1'') \<and>
   fst (Cache_stmtContext fake Background ''SELECT 1''
          (snd (Cache_stmt fake ''SELECT 1'' (New fake_db0)))) = Inr (Prepared ''SELECT 1'') \<and>
   history (snd (Cache_stmtContext fake Background ''SELECT 1''
          (snd (Cache_stmt fake ''SELECT 1'' (New fake_db0))))) =
     [EvLock stmtsLock, EvPreparex ''SELECT 1'', EvUnlock stmtsLock,
      EvLock stmtsLock, EvUnlock stmtsLock] \<and>
   stmts (snd (Cache_stmt fake ''SELECT 2'' (snd (Cache_stmt fake ''SELECT 1'' (New fake_db0)))))
     ''SELECT 1'' = Some (Prepared ''SELECT 1'') \<and>
   stmts (cache (run_api fake [OnCache (Exec None ''SELECT 1'' [7]), Begin,
                               OnTx 0 (Get (Some Canceled) 0 ''SELECT 1'' [7])]
            \<lparr>cache = snd (Cache_stmt fake ''SELECT 1'' (New fake_db0)), txs = []\<rparr>))
     ''SELECT 1'' = Some (Prepared ''SELECT 1'') \<and>
   namedStmts (New fake_db0 :: (fake_db, fake_stmt, fake_named) Cache) ''SELECT :a'' = None \<and>
   fst (Cache_namedStmt fake ''SELECT :a'' (New fake_db0)) = Inr (NamedPrepared ''SELECT :a'') \<and>
   history (snd (Cache_namedStmt fake ''SELECT :a'' (New fake_db0))) =
     [EvLock namedStmtsLock, EvPrepareNamed ''SELECT :a'', EvUnlock namedStmtsLock] \<and>
   namedStmts (snd (Cache_namedStmt fake ''SELECT :a'' (New fake_db0))) ''SELECT :a'' =
     Some (NamedPrepared ''SELECT :a'') \<and>
   fst (Cache_namedStmtContext fake Background ''SELECT :a''
          (snd (Cache_namedStmt fake ''SELECT :a'' (New fake_db0)))) =
     Inr (NamedPrepared ''SELECT :a'') \<and>
   history (snd (Cache_namedStmtContext fake Background ''SELECT :a''
          (snd (Cache_namedStmt fake ''SELECT :a'' (New fake_db0))))) =
     [EvLock namedStmtsLock, EvPrepareNamed ''SELECT :a'', EvUnlock namedStmtsLock,
      EvLock namedStmtsLock, EvUnlock namedStmtsLock]"
  using
    C1_pool_resolution_memoizes [where c = "New fake_db0" and q = "''SELECT 1''" and drv = fake]
    C1_pool_resolution_memoizes [where c = "snd (Cache_stmt fake ''SELECT 1'' (New fake_db0))"
      and q = "''SELECT 1''" and drv = fake and ctx = Background
      and h = "Prepared ''SELECT 1''"]
    C1_pool_resolution_memoizes [where c = "snd (Cache_stmt fake ''SELECT 1'' (New fake_db0))"
      and q = "''SELECT 2''" and q' = "''SELECT 1''" and h' = "Prepared ''SELECT 1''" and drv = fake]
    C1_pool_resolution_memoizes [where drv = fake and q = "''SELECT 1''"
      and h = "Prepared ''SELECT 1''"
      and w = "\<lparr>cache = snd (Cache_stmt fake ''SELECT 1'' (New fake_db0)), txs = []\<rparr>"
      and as = "[OnCache (Exec None ''SELECT 1'' [7]), Begin,
                 OnTx 0 (Get (Some Canceled) 0 ''SELECT 1'' [7])]"]
  by (simp add: Cache_stmt_eq Cache_stmtContext_eq Cache_namedStmt_eq Cache_namedStmtContext_eq
      New_def fake_defs)

section \<open>A failed preparation is not cached\<close>

lemma pool_positional_error:
  assumes "fst (Cache_stmt drv q c) = Inl err"
  shows "stmts c q = None"
    and "fst (Preparex drv None q (db c)) = Inl err"
    and "stmts (snd (Cache_stmt drv q c)) = stmts c"
    and "namedStmts (snd (Cache_stmt drv q c)) = namedStmts c"
  using assms
  by (auto simp add: Cache_stmt_eq split: option.splits prod.splits sum.splits)

lemma pool_positional_ctx_error:
  assumes "fst (Cache_stmtContext drv ctx q c) = Inl err"
  shows "stmts c q = None"
    and "fst (Preparex drv (Some ctx) q (db c)) = Inl err"
    and "stmts (snd (Cache_stmtContext drv ctx q c)) = stmts c"
    and "namedStmts (snd (Cache_stmtContext drv ctx q c)) = namedStmts c"
  using assms
  by (auto simp add: Cache_stmtContext_eq split: option.splits prod.splits sum.splits)

lemma pool_named_error:
  assumes "fst (Cache_namedStmt drv q c) = Inl err"
  shows "namedStmts c q = None"
    and "fst (PrepareNamed drv None q (db c)) = Inl err"
    and "stmts (snd (Cache_namedStmt drv q c)) = stmts c"
    and "namedStmts (snd (Cache_namedStmt drv q c)) = namedStmts c"
  using assms
  by (auto simp add: Cache_namedStmt_eq split: option.splits prod.splits sum.splits)

lemma pool_named_ctx_error:
  assumes "fst (Cache_namedStmtContext drv ctx q c) = Inl err"
  shows "namedStmts c q = None"
    and "fst (PrepareNamed drv (Some ctx) q (db c)) = Inl err"
    and "stmts (snd (Cache_namedStmtContext drv ctx q c)) = stmts c"
    and "namedStmts (snd (Cache_namedStmtContext drv ctx q c)) = namedStmts c"
  using assms
  by (auto simp add: Cache_namedStmtContext_eq split: option.splits prod.splits sum.splits)

lemma pool_driver_error:
  "stmts c q = None \<Longrightarrow> fst (Preparex drv None q (db c)) = Inl err \<Longrightarrow>
     fst (Cache_stmt drv q c) = Inl err"
  "stmts c q = None \<Longrightarrow> fst (Preparex drv (Some ctx) q (db c)) = Inl err \<Longrightarrow>
     fst (Cache_stmtContext drv ctx q c) = Inl err"
  "namedStmts c q = None \<Longrightarrow> fst (PrepareNamed drv None q (db c)) = Inl err \<Longrightarrow>
     fst (Cache_namedStmt drv q c) = Inl err"
  "namedStmts c q = None \<Longrightarrow> fst (PrepareNamed drv (Some ctx) q (db c)) = Inl err \<Longrightarrow>
     fst (Cache_namedStmtContext drv ctx q c) = Inl err"
  by (auto simp add: pool_resolution_eqs split: prod.splits sum.splits)

lemma stmt_returns_driver_error:
  "(stmts c q = None \<and> fst (Preparex drv None q (db c)) = Inl err \<longrightarrow>
     fst (Cache_stmt drv q c) = Inl err)"
  by (simp add: pool_driver_error)

lemma stmt_error_leaves_maps:
  "(fst (Cache_stmt drv q c) = Inl err \<longrightarrow>
     fst (Preparex drv None q (db c)) = Inl err \<and>
     stmts (snd (Cache_stmt drv q c)) = stmts c \<and>
     namedStmts (snd (Cache_stmt drv q c)) = namedStmts c \<and>
     stmts (snd (Cache_stmt drv q c)) q = None \<and>
     history (snd (Cache_stmt drv q (snd (Cache_stmt drv q c)))) =
       history (snd (Cache_stmt drv q c)) @ [EvLock stmtsLock, EvPreparex q, EvUnlock stmtsLock] \<and>
     fst (Cache_stmt drv q (snd (Cache_stmt drv q c))) = fst (Preparex drv None q (db (snd (Cache_stmt drv q c)))) \<and>
     history (snd (Cache_stmtContext drv ctx' q (snd (Cache_stmt drv q c)))) =
       history (snd (Cache_stmt drv q c)) @ [EvLock stmtsLock, EvPreparex q, EvUnlock stmtsLock] \<and>
     fst (Cache_stmtContext drv ctx' q (snd (Cache_stmt drv q c))) = fst (Preparex drv (Some ctx') q (db (snd (Cache_stmt drv q c)))))"
proof
  assume e: "fst (Cache_stmt drv q c) = Inl err"
  have absent: "stmts (snd (Cache_stmt drv q c)) q = None"
    using pool_positional_error(1) [OF e] pool_positional_error(3) [OF e] by simp
  show "fst (Preparex drv None q (db c)) = Inl err \<and>
      stmts (snd (Cache_stmt drv q c)) = stmts c \<and>
      namedStmts (snd (Cache_stmt drv q c)) = namedStmts c \<and>
      stmts (snd (Cache_stmt drv q c)) q = None \<and>
      history (snd (Cache_stmt drv q (snd (Cache_stmt drv q c)))) =
        history (snd (Cache_stmt drv q c)) @ [EvLock stmtsLock, EvPreparex q, EvUnlock stmtsLock] \<and>
      fst (Cache_stmt drv q (snd (Cache_stmt drv q c))) = fst (Preparex drv None q (db (snd (Cache_stmt drv q c)))) \<and>
      history (snd (Cache_stmtContext drv ctx' q (snd (Cache_stmt drv q c)))) =
        history (snd (Cache_stmt drv q c)) @ [EvLock stmtsLock, EvPreparex q, EvUnlock stmtsLock] \<and>
      fst (Cache_stmtContext drv ctx' q (snd (Cache_stmt drv q c))) = fst (Preparex drv (Some ctx') q (db (snd (Cache_stmt drv q c))))"
    using pool_positional_error(2,3,4) [OF e] absent
    by (simp add: pool_resolution_eqs split: prod.split sum.split)
qed

lemma stmtContext_returns_driver_error:
  "(stmts c q = None \<and> fst (Preparex drv (Some ctx) q (db c)) = Inl err \<longrightarrow>
     fst (Cache_stmtContext drv ctx q c) = Inl err)"
  by (simp add: pool_driver_error)

lemma stmtContext_error_leaves_maps:
  "(fst (Cache_stmtContext drv ctx q c) = Inl err \<longrightarrow>
     fst (Preparex drv (Some ctx) q (db c)) = Inl err \<and>
     stmts (snd (Cache_stmtContext drv ctx q c)) = stmts c \<and>
     namedStmts (snd (Cache_stmtContext drv ctx q c)) = namedStmts c \<and>
     stmts (snd (Cache_stmtContext drv ctx q c)) q = None \<and>
     history (snd (Cache_stmt drv q (snd (Cache_stmtContext drv ctx q c)))) =
       history (snd (Cache_stmtContext drv ctx q c)) @ [EvLock stmtsLock, EvPreparex q, EvUnlock stmtsLock] \<and>
     fst (Cache_stmt drv q (snd (Cache_stmtContext drv ctx q c))) = fst (Preparex drv None q (db (snd (Cache_stmtContext drv ctx q c)))) \<and>
     history (snd (Cache_stmtContext drv ctx' q (snd (Cache_stmtContext drv ctx q c)))) =
       history (snd (Cache_stmtContext drv ctx q c)) @ [EvLock stmtsLock, EvPreparex q, EvUnlock stmtsLock] \<and>
     fst (Cache_stmtContext drv ctx' q (snd (Cache_stmtContext drv ctx q c))) = fst (Preparex drv (Some ctx') q (db (snd (Cache_stmtContext drv ctx q c)))))"
proof
  assume e: "fst (Cache_stmtContext drv ctx q c) = Inl err"
  have absent: "stmts (snd (Cache_stmtContext drv ctx q c)) q = None"
    using pool_positional_ctx_error(1) [OF e] pool_positional_ctx_error(3) [OF e] by simp
  show "fst (Preparex drv (Some ctx) q (db c)) = Inl err \<and>
      stmts (snd (Cache_stmtContext drv ctx q c)) = stmts c \<and>
      namedStmts (snd (Cache_stmtContext drv ctx q c)) = namedStmts c \<and>
      stmts (snd (Cache_stmtContext drv ctx q c)) q = None \<and>
      history (snd (Cache_stmt drv q (snd (Cache_stmtContext drv ctx q c)))) =
        history (snd (Cache_stmtContext drv ctx q c)) @ [EvLock stmtsLock, EvPreparex q, EvUnlock stmtsLock] \<and>
      fst (Cache_stmt drv q (snd (Cache_stmtContext drv ctx q c))) = fst (Preparex drv None q (db (snd (Cache_stmtContext drv ctx q c)))) \<and>
      history (snd (Cache_stmtContext drv ctx' q (snd (Cache_stmtContext drv ctx q c)))) =
        history (snd (Cache_stmtContext drv ctx q c)) @ [EvLock stmtsLock, EvPreparex q, EvUnlock stmtsLock] \<and>
      fst (Cache_stmtContext drv ctx' q (snd (Cache_stmtContext drv ctx q c))) = fst (Preparex drv (Some ctx') q (db (snd (Cache_stmtContext drv ctx q c))))"
    using pool_positional_ctx_error(2,3,4) [OF e] absent
    by (simp add: pool_resolution_eqs split: prod.split sum.split)
qed

lemma namedStmt_returns_driver_error:
  "(namedStmts c q = None \<and> fst (PrepareNamed drv None q (db c)) = Inl err \<longrightarrow>
     fst (Cache_namedStmt drv q c) = Inl err)"
  by (simp add: pool_driver_error)

lemma namedStmt_error_leaves_maps:
  "(fst (Cache_namedStmt drv q c) = Inl err \<longrightarrow>
     fst (PrepareNamed drv None q (db c)) = Inl err \<and>
     stmts (snd (Cache_namedStmt drv q c)) = stmts c \<and>
     namedStmts (snd (Cache_namedStmt drv q c)) = namedStmts c \<and>
     namedStmts (snd (Cache_namedStmt drv q c)) q = None \<and>
     history (snd (Cache_namedStmt drv q (snd (Cache_namedStmt drv q c)))) =
       history (snd (Cache_namedStmt drv q c)) @ [EvLock namedStmtsLock, EvPrepareNamed q, EvUnlock namedStmtsLock] \<and>
     fst (Cache_namedStmt drv q (snd (Cache_namedStmt drv q c))) = fst (PrepareNamed drv None q (db (snd (Cache_namedStmt drv q c)))) \<and>
     history (snd (Cache_namedStmtContext drv ctx' q (snd (Cache_namedStmt drv q c)))) =
       history (snd (Cache_namedStmt drv q c)) @ [EvLock namedStmtsLock, EvPrepareNamed q, EvUnlock namedStmtsLock] \<and>
     fst (Cache_namedStmtContext drv ctx' q (snd (Cache_namedStmt drv q c))) = fst (PrepareNamed drv (Some ctx') q (db (snd (Cache_namedStmt drv q c)))))"
proof
  assume e: "fst (Cache_namedStmt drv q c) = Inl err"
  have absent: "namedStmts (snd (Cache_namedStmt drv q c)) q = None"
    using pool_named_error(1) [OF e] pool_named_error(4) [OF e] by simp
  show "fst (PrepareNamed drv None q (db c)) = Inl err \<and>
      stmts (snd (Cache_namedStmt drv q c)) = stmts c \<and>
      namedStmts (snd (Cache_namedStmt drv q c)) = namedStmts c \<and>
      namedStmts (snd (Cache_namedStmt drv q c)) q = None \<and>
      history (snd (Cache_namedStmt drv q (snd (Cache_namedStmt drv q c)))) =
        history (snd (Cache_namedStmt drv q c)) @ [EvLock namedStmtsLock, EvPrepareNamed q, EvUnlock namedStmtsLock] \<and>
      fst (Cache_namedStmt drv q (snd (Cache_namedStmt drv q c))) = fst (PrepareNamed drv None q (db (snd (Cache_namedStmt drv q c)))) \<and>
      history (snd (Cache_namedStmtContext drv ctx' q (snd (Cache_namedStmt drv q c)))) =
        history (snd (Cache_namedStmt drv q c)) @ [EvLock namedStmtsLock, EvPrepareNamed q, EvUnlock namedStmtsLock] \<and>
      fst (Cache_namedStmtContext drv ctx' q (snd (Cache_namedStmt drv q c))) = fst (PrepareNamed drv (Some ctx') q (db (snd (Cache_namedStmt drv q c))))"
    using pool_named_error(2,3,4) [OF e] absent
    by (simp add: pool_resolution_eqs split: prod.split sum.split)
qed

lemma namedStmtContext_returns_driver_error:
  "(namedStmts c q = None \<and> fst (PrepareNamed drv (Some ctx) q (db c)) = Inl err \<longrightarrow>
     fst (Cache_namedStmtContext drv ctx q c) = Inl err)"
  by (simp add: pool_driver_error)

lemma namedStmtContext_error_leaves_maps:
  "(fst (Cache_namedStmtContext drv ctx q c) = Inl err \<longrightarrow>
     fst (PrepareNamed drv (Some ctx) q (db c)) = Inl err \<and>
     stmts (snd (Cache_namedStmtContext drv ctx q c)) = stmts c \<and>
     namedStmts (snd (Cache_namedStmtContext drv ctx q c)) = namedStmts c \<and>
     namedStmts (snd (Cache_namedStmtContext drv ctx q c)) q = None \<and>
     history (snd (Cache_namedStmt drv q (snd (Cache_namedStmtContext drv ctx q c)))) =
       history (snd (Cache_namedStmtContext drv ctx q c)) @ [EvLock namedStmtsLock, EvPrepareNamed q, EvUnlock namedStmtsLock] \<and>
     fst (Cache_namedStmt drv q (snd (Cache_namedStmtContext drv ctx q c))) = fst (PrepareNamed drv None q (db (snd (Cache_namedStmtContext drv ctx q c)))) \<and>
     history (snd (Cache_namedStmtContext drv ctx' q (snd (Cache_namedStmtContext drv ctx q c)))) =
       history (snd (Cache_namedStmtContext drv ctx q c)) @ [EvLock namedStmtsLock, EvPrepareNamed q, EvUnlock namedStmtsLock] \<and>
     fst (Cache_namedStmtContext drv ctx' q (snd (Cache_namedStmtContext drv ctx q c))) = fst (PrepareNamed drv (Some ctx') q (db (snd (Cache_namedStmtContext drv ctx q c)))))"
proof
  assume e: "fst (Cache_namedStmtContext drv ctx q c) = Inl err"
  have absent: "namedStmts (snd (Cache_namedStmtContext drv ctx q c)) q = None"
    using pool_named_ctx_error(1) [OF e] pool_named_ctx_error(4) [OF e] by simp
  show "fst (PrepareNamed drv (Some ctx) q (db c)) = Inl err \<and>
      stmts (snd (Cache_namedStmtContext drv ctx q c)) = stmts c \<and>
      namedStmts (snd (Cache_namedStmtContext drv ctx q c)) = namedStmts c \<and>
      namedStmts (snd (Cache_namedStmtContext drv ctx q c)) q = None \<and>
      history (snd (Cache_namedStmt drv q (snd (Cache_namedStmtContext drv ctx q c)))) =
        history (snd (Cache_namedStmtContext drv ctx q c)) @ [EvLock namedStmtsLock, EvPrepareNamed q, EvUnlock namedStmtsLock] \<and>
      fst (Cache_namedStmt drv q (snd (Cache_namedStmtContext drv ctx q c))) = fst (PrepareNamed drv None q (db (snd (Cache_namedStmtContext drv ctx q c)))) \<and>
      history (snd (Cache_namedStmtContext drv ctx' q (snd (Cache_namedStmtContext drv ctx q c)))) =
        history (snd (Cache_namedStmtContext drv ctx q c)) @ [EvLock namedStmtsLock, EvPrepareNamed q, EvUnlock namedStmtsLock] \<and>
      fst (Cache_namedStmtContext drv ctx' q (snd (Cache_namedStmtContext drv ctx q c))) = fst (PrepareNamed drv (Some ctx') q (db (snd (Cache_namedStmtContext drv ctx q c))))"
    using pool_named_ctx_error(2,3,4) [OF e] absent
    by (simp add: pool_resolution_eqs split: prod.split sum.split)
qed

lemma Tx_stmt_error_leaves_maps:
  "(fst (Tx_stmt drv q t c) = Inl err \<longrightarrow>
     tx_stmts t q = None \<and>
     fst (Cache_stmt drv q c) = Inl err \<and>
     fst (snd (Tx_stmt drv q t c)) = t \<and>
     snd (snd (Tx_stmt drv q t c)) = snd (Cache_stmt drv q c))"
  by (auto simp add: Tx_stmt_def driver_call_eq split: option.splits prod.splits sum.splits)

lemma Tx_stmtContext_error_leaves_maps:
  "(fst (Tx_stmtContext drv ctx q t c) = Inl err \<longrightarrow>
     tx_stmts t q = None \<and>
     fst (Cache_stmtContext drv ctx q c) = Inl err \<and>
     fst (snd (Tx_stmtContext drv ctx q t c)) = t \<and>
     snd (snd (Tx_stmtContext drv ctx q t c)) = snd (Cache_stmtContext drv ctx q c))"
  by (auto simp add: Tx_stmtContext_def driver_call_eq split: option.splits prod.splits sum.splits)

lemma Tx_namedStmt_error_leaves_maps:
  "(fst (Tx_namedStmt drv q t c) = Inl err \<longrightarrow>
     tx_namedStmts t q = None \<and>
     fst (Cache_namedStmt drv q c) = Inl err \<and>
     fst (snd (Tx_namedStmt drv q t c)) = t \<and>
     snd (snd (Tx_namedStmt drv q t c)) = snd (Cache_namedStmt drv q c))"
  by (auto simp add: Tx_namedStmt_def driver_call_eq split: option.splits prod.splits sum.splits)

lemma Tx_namedStmtContext_error_leaves_maps:
  "(fst (Tx_namedStmtContext drv ctx q t c) = Inl err \<longrightarrow>
     tx_namedStmts t q = None \<and>
     fst (Cache_namedStmtContext drv ctx q c) = Inl err \<and>
     fst (snd (Tx_namedStmtContext drv ctx q t c)) = t \<and>
     snd (snd (Tx_namedStmtContext drv ctx q t c)) = snd (Cache_namedStmtContext drv ctx q c))"
  by (auto simp add: Tx_namedStmtContext_def driver_call_eq split: option.splits prod.splits sum.splits)


text \<open>
  Claim C3. If the driver's prepare fails during a pool-level resolution of \<open>q\<close>, the
  resolution returns that error: a resolution that finds no entry and whose prepare
  returns \<open>err\<close> returns \<open>err\<close>, and a resolution returns an error only so (the entry
  was missing and the error is the one the driver's prepare returned; a driver returns
  one for a cancelled context as for any other failure, and the driver double does).
  Both maps are then exactly what they were, so there is still no entry under \<open>q\<close>,
  and the next resolution of \<open>q\<close>, with or without a context, calls the driver's
  prepare again and returns what that call returns. The same holds for the named
  resolutions. A resolution in a transaction returns an error only when its pool-level
  resolution does, and then the transaction is what it was and the cache is what the
  pool-level resolution left.
\<close>

theorem C3_failed_prepare_is_not_cached:
  "(stmts c q = None \<and> fst (Preparex drv None q (db c)) = Inl err \<longrightarrow>
      fst (Cache_stmt drv q c) = Inl err) \<and>
   (stmts c q = None \<and> fst (Preparex drv (Some ctx) q (db c)) = Inl err \<longrightarrow>
      fst (Cache_stmtContext drv ctx q c) = Inl err) \<and>
   (fst (Cache_stmt drv q c) = Inl err \<longrightarrow>
      fst (Preparex drv None q (db c)) = Inl err \<and>
      stmts (snd (Cache_stmt drv q c)) = stmts c \<and>
      namedStmts (snd (Cache_stmt drv q c)) = namedStmts c \<and>
      stmts (snd (Cache_stmt drv q c)) q = None \<and>
      history (snd (Cache_stmt drv q (snd (Cache_stmt drv q c)))) =
        history (snd (Cache_stmt drv q c)) @ [EvLock stmtsLock, EvPreparex q, EvUnlock stmtsLock] \<and>
      fst (Cache_stmt drv q (snd (Cache_stmt drv q c))) = fst (Preparex drv None q (db (snd (Cache_stmt drv q c)))) \<and>
      history (snd (Cache_stmtContext drv ctx' q (snd (Cache_stmt drv q c)))) =
        history (snd (Cache_stmt drv q c)) @ [EvLock stmtsLock, EvPreparex q, EvUnlock stmtsLock] \<and>
      fst (Cache_stmtContext drv ctx' q (snd (Cache_stmt drv q c))) = fst (Preparex drv (Some ctx') q (db (snd (Cache_stmt drv q c))))) \<and>
   (fst (Cache_stmtContext drv ctx q c) = Inl err \<longrightarrow>
      fst (Preparex drv (Some ctx) q (db c)) = Inl err \<and>
      stmts (snd (Cache_stmtContext drv ctx q c)) = stmts c \<and>
      namedStmts (snd (Cache_stmtContext drv ctx q c)) = namedStmts c \<and>
      stmts (snd (Cache_stmtContext drv ctx q c)) q = None \<and>
      history (snd (Cache_stmt drv q (snd (Cache_stmtContext drv ctx q c)))) =
        history (snd (Cache_stmtContext drv ctx q c)) @ [EvLock stmtsLock, EvPreparex q, EvUnlock stmtsLock] \<and>
      fst (Cache_stmt drv q (snd (Cache_stmtContext drv ctx q c))) = fst (Preparex drv None q (db (snd (Cache_stmtContext drv ctx q c)))) \<and>
      history (snd (Cache_stmtContext drv ctx' q (snd (Cache_stmtContext drv ctx q c)))) =
        history (snd (Cache_stmtContext drv ctx q c)) @ [EvLock stmtsLock, EvPreparex q, EvUnlock stmtsLock] \<and>
      fst (Cache_stmtContext drv ctx' q (snd (Cache_stmtContext drv ctx q c))) = fst (Preparex drv (Some ctx') q (db (snd (Cache_stmtContext drv ctx q c))))) \<and>
   (namedStmts c q = None \<and> fst (PrepareNamed drv None q (db c)) = Inl err \<longrightarrow>
      fst (Cache_namedStmt drv q c) = Inl err) \<and>
   (namedStmts c q = None \<and> fst (PrepareNamed drv (Some ctx) q (db c)) = Inl err \<longrightarrow>
      fst (Cache_namedStmtContext drv ctx q c) = Inl err) \<and>
   (fst (Cache_namedStmt drv q c) = Inl err \<longrightarrow>
      fst (PrepareNamed drv None q (db c)) = Inl err \<and>
      stmts (snd (Cache_namedStmt drv q c)) = stmts c \<and>
      namedStmts (snd (Cache_namedStmt drv q c)) = namedStmts c \<and>
      namedStmts (snd (Cache_namedStmt drv q c)) q = None \<and>
      history (snd (Cache_namedStmt drv q (snd (Cache_namedStmt drv q c)))) =
        history (snd (Cache_namedStmt drv q c)) @ [EvLock namedStmtsLock, EvPrepareNamed q, EvUnlock namedStmtsLock] \<and>
      fst (Cache_namedStmt drv q (snd (Cache_namedStmt drv q c))) = fst (PrepareNamed drv None q (db (snd (Cache_namedStmt drv q c)))) \<and>
      history (snd (Cache_namedStmtContext drv ctx' q (snd (Cache_namedStmt drv q c)))) =
        history (snd (Cache_namedStmt drv q c)) @ [EvLock namedStmtsLock, EvPrepareNamed q, EvUnlock namedStmtsLock] \<and>
      fst (Cache_namedStmtContext drv ctx' q (snd (Cache_namedStmt drv q c))) = fst (PrepareNamed drv (Some ctx') q (db (snd (Cache_namedStmt drv q c))))) \<and>
   (fst (Cache_namedStmtContext drv ctx q c) = Inl err \<longrightarrow>
      fst (PrepareNamed drv (Some ctx) q (db c)) = Inl err \<and>
      stmts (snd (Cache_namedStmtContext drv ctx q c)) = stmts c \<and>
      namedStmts (snd (Cache_namedStmtContext drv ctx q c)) = namedStmts c \<and>
      namedStmts (snd (Cache_namedStmtContext drv ctx q c)) q = None \<and>
      history (snd (Cache_namedStmt drv q (snd (Cache_namedStmtContext drv ctx q c)))) =
        history (snd (Cache_namedStmtContext drv ctx q c)) @ [EvLock namedStmtsLock, EvPrepareNamed q, EvUnlock namedStmtsLock] \<and>
      fst (Cache_namedStmt drv q (snd (Cache_namedStmtContext drv ctx q c))) = fst (PrepareNamed drv None q (db (snd (Cache_namedStmtContext drv ctx q c)))) \<and>
      history (snd (Cache_namedStmtContext drv ctx' q (snd (Cache_namedStmtContext drv ctx q c)))) =
        history (snd (Cache_namedStmtContext drv ctx q c)) @ [EvLock namedStmtsLock, EvPrepareNamed q, EvUnlock namedStmtsLock] \<and>
      fst (Cache_namedStmtContext drv ctx' q (snd (Cache_namedStmtContext drv ctx q c))) = fst (PrepareNamed drv (Some ctx') q (db (snd (Cache_namedStmtContext drv ctx q c))))) \<and>
   (fst (Tx_stmt drv q t c) = Inl err \<longrightarrow>
      tx_stmts t q = None \<and>
      fst (Cache_stmt drv q c) = Inl err \<and>
      fst (snd (Tx_stmt drv q t c)) = t \<and>
      snd (snd (Tx_stmt drv q t c)) = snd (Cache_stmt drv q c)) \<and>
   (fst (Tx_stmtContext drv ctx q t c) = Inl err \<longrightarrow>
      tx_stmts t q = None \<and>
      fst (Cache_stmtContext drv ctx q c) = Inl err \<and>
      fst (snd (Tx_stmtContext drv ctx q t c)) = t \<and>
      snd (snd (Tx_stmtContext drv ctx q t c)) = snd (Cache_stmtContext drv ctx q c)) \<and>
   (fst (Tx_namedStmt drv q t c) = Inl err \<longrightarrow>
      tx_namedStmts t q = None \<and>
      fst (Cache_namedStmt drv q c) = Inl err \<and>
      fst (snd (Tx_namedStmt drv q t c)) = t \<and>
      snd (snd (Tx_namedStmt drv q t c)) = snd (Cache_namedStmt drv q c)) \<and>
   (fst (Tx_namedStmtContext drv ctx q t c) = Inl err \<longrightarrow>
      tx_namedStmts t q = None \<and>
      fst (Cache_namedStmtContext drv ctx q c) = Inl err \<and>
      fst (snd (Tx_namedStmtContext drv ctx q t c)) = t \<and>
      snd (snd (Tx_namedStmtContext drv ctx q t c)) = snd (Cache_namedStmtContext drv ctx q c))"
  by (intro conjI)
    (rule stmt_returns_driver_error stmtContext_returns_driver_error stmt_error_leaves_maps
       stmtContext_error_leaves_maps namedStmt_returns_driver_error
       namedStmtContext_returns_driver_error namedStmt_error_leaves_maps
       namedStmtContext_error_leaves_maps Tx_stmt_error_leaves_maps
       Tx_stmtContext_error_leaves_maps Tx_namedStmt_error_leaves_maps
       Tx_namedStmtContext_error_leaves_maps)+


text \<open>
  On the driver double: with the connection down for one attempt, the first resolution
  returns the driver's error and stores nothing, and the second prepares again and
  succeeds; a resolution under a cancelled context returns the cancellation error and
  stores nothing, and the next one, under a live context, prepares and succeeds.
\<close>

theorem C3_witness:
  "fst (Cache_stmt fake ''SELECT 1'' (New (fake_db0\<lparr>outage := 1\<rparr>))) = Inl ''connection refused'' \<and>
   stmts (snd (Cache_stmt fake ''SELECT 1'' (New (fake_db0\<lparr>outage := 1\<rparr>)))) = Map.empty \<and>
   fst (Cache_stmt fake ''SELECT 1''
          (snd (Cache_stmt fake ''SELECT 1'' (New (fake_db0\<lparr>outage := 1\<rparr>))))) =
     Inr (Prepared ''SELECT 1'') \<and>
   history (snd (Cache_stmt fake ''SELECT 1''
          (snd (Cache_stmt fake ''SELECT 1'' (New (fake_db0\<lparr>outage := 1\<rparr>)))))) =
     [EvLock stmtsLock, EvPreparex ''SELECT 1'', EvUnlock stmtsLock,
      EvLock stmtsLock, EvPreparex ''SELECT 1'', EvUnlock stmtsLock] \<and>
   fst (Cache_stmtContext fake Canceled ''SELECT 1'' (New fake_db0)) = Inl ''context canceled'' \<and>
   stmts (snd (Cache_stmtContext fake Canceled ''SELECT 1'' (New fake_db0))) = Map.empty \<and>
   fst (Cache_stmtContext fake Background ''SELECT 1''
          (snd (Cache_stmtContext fake Canceled ''SELECT 1'' (New fake_db0)))) =
     Inr (Prepared ''SELECT 1'') \<and>
   fst (Cache_namedStmt fake ''SELECT :a'' (New (fake_db0\<lparr>outage := 1\<rparr>))) =
     Inl ''connection refused'' \<and>
   namedStmts (snd (Cache_namedStmt fake ''SELECT :a'' (New (fake_db0\<lparr>outage := 1\<rparr>)))) =
     Map.empty \<and>
   fst (Cache_namedStmt fake ''SELECT :a''
          (snd (Cache_namedStmt fake ''SELECT :a'' (New (fake_db0\<lparr>outage := 1\<rparr>))))) =
     Inr (NamedPrepared ''SELECT :a'') \<and>
   fst (Cache_namedStmtContext fake Canceled ''SELECT :a'' (New fake_db0)) =
     Inl ''context canceled'' \<and>
   namedStmts (snd (Cache_namedStmtContext fake Canceled ''SELECT :a'' (New fake_db0))) =
     Map.empty \<and>
   fst (Cache_namedStmtContext fake Background ''SELECT :a''
          (snd (Cache_namedStmtContext fake Canceled ''SELECT :a'' (New fake_db0)))) =
     Inr (NamedPrepared ''SELECT :a'') \<and>
   fst (Tx_stmtContext fake Canceled ''SELECT 1''
          \<lparr>tx = 0, tx_stmts = Map.empty, tx_namedStmts = Map.empty\<rparr> (New fake_db0)) =
     Inl ''context canceled'' \<and>
   fst (snd (Tx_stmtContext fake Canceled ''SELECT 1''
          \<lparr>tx = 0, tx_stmts = Map.empty, tx_namedStmts = Map.empty\<rparr> (New fake_db0))) =
     \<lparr>tx = 0, tx_stmts = Map.empty, tx_namedStmts = Map.empty\<rparr> \<and>
   stmts (snd (snd (Tx_stmtContext fake Canceled ''SELECT 1''
          \<lparr>tx = 0, tx_stmts = Map.empty, tx_namedStmts = Map.empty\<rparr> (New fake_db0)))) =
     Map.empty"
  using
    C3_failed_prepare_is_not_cached [where drv = fake and q = "''SELECT 1''"
      and c = "New fake_db0" and err = "''context canceled''" and ctx = Canceled
      and t = "\<lparr>tx = 0, tx_stmts = Map.empty, tx_namedStmts = Map.empty\<rparr>"]
    C3_failed_prepare_is_not_cached [where drv = fake and q = "''SELECT 1''"
      and c = "New (fake_db0\<lparr>outage := 1\<rparr>)" and err = "''connection refused''"
      and ctx = Canceled and ctx' = Background]
    C3_failed_prepare_is_not_cached [where drv = fake and q = "''SELECT 1''"
      and c = "New fake_db0" and err = "''context canceled''"
      and ctx = Canceled and ctx' = Background]
    C3_failed_prepare_is_not_cached [where drv = fake and q = "''SELECT :a''"
      and c = "New (fake_db0\<lparr>outage := 1\<rparr>)" and err = "''connection refused''"
      and ctx = Canceled and ctx' = Background]
    C3_failed_prepare_is_not_cached [where drv = fake and q = "''SELECT :a''"
      and c = "New fake_db0" and err = "''context canceled''"
      and ctx = Canceled and ctx' = Background]
  by (simp add: pool_resolution_eqs Tx_stmtContext_def New_def fake_defs)

section \<open>The positional and the named namespace\<close>

lemma pool_positional_events:
  "\<exists>evs. history (snd (Cache_stmt drv q c)) = history c @ evs \<and>
      set evs \<subseteq> {EvLock stmtsLock, EvUnlock stmtsLock, EvPreparex q}"
  "\<exists>evs. history (snd (Cache_stmtContext drv ctx q c)) = history c @ evs \<and>
      set evs \<subseteq> {EvLock stmtsLock, EvUnlock stmtsLock, EvPreparex q}"
  by (auto simp add: Cache_stmt_eq Cache_stmtContext_eq split: option.splits prod.splits sum.splits)

lemma pool_named_events:
  "\<exists>evs. history (snd (Cache_namedStmt drv q c)) = history c @ evs \<and>
      set evs \<subseteq> {EvLock namedStmtsLock, EvUnlock namedStmtsLock, EvPrepareNamed q}"
  "\<exists>evs. history (snd (Cache_namedStmtContext drv ctx q c)) = history c @ evs \<and>
      set evs \<subseteq> {EvLock namedStmtsLock, EvUnlock namedStmtsLock, EvPrepareNamed q}"
  by (auto simp add: Cache_namedStmt_eq Cache_namedStmtContext_eq
      split: option.splits prod.splits sum.splits)

lemma positional_then_named:
  assumes "stmts c q = None" and "namedStmts c q = None"
    and "fst (Cache_stmt drv q c) = Inr s"
    and "fst (Cache_namedStmt drv q (snd (Cache_stmt drv q c))) = Inr n"
  shows "stmts (snd (Cache_namedStmt drv q (snd (Cache_stmt drv q c)))) = (stmts c)(q \<mapsto> s)"
    and "namedStmts (snd (Cache_namedStmt drv q (snd (Cache_stmt drv q c)))) =
           (namedStmts c)(q \<mapsto> n)"
    and "history (snd (Cache_namedStmt drv q (snd (Cache_stmt drv q c)))) =
           history c @
             [EvLock stmtsLock, EvPreparex q, EvUnlock stmtsLock,
              EvLock namedStmtsLock, EvPrepareNamed q, EvUnlock namedStmtsLock]"
  using assms
  by (auto simp add: Cache_stmt_eq Cache_namedStmt_eq split: prod.splits sum.splits)

text \<open>
  Claim C6. Resolve a query \<open>q\<close> that neither map holds once as positional and once as
  named, both prepares succeeding: afterwards the positional map holds the positional
  handle under \<open>q\<close> and the named map holds the named handle under \<open>q\<close>, two entries in
  two maps, and the history has gained two driver calls, one \<^verbatim>\<open>Preparex\<close> and one
  \<^verbatim>\<open>PrepareNamed\<close> of \<open>q\<close>. Moreover, every positional resolution, in the cache or
  in a transaction, leaves the named map of the cache (and of the transaction) as it
  was, and every named resolution leaves the positional maps as they were. The two
  mutexes are independent in what the sequential model can say of them: a positional
  resolution locks and unlocks \<^verbatim>\<open>stmtsLock\<close> only and calls no named prepare, and a
  named resolution locks and unlocks \<^verbatim>\<open>namedStmtsLock\<close> only and calls no
  positional prepare.
\<close>

theorem C6_namespaces_are_independent:
  "(stmts c q = None \<and> namedStmts c q = None \<and>
    fst (Cache_stmt drv q c) = Inr s \<and>
    fst (Cache_namedStmt drv q (snd (Cache_stmt drv q c))) = Inr n \<longrightarrow>
      stmts (snd (Cache_namedStmt drv q (snd (Cache_stmt drv q c)))) = (stmts c)(q \<mapsto> s) \<and>
      namedStmts (snd (Cache_namedStmt drv q (snd (Cache_stmt drv q c)))) =
        (namedStmts c)(q \<mapsto> n) \<and>
      history (snd (Cache_namedStmt drv q (snd (Cache_stmt drv q c)))) =
        history c @
          [EvLock stmtsLock, EvPreparex q, EvUnlock stmtsLock,
           EvLock namedStmtsLock, EvPrepareNamed q, EvUnlock namedStmtsLock]) \<and>
   namedStmts (snd (Cache_stmt drv q c)) = namedStmts c \<and>
   namedStmts (snd (Cache_stmtContext drv ctx q c)) = namedStmts c \<and>
   stmts (snd (Cache_namedStmt drv q c)) = stmts c \<and>
   stmts (snd (Cache_namedStmtContext drv ctx q c)) = stmts c \<and>
   namedStmts (snd (snd (Tx_stmt drv q t c))) = namedStmts c \<and>
   tx_namedStmts (fst (snd (Tx_stmt drv q t c))) = tx_namedStmts t \<and>
   namedStmts (snd (snd (Tx_stmtContext drv ctx q t c))) = namedStmts c \<and>
   tx_namedStmts (fst (snd (Tx_stmtContext drv ctx q t c))) = tx_namedStmts t \<and>
   stmts (snd (snd (Tx_namedStmt drv q t c))) = stmts c \<and>
   tx_stmts (fst (snd (Tx_namedStmt drv q t c))) = tx_stmts t \<and>
   stmts (snd (snd (Tx_namedStmtContext drv ctx q t c))) = stmts c \<and>
   tx_stmts (fst (snd (Tx_namedStmtContext drv ctx q t c))) = tx_stmts t \<and>
   (\<exists>evs. history (snd (Cache_stmt drv q c)) = history c @ evs \<and>
      set evs \<subseteq> {EvLock stmtsLock, EvUnlock stmtsLock, EvPreparex q}) \<and>
   (\<exists>evs. history (snd (Cache_stmtContext drv ctx q c)) = history c @ evs \<and>
      set evs \<subseteq> {EvLock stmtsLock, EvUnlock stmtsLock, EvPreparex q}) \<and>
   (\<exists>evs. history (snd (Cache_namedStmt drv q c)) = history c @ evs \<and>
      set evs \<subseteq> {EvLock namedStmtsLock, EvUnlock namedStmtsLock, EvPrepareNamed q}) \<and>
   (\<exists>evs. history (snd (Cache_namedStmtContext drv ctx q c)) = history c @ evs \<and>
      set evs \<subseteq> {EvLock namedStmtsLock, EvUnlock namedStmtsLock, EvPrepareNamed q})"
proof -
  have both: "stmts c q = None \<and> namedStmts c q = None \<and>
    fst (Cache_stmt drv q c) = Inr s \<and>
    fst (Cache_namedStmt drv q (snd (Cache_stmt drv q c))) = Inr n \<longrightarrow>
      stmts (snd (Cache_namedStmt drv q (snd (Cache_stmt drv q c)))) = (stmts c)(q \<mapsto> s) \<and>
      namedStmts (snd (Cache_namedStmt drv q (snd (Cache_stmt drv q c)))) =
        (namedStmts c)(q \<mapsto> n) \<and>
      history (snd (Cache_namedStmt drv q (snd (Cache_stmt drv q c)))) =
        history c @
          [EvLock stmtsLock, EvPreparex q, EvUnlock stmtsLock,
           EvLock namedStmtsLock, EvPrepareNamed q, EvUnlock namedStmtsLock]"
    using positional_then_named [of c q drv s n] by blast
  show ?thesis
    by (intro conjI, rule both)
      (simp_all add: pool_positional_events pool_named_events
        Cache_stmt_maps Cache_stmtContext_maps Cache_namedStmt_maps Cache_namedStmtContext_maps
        Tx_stmt_maps Tx_stmtContext_maps Tx_namedStmt_maps Tx_namedStmtContext_maps)
qed

text \<open>
  On the driver double, from a new cache: the text \<^verbatim>\<open>SELECT 1\<close> resolved as
  positional and then as named gives one entry in each map and two prepare calls.
\<close>

theorem C6_witness:
  "stmts (New fake_db0 :: (fake_db, fake_stmt, fake_named) Cache) ''SELECT 1'' = None \<and>
   namedStmts (New fake_db0 :: (fake_db, fake_stmt, fake_named) Cache) ''SELECT 1'' = None \<and>
   fst (Cache_stmt fake ''SELECT 1'' (New fake_db0)) = Inr (Prepared ''SELECT 1'') \<and>
   fst (Cache_namedStmt fake ''SELECT 1'' (snd (Cache_stmt fake ''SELECT 1'' (New fake_db0)))) =
     Inr (NamedPrepared ''SELECT 1'') \<and>
   stmts (snd (Cache_namedStmt fake ''SELECT 1'' (snd (Cache_stmt fake ''SELECT 1'' (New fake_db0)))))
     = [''SELECT 1'' \<mapsto> Prepared ''SELECT 1''] \<and>
   namedStmts (snd (Cache_namedStmt fake ''SELECT 1''
       (snd (Cache_stmt fake ''SELECT 1'' (New fake_db0)))))
     = [''SELECT 1'' \<mapsto> NamedPrepared ''SELECT 1''] \<and>
   history (snd (Cache_namedStmt fake ''SELECT 1''
       (snd (Cache_stmt fake ''SELECT 1'' (New fake_db0)))))
     = [EvLock stmtsLock, EvPreparex ''SELECT 1'', EvUnlock stmtsLock,
        EvLock namedStmtsLock, EvPrepareNamed ''SELECT 1'', EvUnlock namedStmtsLock]"
  using C6_namespaces_are_independent [where drv = fake and q = "''SELECT 1''"
      and c = "New fake_db0" and s = "Prepared ''SELECT 1''"
      and n = "NamedPrepared ''SELECT 1''"]
  by (simp add: pool_resolution_eqs New_def fake_defs)

section \<open>A transaction's first resolution of a query the cache already holds\<close>

lemma Tx_stmt_pool_hit:
  assumes "stmts c q = Some p" and "tx_stmts t q = None"
  shows "Tx_stmt drv q t c =
      (Inr (fst (Stmtx drv None (tx t) p (db c))),
       t\<lparr>tx_stmts := (tx_stmts t)(q \<mapsto> fst (Stmtx drv None (tx t) p (db c)))\<rparr>,
       c\<lparr>db := snd (Stmtx drv None (tx t) p (db c)),
         history := history c @ [EvLock stmtsLock, EvUnlock stmtsLock, EvStmtx]\<rparr>)"
  using assms by (simp add: Tx_stmt_def Cache_stmt_eq driver_call_eq)

lemma Tx_stmtContext_pool_hit:
  assumes "stmts c q = Some p" and "tx_stmts t q = None"
  shows "Tx_stmtContext drv ctx q t c =
      (Inr (fst (Stmtx drv (Some ctx) (tx t) p (db c))),
       t\<lparr>tx_stmts := (tx_stmts t)(q \<mapsto> fst (Stmtx drv (Some ctx) (tx t) p (db c)))\<rparr>,
       c\<lparr>db := snd (Stmtx drv (Some ctx) (tx t) p (db c)),
         history := history c @ [EvLock stmtsLock, EvUnlock stmtsLock, EvStmtx]\<rparr>)"
  using assms by (simp add: Tx_stmtContext_def Cache_stmtContext_eq driver_call_eq)

lemma Tx_namedStmt_pool_hit:
  assumes "namedStmts c q = Some p" and "tx_namedStmts t q = None"
  shows "Tx_namedStmt drv q t c =
      (Inr (fst (NamedStmt drv None (tx t) p (db c))),
       t\<lparr>tx_namedStmts := (tx_namedStmts t)(q \<mapsto> fst (NamedStmt drv None (tx t) p (db c)))\<rparr>,
       c\<lparr>db := snd (NamedStmt drv None (tx t) p (db c)),
         history := history c @ [EvLock namedStmtsLock, EvUnlock namedStmtsLock, EvNamedStmt]\<rparr>)"
  using assms by (simp add: Tx_namedStmt_def Cache_namedStmt_eq driver_call_eq)

lemma Tx_namedStmtContext_pool_hit:
  assumes "namedStmts c q = Some p" and "tx_namedStmts t q = None"
  shows "Tx_namedStmtContext drv ctx q t c =
      (Inr (fst (NamedStmt drv (Some ctx) (tx t) p (db c))),
       t\<lparr>tx_namedStmts :=
           (tx_namedStmts t)(q \<mapsto> fst (NamedStmt drv (Some ctx) (tx t) p (db c)))\<rparr>,
       c\<lparr>db := snd (NamedStmt drv (Some ctx) (tx t) p (db c)),
         history := history c @ [EvLock namedStmtsLock, EvUnlock namedStmtsLock, EvNamedStmt]\<rparr>)"
  using assms by (simp add: Tx_namedStmtContext_def Cache_namedStmtContext_eq driver_call_eq)

lemma Begin_fresh:
  "fst (Cache_Begin drv c) = Inr t \<Longrightarrow>
     tx_stmts t q = None \<and> tx_namedStmts t q = None \<and>
     stmts (snd (Cache_Begin drv c)) = stmts c \<and>
     namedStmts (snd (Cache_Begin drv c)) = namedStmts c \<and>
     history (snd (Cache_Begin drv c)) = history c @ [EvBeginx]"
  "fst (Cache_BeginTx drv ctx opts c) = Inr t \<Longrightarrow>
     tx_stmts t q = None \<and> tx_namedStmts t q = None \<and>
     stmts (snd (Cache_BeginTx drv ctx opts c)) = stmts c \<and>
     namedStmts (snd (Cache_BeginTx drv ctx opts c)) = namedStmts c \<and>
     history (snd (Cache_BeginTx drv ctx opts c)) = history c @ [EvBeginx]"
  by (auto simp add: Cache_Begin_def Cache_BeginTx_def driver_call_eq
      split: prod.splits sum.splits)

subsection \<open>Where the entries of the cache come from\<close>

text \<open>
  Whatever is called, an entry of the positional map of the cache is a handle that the
  driver's \<^verbatim>\<open>Preparex\<close> returned, and an entry of the named map one that its
  \<^verbatim>\<open>PrepareNamed\<close> returned: no method stores anything else there, in particular
  not the handle a transaction bound.
\<close>

lemma Cache_stmt_prepared:
  "ran (stmts (snd (Cache_stmt drv k c))) \<subseteq>
     ran (stmts c) \<union> {p. \<exists>co q d. fst (Preparex drv co q d) = Inr p}"
proof (cases "stmts c k")
  case (Some v)
  then show ?thesis by (simp add: Cache_stmt_eq)
next
  case None
  obtain r d where r: "Preparex drv None k (db c) = (r, d)"
    by (cases "Preparex drv None k (db c)") auto
  show ?thesis
  proof (cases r)
    case (Inl e)
    with None r show ?thesis by (simp add: Cache_stmt_eq)
  next
    case (Inr s)
    with r have "fst (Preparex drv None k (db c)) = Inr s" by simp
    then have "s \<in> {p. \<exists>co q d. fst (Preparex drv co q d) = Inr p}" by blast
    with None Inr r show ?thesis by (auto simp add: Cache_stmt_eq)
  qed
qed

lemma Cache_stmtContext_prepared:
  "ran (stmts (snd (Cache_stmtContext drv ctx k c))) \<subseteq>
     ran (stmts c) \<union> {p. \<exists>co q d. fst (Preparex drv co q d) = Inr p}"
proof (cases "stmts c k")
  case (Some v)
  then show ?thesis by (simp add: Cache_stmtContext_eq)
next
  case None
  obtain r d where r: "Preparex drv (Some ctx) k (db c) = (r, d)"
    by (cases "Preparex drv (Some ctx) k (db c)") auto
  show ?thesis
  proof (cases r)
    case (Inl e)
    with None r show ?thesis by (simp add: Cache_stmtContext_eq)
  next
    case (Inr s)
    with r have "fst (Preparex drv (Some ctx) k (db c)) = Inr s" by simp
    then have "s \<in> {p. \<exists>co q d. fst (Preparex drv co q d) = Inr p}" by blast
    with None Inr r show ?thesis by (auto simp add: Cache_stmtContext_eq)
  qed
qed

lemma Tx_stmt_prepared:
  "ran (stmts (snd (snd (Tx_stmt drv k t c)))) \<subseteq>
     ran (stmts c) \<union> {p. \<exists>co q d. fst (Preparex drv co q d) = Inr p}"
proof (cases "tx_stmts t k")
  case (Some s)
  then show ?thesis by (simp add: Tx_stmt_def)
next
  case None
  obtain r c' where r: "Cache_stmt drv k c = (r, c')"
    by (cases "Cache_stmt drv k c") auto
  with None have "stmts (snd (snd (Tx_stmt drv k t c))) = stmts c'"
    by (cases r) (simp_all add: Tx_stmt_def driver_call_eq)
  with r show ?thesis
    using Cache_stmt_prepared [of drv k c] by simp
qed

lemma Tx_stmtContext_prepared:
  "ran (stmts (snd (snd (Tx_stmtContext drv ctx k t c)))) \<subseteq>
     ran (stmts c) \<union> {p. \<exists>co q d. fst (Preparex drv co q d) = Inr p}"
proof (cases "tx_stmts t k")
  case (Some s)
  then show ?thesis by (simp add: Tx_stmtContext_def)
next
  case None
  obtain r c' where r: "Cache_stmtContext drv ctx k c = (r, c')"
    by (cases "Cache_stmtContext drv ctx k c") auto
  with None have "stmts (snd (snd (Tx_stmtContext drv ctx k t c))) = stmts c'"
    by (cases r) (simp_all add: Tx_stmtContext_def driver_call_eq)
  with r show ?thesis
    using Cache_stmtContext_prepared [of drv ctx k c] by simp
qed

lemma Cache_call_prepared:
  assumes "Cache_call drv call c = Some (r, c')"
  shows "ran (stmts c') \<subseteq> ran (stmts c) \<union> {p. \<exists>co q d. fst (Preparex drv co q d) = Inr p}"
proof -
  have a: "\<And>k. ran (stmts (snd (Cache_stmt drv k c))) \<subseteq>
     ran (stmts c) \<union> {p. \<exists>co q d. fst (Preparex drv co q d) = Inr p}"
    by (rule Cache_stmt_prepared)
  have b: "\<And>ctx k. ran (stmts (snd (Cache_stmtContext drv ctx k c))) \<subseteq>
     ran (stmts c) \<union> {p. \<exists>co q d. fst (Preparex drv co q d) = Inr p}"
    by (rule Cache_stmtContext_prepared)
  from assms show ?thesis
    by (cases call)
      (auto simp add: Cache_call_def value_of_def status_of_def
        Cache_namedStmt_maps Cache_namedStmtContext_maps
        split: option.splits list.splits dest: subsetD [OF a] subsetD [OF b])
qed

lemma Tx_call_prepared:
  assumes "Tx_call drv call t c = Some (r, t', c')"
  shows "ran (stmts c') \<subseteq> ran (stmts c) \<union> {p. \<exists>co q d. fst (Preparex drv co q d) = Inr p}"
proof -
  have a: "\<And>k. ran (stmts (snd (snd (Tx_stmt drv k t c)))) \<subseteq>
     ran (stmts c) \<union> {p. \<exists>co q d. fst (Preparex drv co q d) = Inr p}"
    by (rule Tx_stmt_prepared)
  have b: "\<And>ctx k. ran (stmts (snd (snd (Tx_stmtContext drv ctx k t c)))) \<subseteq>
     ran (stmts c) \<union> {p. \<exists>co q d. fst (Preparex drv co q d) = Inr p}"
    by (rule Tx_stmtContext_prepared)
  from assms show ?thesis
    by (cases call)
      (auto simp add: Tx_call_def value_of_def status_of_def snd_eq_pair
        Tx_namedStmt_maps Tx_namedStmtContext_maps
        split: option.splits dest: subsetD [OF a] subsetD [OF b])
qed

lemma api_step_prepared:
  "ran (stmts (cache (api_step drv a w))) \<subseteq>
     ran (stmts (cache w)) \<union> {p. \<exists>co q d. fst (Preparex drv co q d) = Inr p}"
proof (cases a)
  case (OnCache call)
  then show ?thesis
    using Cache_call_prepared [of drv call "cache w"]
    by (auto simp add: api_step_def split: option.splits)
next
  case (OnTx i call)
  then show ?thesis
    using Tx_call_prepared [of drv call "txs w ! i" "cache w"]
    by (auto simp add: api_step_def split: option.splits)
next
  case Begin
  then show ?thesis
    using Cache_Begin_maps(1) [of drv "cache w"]
    by (auto simp add: api_step_def split: sum.splits prod.splits)
next
  case (BeginTx ctx opts)
  then show ?thesis
    using Cache_Begin_maps(4) [of drv ctx opts "cache w"]
    by (auto simp add: api_step_def split: sum.splits prod.splits)
next
  case (ViaDB f)
  then show ?thesis by (simp add: api_step_def)
qed

lemma run_api_prepared:
  "ran (stmts (cache (run_api drv as w))) \<subseteq>
     ran (stmts (cache w)) \<union> {p. \<exists>co q d. fst (Preparex drv co q d) = Inr p}"
proof (induction as arbitrary: w)
  case Nil
  show ?case by simp
next
  case (Cons a as)
  show ?case
    using api_step_prepared [of drv a w] Cons.IH [of "api_step drv a w"]
    by auto
qed

lemma prepared_entry:
  assumes "stmts (cache (run_api drv as \<lparr>cache = New d, txs = []\<rparr>)) q = Some p"
  shows "\<exists>co k e. fst (Preparex drv co k e) = Inr p"
proof -
  from assms have "p \<in> ran (stmts (cache (run_api drv as \<lparr>cache = New d, txs = []\<rparr>)))"
    by (auto simp add: ran_def)
  then show ?thesis
    using run_api_prepared [of drv as "\<lparr>cache = New d, txs = []\<rparr>"]
    by (auto simp add: New_def)
qed

lemma Cache_namedStmt_prepared:
  "ran (namedStmts (snd (Cache_namedStmt drv k c))) \<subseteq>
     ran (namedStmts c) \<union> {p. \<exists>co q d. fst (PrepareNamed drv co q d) = Inr p}"
proof (cases "namedStmts c k")
  case (Some v)
  then show ?thesis by (simp add: Cache_namedStmt_eq)
next
  case None
  obtain r d where r: "PrepareNamed drv None k (db c) = (r, d)"
    by (cases "PrepareNamed drv None k (db c)") auto
  show ?thesis
  proof (cases r)
    case (Inl e)
    with None r show ?thesis by (simp add: Cache_namedStmt_eq)
  next
    case (Inr s)
    with r have "fst (PrepareNamed drv None k (db c)) = Inr s" by simp
    then have "s \<in> {p. \<exists>co q d. fst (PrepareNamed drv co q d) = Inr p}" by blast
    with None Inr r show ?thesis by (auto simp add: Cache_namedStmt_eq)
  qed
qed

lemma Cache_namedStmtContext_prepared:
  "ran (namedStmts (snd (Cache_namedStmtContext drv ctx k c))) \<subseteq>
     ran (namedStmts c) \<union> {p. \<exists>co q d. fst (PrepareNamed drv co q d) = Inr p}"
proof (cases "namedStmts c k")
  case (Some v)
  then show ?thesis by (simp add: Cache_namedStmtContext_eq)
next
  case None
  obtain r d where r: "PrepareNamed drv (Some ctx) k (db c) = (r, d)"
    by (cases "PrepareNamed drv (Some ctx) k (db c)") auto
  show ?thesis
  proof (cases r)
    case (Inl e)
    with None r show ?thesis by (simp add: Cache_namedStmtContext_eq)
  next
    case (Inr s)
    with r have "fst (PrepareNamed drv (Some ctx) k (db c)) = Inr s" by simp
    then have "s \<in> {p. \<exists>co q d. fst (PrepareNamed drv co q d) = Inr p}" by blast
    with None Inr r show ?thesis by (auto simp add: Cache_namedStmtContext_eq)
  qed
qed

lemma Tx_namedStmt_prepared:
  "ran (namedStmts (snd (snd (Tx_namedStmt drv k t c)))) \<subseteq>
     ran (namedStmts c) \<union> {p. \<exists>co q d. fst (PrepareNamed drv co q d) = Inr p}"
proof (cases "tx_namedStmts t k")
  case (Some s)
  then show ?thesis by (simp add: Tx_namedStmt_def)
next
  case None
  obtain r c' where r: "Cache_namedStmt drv k c = (r, c')"
    by (cases "Cache_namedStmt drv k c") auto
  with None have "namedStmts (snd (snd (Tx_namedStmt drv k t c))) = namedStmts c'"
    by (cases r) (simp_all add: Tx_namedStmt_def driver_call_eq)
  with r show ?thesis
    using Cache_namedStmt_prepared [of drv k c] by simp
qed

lemma Tx_namedStmtContext_prepared:
  "ran (namedStmts (snd (snd (Tx_namedStmtContext drv ctx k t c)))) \<subseteq>
     ran (namedStmts c) \<union> {p. \<exists>co q d. fst (PrepareNamed drv co q d) = Inr p}"
proof (cases "tx_namedStmts t k")
  case (Some s)
  then show ?thesis by (simp add: Tx_namedStmtContext_def)
next
  case None
  obtain r c' where r: "Cache_namedStmtContext drv ctx k c = (r, c')"
    by (cases "Cache_namedStmtContext drv ctx k c") auto
  with None have "namedStmts (snd (snd (Tx_namedStmtContext drv ctx k t c))) = namedStmts c'"
    by (cases r) (simp_all add: Tx_namedStmtContext_def driver_call_eq)
  with r show ?thesis
    using Cache_namedStmtContext_prepared [of drv ctx k c] by simp
qed

lemma Cache_call_named_prepared:
  assumes "Cache_call drv call c = Some (r, c')"
  shows "ran (namedStmts c') \<subseteq> ran (namedStmts c) \<union> {p. \<exists>co q d. fst (PrepareNamed drv co q d) = Inr p}"
proof -
  have a: "\<And>k. ran (namedStmts (snd (Cache_namedStmt drv k c))) \<subseteq>
     ran (namedStmts c) \<union> {p. \<exists>co q d. fst (PrepareNamed drv co q d) = Inr p}"
    by (rule Cache_namedStmt_prepared)
  have b: "\<And>ctx k. ran (namedStmts (snd (Cache_namedStmtContext drv ctx k c))) \<subseteq>
     ran (namedStmts c) \<union> {p. \<exists>co q d. fst (PrepareNamed drv co q d) = Inr p}"
    by (rule Cache_namedStmtContext_prepared)
  from assms show ?thesis
    by (cases call)
      (auto simp add: Cache_call_def value_of_def status_of_def
        Cache_stmt_maps Cache_stmtContext_maps
        split: option.splits list.splits dest: subsetD [OF a] subsetD [OF b])
qed

lemma Tx_call_named_prepared:
  assumes "Tx_call drv call t c = Some (r, t', c')"
  shows "ran (namedStmts c') \<subseteq> ran (namedStmts c) \<union> {p. \<exists>co q d. fst (PrepareNamed drv co q d) = Inr p}"
proof -
  have a: "\<And>k. ran (namedStmts (snd (snd (Tx_namedStmt drv k t c)))) \<subseteq>
     ran (namedStmts c) \<union> {p. \<exists>co q d. fst (PrepareNamed drv co q d) = Inr p}"
    by (rule Tx_namedStmt_prepared)
  have b: "\<And>ctx k. ran (namedStmts (snd (snd (Tx_namedStmtContext drv ctx k t c)))) \<subseteq>
     ran (namedStmts c) \<union> {p. \<exists>co q d. fst (PrepareNamed drv co q d) = Inr p}"
    by (rule Tx_namedStmtContext_prepared)
  from assms show ?thesis
    by (cases call)
      (auto simp add: Tx_call_def value_of_def status_of_def snd_eq_pair
        Tx_stmt_maps Tx_stmtContext_maps
        split: option.splits dest: subsetD [OF a] subsetD [OF b])
qed

lemma api_step_named_prepared:
  "ran (namedStmts (cache (api_step drv a w))) \<subseteq>
     ran (namedStmts (cache w)) \<union> {p. \<exists>co q d. fst (PrepareNamed drv co q d) = Inr p}"
proof (cases a)
  case (OnCache call)
  then show ?thesis
    using Cache_call_named_prepared [of drv call "cache w"]
    by (auto simp add: api_step_def split: option.splits)
next
  case (OnTx i call)
  then show ?thesis
    using Tx_call_named_prepared [of drv call "txs w ! i" "cache w"]
    by (auto simp add: api_step_def split: option.splits)
next
  case Begin
  then show ?thesis
    using Cache_Begin_maps(2) [of drv "cache w"]
    by (auto simp add: api_step_def split: sum.splits prod.splits)
next
  case (BeginTx ctx opts)
  then show ?thesis
    using Cache_Begin_maps(5) [of drv ctx opts "cache w"]
    by (auto simp add: api_step_def split: sum.splits prod.splits)
next
  case (ViaDB f)
  then show ?thesis by (simp add: api_step_def)
qed

lemma run_api_named_prepared:
  "ran (namedStmts (cache (run_api drv as w))) \<subseteq>
     ran (namedStmts (cache w)) \<union> {p. \<exists>co q d. fst (PrepareNamed drv co q d) = Inr p}"
proof (induction as arbitrary: w)
  case Nil
  show ?case by simp
next
  case (Cons a as)
  show ?case
    using api_step_named_prepared [of drv a w] Cons.IH [of "api_step drv a w"]
    by auto
qed

lemma named_prepared_entry:
  assumes "namedStmts (cache (run_api drv as \<lparr>cache = New d, txs = []\<rparr>)) q = Some p"
  shows "\<exists>co k e. fst (PrepareNamed drv co k e) = Inr p"
proof -
  from assms have "p \<in> ran (namedStmts (cache (run_api drv as \<lparr>cache = New d, txs = []\<rparr>)))"
    by (auto simp add: ran_def)
  then show ?thesis
    using run_api_named_prepared [of drv as "\<lparr>cache = New d, txs = []\<rparr>"]
    by (auto simp add: New_def)
qed


text \<open>
  Claim C5. A transaction just begun (by \<^verbatim>\<open>Begin\<close> or \<^verbatim>\<open>BeginTx\<close>) has no
  entry of its own, and beginning it leaves both maps of the cache as they were and
  calls no prepare. When the cache holds the handle \<open>p\<close> under \<open>q\<close> and the transaction
  holds nothing under \<open>q\<close>, \<^verbatim>\<open>Tx.stmt\<close> and \<^verbatim>\<open>Tx.stmtContext\<close> issue no prepare
  call (the history gains the \<^verbatim>\<open>Lock\<close> and \<^verbatim>\<open>Unlock\<close> of the pool-level lookup
  and one re-bind call), hand \<open>p\<close> to the driver's re-bind for this transaction, store the
  handle the re-bind returns in the transaction's own map under \<open>q\<close>, and return it; the
  maps of the cache are unchanged. The named resolutions do the same with
  \<^verbatim>\<open>NamedStmt\<close>. All this holds for every driver and every state.

  The handle returned is distinct from the pool-level one: the cache is one reached from
  a new cache by any calls of the public interface, so its entry \<open>p\<close> is a handle that a
  prepare returned, and the driver keeps the two kinds of handle apart, as the
  collaborator of the specification does (\<^verbatim>\<open>prepare\<close> gives a prepared handle,
  \<^verbatim>\<open>bindToTransaction\<close> a transaction-scoped one): no re-bind returns a handle
  that a prepare returns. Then the handle that the resolution returns and stores in the
  transaction differs from \<open>p\<close>, which the cache still holds under \<open>q\<close>.
\<close>

theorem C5_tx_resolution_rebinds_pool_handle:
  "(fst (Cache_Begin drv pool) = Inr t \<longrightarrow>
      tx_stmts t q = None \<and> tx_namedStmts t q = None \<and>
      stmts (snd (Cache_Begin drv pool)) = stmts pool \<and>
      namedStmts (snd (Cache_Begin drv pool)) = namedStmts pool \<and>
      history (snd (Cache_Begin drv pool)) = history pool @ [EvBeginx]) \<and>
   (fst (Cache_BeginTx drv ctx opts pool) = Inr t \<longrightarrow>
      tx_stmts t q = None \<and> tx_namedStmts t q = None \<and>
      stmts (snd (Cache_BeginTx drv ctx opts pool)) = stmts pool \<and>
      namedStmts (snd (Cache_BeginTx drv ctx opts pool)) = namedStmts pool \<and>
      history (snd (Cache_BeginTx drv ctx opts pool)) = history pool @ [EvBeginx]) \<and>
   (stmts c q = Some p \<and> tx_stmts t q = None \<longrightarrow>
      Tx_stmt drv q t c =
        (Inr (fst (Stmtx drv None (tx t) p (db c))),
         t\<lparr>tx_stmts := (tx_stmts t)(q \<mapsto> fst (Stmtx drv None (tx t) p (db c)))\<rparr>,
         c\<lparr>db := snd (Stmtx drv None (tx t) p (db c)),
           history := history c @ [EvLock stmtsLock, EvUnlock stmtsLock, EvStmtx]\<rparr>) \<and>
      Tx_stmtContext drv ctx q t c =
        (Inr (fst (Stmtx drv (Some ctx) (tx t) p (db c))),
         t\<lparr>tx_stmts := (tx_stmts t)(q \<mapsto> fst (Stmtx drv (Some ctx) (tx t) p (db c)))\<rparr>,
         c\<lparr>db := snd (Stmtx drv (Some ctx) (tx t) p (db c)),
           history := history c @ [EvLock stmtsLock, EvUnlock stmtsLock, EvStmtx]\<rparr>)) \<and>
   (namedStmts c q = Some n \<and> tx_namedStmts t q = None \<longrightarrow>
      Tx_namedStmt drv q t c =
        (Inr (fst (NamedStmt drv None (tx t) n (db c))),
         t\<lparr>tx_namedStmts := (tx_namedStmts t)(q \<mapsto> fst (NamedStmt drv None (tx t) n (db c)))\<rparr>,
         c\<lparr>db := snd (NamedStmt drv None (tx t) n (db c)),
           history := history c @ [EvLock namedStmtsLock, EvUnlock namedStmtsLock, EvNamedStmt]\<rparr>) \<and>
      Tx_namedStmtContext drv ctx q t c =
        (Inr (fst (NamedStmt drv (Some ctx) (tx t) n (db c))),
         t\<lparr>tx_namedStmts :=
             (tx_namedStmts t)(q \<mapsto> fst (NamedStmt drv (Some ctx) (tx t) n (db c)))\<rparr>,
         c\<lparr>db := snd (NamedStmt drv (Some ctx) (tx t) n (db c)),
           history := history c @ [EvLock namedStmtsLock, EvUnlock namedStmtsLock, EvNamedStmt]\<rparr>)) \<and>
   (c = cache (run_api drv steps \<lparr>cache = New d, txs = []\<rparr>) \<and>
    (\<forall>co k e co' y s e'. fst (Preparex drv co k e) \<noteq> Inr (fst (Stmtx drv co' y s e'))) \<and>
    stmts c q = Some p \<and> tx_stmts t q = None \<longrightarrow>
      fst (Tx_stmt drv q t c) \<noteq> Inr p \<and>
      stmts (snd (snd (Tx_stmt drv q t c))) q = Some p \<and>
      tx_stmts (fst (snd (Tx_stmt drv q t c))) q \<noteq> Some p \<and>
      fst (Tx_stmtContext drv ctx q t c) \<noteq> Inr p \<and>
      stmts (snd (snd (Tx_stmtContext drv ctx q t c))) q = Some p \<and>
      tx_stmts (fst (snd (Tx_stmtContext drv ctx q t c))) q \<noteq> Some p) \<and>
   (c = cache (run_api drv steps \<lparr>cache = New d, txs = []\<rparr>) \<and>
    (\<forall>co k e co' y s e'. fst (PrepareNamed drv co k e) \<noteq> Inr (fst (NamedStmt drv co' y s e'))) \<and>
    namedStmts c q = Some n \<and> tx_namedStmts t q = None \<longrightarrow>
      fst (Tx_namedStmt drv q t c) \<noteq> Inr n \<and>
      namedStmts (snd (snd (Tx_namedStmt drv q t c))) q = Some n \<and>
      tx_namedStmts (fst (snd (Tx_namedStmt drv q t c))) q \<noteq> Some n \<and>
      fst (Tx_namedStmtContext drv ctx q t c) \<noteq> Inr n \<and>
      namedStmts (snd (snd (Tx_namedStmtContext drv ctx q t c))) q = Some n \<and>
      tx_namedStmts (fst (snd (Tx_namedStmtContext drv ctx q t c))) q \<noteq> Some n)"
proof (intro conjI)
  show "fst (Cache_Begin drv pool) = Inr t \<longrightarrow>
      tx_stmts t q = None \<and> tx_namedStmts t q = None \<and>
      stmts (snd (Cache_Begin drv pool)) = stmts pool \<and>
      namedStmts (snd (Cache_Begin drv pool)) = namedStmts pool \<and>
      history (snd (Cache_Begin drv pool)) = history pool @ [EvBeginx]"
    using Begin_fresh(1) [of drv pool t q] by blast
  show "fst (Cache_BeginTx drv ctx opts pool) = Inr t \<longrightarrow>
      tx_stmts t q = None \<and> tx_namedStmts t q = None \<and>
      stmts (snd (Cache_BeginTx drv ctx opts pool)) = stmts pool \<and>
      namedStmts (snd (Cache_BeginTx drv ctx opts pool)) = namedStmts pool \<and>
      history (snd (Cache_BeginTx drv ctx opts pool)) = history pool @ [EvBeginx]"
    using Begin_fresh(2) [of drv ctx opts pool t q] by blast
  show "c = cache (run_api drv steps \<lparr>cache = New d, txs = []\<rparr>) \<and>
    (\<forall>co k e co' y s e'. fst (Preparex drv co k e) \<noteq> Inr (fst (Stmtx drv co' y s e'))) \<and>
    stmts c q = Some p \<and> tx_stmts t q = None \<longrightarrow>
      fst (Tx_stmt drv q t c) \<noteq> Inr p \<and>
      stmts (snd (snd (Tx_stmt drv q t c))) q = Some p \<and>
      tx_stmts (fst (snd (Tx_stmt drv q t c))) q \<noteq> Some p \<and>
      fst (Tx_stmtContext drv ctx q t c) \<noteq> Inr p \<and>
      stmts (snd (snd (Tx_stmtContext drv ctx q t c))) q = Some p \<and>
      tx_stmts (fst (snd (Tx_stmtContext drv ctx q t c))) q \<noteq> Some p"
  proof (intro impI, elim conjE)
    assume c: "c = cache (run_api drv steps \<lparr>cache = New d, txs = []\<rparr>)"
      and apart: "\<forall>co k e co' y s e'.
        fst (Preparex drv co k e) \<noteq> Inr (fst (Stmtx drv co' y s e'))"
      and hit: "stmts c q = Some p" and miss: "tx_stmts t q = None"
    from c hit obtain co k e where "fst (Preparex drv co k e) = Inr p"
      using prepared_entry [of drv steps d q p] by blast
    with apart have "\<And>co' y s e'. fst (Stmtx drv co' y s e') \<noteq> p"
      by metis
    with hit miss show "fst (Tx_stmt drv q t c) \<noteq> Inr p \<and>
      stmts (snd (snd (Tx_stmt drv q t c))) q = Some p \<and>
      tx_stmts (fst (snd (Tx_stmt drv q t c))) q \<noteq> Some p \<and>
      fst (Tx_stmtContext drv ctx q t c) \<noteq> Inr p \<and>
      stmts (snd (snd (Tx_stmtContext drv ctx q t c))) q = Some p \<and>
      tx_stmts (fst (snd (Tx_stmtContext drv ctx q t c))) q \<noteq> Some p"
      by (simp add: Tx_stmt_pool_hit Tx_stmtContext_pool_hit)
  qed
  show "c = cache (run_api drv steps \<lparr>cache = New d, txs = []\<rparr>) \<and>
    (\<forall>co k e co' y s e'. fst (PrepareNamed drv co k e) \<noteq> Inr (fst (NamedStmt drv co' y s e'))) \<and>
    namedStmts c q = Some n \<and> tx_namedStmts t q = None \<longrightarrow>
      fst (Tx_namedStmt drv q t c) \<noteq> Inr n \<and>
      namedStmts (snd (snd (Tx_namedStmt drv q t c))) q = Some n \<and>
      tx_namedStmts (fst (snd (Tx_namedStmt drv q t c))) q \<noteq> Some n \<and>
      fst (Tx_namedStmtContext drv ctx q t c) \<noteq> Inr n \<and>
      namedStmts (snd (snd (Tx_namedStmtContext drv ctx q t c))) q = Some n \<and>
      tx_namedStmts (fst (snd (Tx_namedStmtContext drv ctx q t c))) q \<noteq> Some n"
  proof (intro impI, elim conjE)
    assume c: "c = cache (run_api drv steps \<lparr>cache = New d, txs = []\<rparr>)"
      and apart: "\<forall>co k e co' y s e'.
        fst (PrepareNamed drv co k e) \<noteq> Inr (fst (NamedStmt drv co' y s e'))"
      and hit: "namedStmts c q = Some n" and miss: "tx_namedStmts t q = None"
    from c hit obtain co k e where "fst (PrepareNamed drv co k e) = Inr n"
      using named_prepared_entry [of drv steps d q n] by blast
    with apart have "\<And>co' y s e'. fst (NamedStmt drv co' y s e') \<noteq> n"
      by metis
    with hit miss show "fst (Tx_namedStmt drv q t c) \<noteq> Inr n \<and>
      namedStmts (snd (snd (Tx_namedStmt drv q t c))) q = Some n \<and>
      tx_namedStmts (fst (snd (Tx_namedStmt drv q t c))) q \<noteq> Some n \<and>
      fst (Tx_namedStmtContext drv ctx q t c) \<noteq> Inr n \<and>
      namedStmts (snd (snd (Tx_namedStmtContext drv ctx q t c))) q = Some n \<and>
      tx_namedStmts (fst (snd (Tx_namedStmtContext drv ctx q t c))) q \<noteq> Some n"
      by (simp add: Tx_namedStmt_pool_hit Tx_namedStmtContext_pool_hit)
  qed
qed (simp_all add: Tx_stmt_pool_hit Tx_stmtContext_pool_hit Tx_namedStmt_pool_hit
      Tx_namedStmtContext_pool_hit)

text \<open>
  On the driver double, which keeps prepared statements and bound ones apart: a new
  cache runs \<^verbatim>\<open>SELECT 1\<close> and \<^verbatim>\<open>SELECT :a\<close> and begins a transaction, and the
  transaction resolves them. No second prepare is recorded, the transaction stores the
  bound statement, the cache keeps the prepared one, and the two differ.
\<close>

theorem C5_witness:
  "(\<forall>co k e co' y s e'. fst (Preparex fake co k e) \<noteq> Inr (fst (Stmtx fake co' y s e'))) \<and>
   (\<forall>co k e co' y s e'. fst (PrepareNamed fake co k e) \<noteq> Inr (fst (NamedStmt fake co' y s e'))) \<and>
   run_api fake [OnCache (Exec None ''SELECT 1'' [7]), OnCache (NamedExec None ''SELECT :a'' 7),
       Begin] \<lparr>cache = New fake_db0, txs = []\<rparr> =
     \<lparr>cache =
        \<lparr>db = \<lparr>outage = 0, begun = 1,
                executed = [Inl (Prepared ''SELECT 1''), Inr (NamedPrepared ''SELECT :a'')]\<rparr>,
         stmts = [''SELECT 1'' \<mapsto> Prepared ''SELECT 1''],
         namedStmts = [''SELECT :a'' \<mapsto> NamedPrepared ''SELECT :a''],
         history = [EvLock stmtsLock, EvPreparex ''SELECT 1'', EvUnlock stmtsLock, EvRun,
                    EvLock namedStmtsLock, EvPrepareNamed ''SELECT :a'', EvUnlock namedStmtsLock,
                    EvRun, EvBeginx]\<rparr>,
      txs = [\<lparr>tx = 0, tx_stmts = Map.empty, tx_namedStmts = Map.empty\<rparr>]\<rparr> \<and>
   Tx_stmt fake ''SELECT 1'' \<lparr>tx = 0, tx_stmts = Map.empty, tx_namedStmts = Map.empty\<rparr>
       (cache (run_api fake [OnCache (Exec None ''SELECT 1'' [7]),
          OnCache (NamedExec None ''SELECT :a'' 7), Begin] \<lparr>cache = New fake_db0, txs = []\<rparr>)) =
     (Inr (Bound 0 (Prepared ''SELECT 1'')),
      \<lparr>tx = 0, tx_stmts = [''SELECT 1'' \<mapsto> Bound 0 (Prepared ''SELECT 1'')],
         tx_namedStmts = Map.empty\<rparr>,
      \<lparr>db = \<lparr>outage = 0, begun = 1,
              executed = [Inl (Prepared ''SELECT 1''), Inr (NamedPrepared ''SELECT :a'')]\<rparr>,
         stmts = [''SELECT 1'' \<mapsto> Prepared ''SELECT 1''],
         namedStmts = [''SELECT :a'' \<mapsto> NamedPrepared ''SELECT :a''],
         history = [EvLock stmtsLock, EvPreparex ''SELECT 1'', EvUnlock stmtsLock, EvRun,
                    EvLock namedStmtsLock, EvPrepareNamed ''SELECT :a'', EvUnlock namedStmtsLock,
                    EvRun, EvBeginx, EvLock stmtsLock, EvUnlock stmtsLock, EvStmtx]\<rparr>) \<and>
   fst (Tx_stmt fake ''SELECT 1'' \<lparr>tx = 0, tx_stmts = Map.empty, tx_namedStmts = Map.empty\<rparr>
       (cache (run_api fake [OnCache (Exec None ''SELECT 1'' [7]),
          OnCache (NamedExec None ''SELECT :a'' 7), Begin] \<lparr>cache = New fake_db0, txs = []\<rparr>)))
     \<noteq> Inr (Prepared ''SELECT 1'') \<and>
   fst (Tx_namedStmtContext fake Canceled ''SELECT :a''
       \<lparr>tx = 0, tx_stmts = Map.empty, tx_namedStmts = Map.empty\<rparr>
       (cache (run_api fake [OnCache (Exec None ''SELECT 1'' [7]),
          OnCache (NamedExec None ''SELECT :a'' 7), Begin] \<lparr>cache = New fake_db0, txs = []\<rparr>)))
     \<noteq> Inr (NamedPrepared ''SELECT :a'')"
proof -
  let ?steps = "[OnCache (Exec None ''SELECT 1'' [7]), OnCache (NamedExec None ''SELECT :a'' 7),
       Begin]"
  let ?t = "\<lparr>tx = 0 :: nat, tx_stmts = Map.empty :: query \<Rightarrow> fake_stmt option,
      tx_namedStmts = Map.empty :: query \<Rightarrow> fake_named option\<rparr>"
  have a1: "\<forall>co k e co' y s e'. fst (Preparex fake co k e) \<noteq> Inr (fst (Stmtx fake co' y s e'))"
    by (simp add: fake_defs)
  have a2: "\<forall>co k e co' y s e'.
      fst (PrepareNamed fake co k e) \<noteq> Inr (fst (NamedStmt fake co' y s e'))"
    by (simp add: fake_defs)
  have w: "run_api fake ?steps \<lparr>cache = New fake_db0, txs = []\<rparr> =
     \<lparr>cache =
        \<lparr>db = \<lparr>outage = 0, begun = 1,
                executed = [Inl (Prepared ''SELECT 1''), Inr (NamedPrepared ''SELECT :a'')]\<rparr>,
         stmts = [''SELECT 1'' \<mapsto> Prepared ''SELECT 1''],
         namedStmts = [''SELECT :a'' \<mapsto> NamedPrepared ''SELECT :a''],
         history = [EvLock stmtsLock, EvPreparex ''SELECT 1'', EvUnlock stmtsLock, EvRun,
                    EvLock namedStmtsLock, EvPrepareNamed ''SELECT :a'', EvUnlock namedStmtsLock,
                    EvRun, EvBeginx]\<rparr>,
      txs = [?t]\<rparr>"
    by (simp add: method_defs call_defs fake_defs pool_resolution_eqs driver_call_eq)
  show ?thesis
    using C5_tx_resolution_rebinds_pool_handle [where drv = fake and q = "''SELECT 1''"
        and c = "cache (run_api fake ?steps \<lparr>cache = New fake_db0, txs = []\<rparr>)"
        and steps = ?steps and d = fake_db0 and t = ?t and p = "Prepared ''SELECT 1''"]
      C5_tx_resolution_rebinds_pool_handle [where drv = fake and q = "''SELECT :a''"
        and c = "cache (run_api fake ?steps \<lparr>cache = New fake_db0, txs = []\<rparr>)"
        and steps = ?steps and d = fake_db0 and t = ?t and n = "NamedPrepared ''SELECT :a''"
        and ctx = Canceled]
      a1 a2 w
    by (simp add: fake_def)
qed

section \<open>Entries of a transaction and entries of the cache\<close>

text \<open>
  Claim C4. Start from a new cache with no transaction and make any calls of the public
  interface, in any order: methods of the cache, \<^verbatim>\<open>Begin\<close> and
  \<^verbatim>\<open>BeginTx\<close>, methods of any transaction begun so far (\<^verbatim>\<open>Commit\<close> and
  \<^verbatim>\<open>Rollback\<close> among them, so ended transactions are covered as well), and any
  use of the raw connection that \<^verbatim>\<open>DB()\<close> hands out. In the state
  reached, whenever a transaction's positional map has an entry for a query, the
  positional map of the cache has one for that query, and whenever its named map has an
  entry, the named map of the cache has one.
\<close>

theorem C4_tx_entries_have_pool_entries:
  "\<forall>t \<in> set (txs (run_api drv as \<lparr>cache = New d, txs = []\<rparr>)). \<forall>q.
     (tx_stmts t q \<noteq> None \<longrightarrow>
        stmts (cache (run_api drv as \<lparr>cache = New d, txs = []\<rparr>)) q \<noteq> None) \<and>
     (tx_namedStmts t q \<noteq> None \<longrightarrow>
        namedStmts (cache (run_api drv as \<lparr>cache = New d, txs = []\<rparr>)) q \<noteq> None)"
proof -
  have "\<forall>t \<in> set (txs (run_api drv as \<lparr>cache = New d, txs = []\<rparr>)).
      dom (tx_stmts t) \<subseteq> dom (stmts (cache (run_api drv as \<lparr>cache = New d, txs = []\<rparr>))) \<and>
      dom (tx_namedStmts t)
        \<subseteq> dom (namedStmts (cache (run_api drv as \<lparr>cache = New d, txs = []\<rparr>)))"
    by (rule run_api_inv) simp
  then show ?thesis by (auto simp add: subset_iff dom_def)
qed

text \<open>
  The invariant at work: after \<^verbatim>\<open>Begin\<close>, an \<^verbatim>\<open>Exec\<close> and a
  \<^verbatim>\<open>NamedExecContext\<close> in the transaction, the transaction holds one entry in each of
  its maps, and the cache holds entries for those two queries.
\<close>

theorem C4_witness:
  "txs (run_api fake
          [Begin, OnTx 0 (Exec None ''SELECT 1'' [7]), OnTx 0 (NamedExec (Some Background) ''SELECT :a'' 7)]
          \<lparr>cache = New fake_db0, txs = []\<rparr>)
     = [\<lparr>tx = 0,
         tx_stmts = [''SELECT 1'' \<mapsto> Bound 0 (Prepared ''SELECT 1'')],
         tx_namedStmts = [''SELECT :a'' \<mapsto> NamedBound 0 (NamedPrepared ''SELECT :a'')]\<rparr>] \<and>
   stmts (cache (run_api fake
          [Begin, OnTx 0 (Exec None ''SELECT 1'' [7]), OnTx 0 (NamedExec (Some Background) ''SELECT :a'' 7)]
          \<lparr>cache = New fake_db0, txs = []\<rparr>)) ''SELECT 1'' \<noteq> None \<and>
   namedStmts (cache (run_api fake
          [Begin, OnTx 0 (Exec None ''SELECT 1'' [7]), OnTx 0 (NamedExec (Some Background) ''SELECT :a'' 7)]
          \<lparr>cache = New fake_db0, txs = []\<rparr>)) ''SELECT :a'' \<noteq> None"
proof -
  let ?as = "[Begin, OnTx 0 (Exec None ''SELECT 1'' [7]),
              OnTx 0 (NamedExec (Some Background) ''SELECT :a'' 7)]"
  have t: "txs (run_api fake ?as \<lparr>cache = New fake_db0, txs = []\<rparr>)
     = [\<lparr>tx = 0,
         tx_stmts = [''SELECT 1'' \<mapsto> Bound 0 (Prepared ''SELECT 1'')],
         tx_namedStmts = [''SELECT :a'' \<mapsto> NamedBound 0 (NamedPrepared ''SELECT :a'')]\<rparr>]"
    by (simp add: method_defs call_defs fake_defs Cache_stmt_eq Cache_namedStmtContext_eq
        driver_call_eq)
  show ?thesis
    using C4_tx_entries_have_pool_entries [of fake ?as fake_db0] t
    by simp
qed

section \<open>What the forwarding methods of a transaction run\<close>

text \<open>
  What each forwarding method of the transaction adds to the history after its
  resolution, for every driver: nothing when the resolution failed, and otherwise one
  call that runs a statement, for twenty of the methods, and a re-bind call followed by
  that one call, for the four others.
\<close>

lemma Tx_methods_that_run_the_resolved_handle:
  "history (snd (snd (Tx_Exec drv query args t c))) =
     history (snd (snd (Tx_stmt drv query t c))) @
       (case fst (Tx_stmt drv query t c) of Inl err \<Rightarrow> [] | Inr h \<Rightarrow> [EvRun]) \<and>
   history (snd (snd (Tx_ExecContext drv ctx query args t c))) =
     history (snd (snd (Tx_stmtContext drv ctx query t c))) @
       (case fst (Tx_stmtContext drv ctx query t c) of Inl err \<Rightarrow> [] | Inr h \<Rightarrow> [EvRun]) \<and>
   history (snd (snd (Tx_NamedExec drv query arg t c))) =
     history (snd (snd (Tx_namedStmt drv query t c))) @
       (case fst (Tx_namedStmt drv query t c) of Inl err \<Rightarrow> [] | Inr h \<Rightarrow> [EvRun]) \<and>
   history (snd (snd (Tx_NamedExecContext drv ctx query arg t c))) =
     history (snd (snd (Tx_namedStmtContext drv ctx query t c))) @
       (case fst (Tx_namedStmtContext drv ctx query t c) of Inl err \<Rightarrow> [] | Inr h \<Rightarrow> [EvRun]) \<and>
   history (snd (snd (Tx_Query drv query args t c))) =
     history (snd (snd (Tx_stmt drv query t c))) @
       (case fst (Tx_stmt drv query t c) of Inl err \<Rightarrow> [] | Inr h \<Rightarrow> [EvRun]) \<and>
   history (snd (snd (Tx_QueryContext drv ctx query args t c))) =
     history (snd (snd (Tx_stmtContext drv ctx query t c))) @
       (case fst (Tx_stmtContext drv ctx query t c) of Inl err \<Rightarrow> [] | Inr h \<Rightarrow> [EvRun]) \<and>
   history (snd (snd (Tx_NamedQuery drv query arg t c))) =
     history (snd (snd (Tx_namedStmt drv query t c))) @
       (case fst (Tx_namedStmt drv query t c) of Inl err \<Rightarrow> [] | Inr h \<Rightarrow> [EvRun]) \<and>
   history (snd (snd (Tx_NamedQueryContext drv ctx query arg t c))) =
     history (snd (snd (Tx_namedStmtContext drv ctx query t c))) @
       (case fst (Tx_namedStmtContext drv ctx query t c) of Inl err \<Rightarrow> [] | Inr h \<Rightarrow> [EvRun]) \<and>
   history (snd (snd (Tx_Queryx drv query args t c))) =
     history (snd (snd (Tx_stmt drv query t c))) @
       (case fst (Tx_stmt drv query t c) of Inl err \<Rightarrow> [] | Inr h \<Rightarrow> [EvRun]) \<and>
   history (snd (snd (Tx_QueryxContext drv ctx query args t c))) =
     history (snd (snd (Tx_stmtContext drv ctx query t c))) @
       (case fst (Tx_stmtContext drv ctx query t c) of Inl err \<Rightarrow> [] | Inr h \<Rightarrow> [EvRun]) \<and>
   history (snd (snd (Tx_NamedQueryx drv query arg t c))) =
     history (snd (snd (Tx_namedStmt drv query t c))) @
       (case fst (Tx_namedStmt drv query t c) of Inl err \<Rightarrow> [] | Inr h \<Rightarrow> [EvRun]) \<and>
   history (snd (snd (Tx_NamedQueryxContext drv ctx query arg t c))) =
     history (snd (snd (Tx_namedStmtContext drv ctx query t c))) @
       (case fst (Tx_namedStmtContext drv ctx query t c) of Inl err \<Rightarrow> [] | Inr h \<Rightarrow> [EvRun]) \<and>
   history (snd (snd (Tx_QueryxRow drv query args t c))) =
     history (snd (snd (Tx_stmt drv query t c))) @
       (case fst (Tx_stmt drv query t c) of Inl err \<Rightarrow> [] | Inr h \<Rightarrow> [EvRun]) \<and>
   history (snd (snd (Tx_QueryRowxContext drv ctx query args t c))) =
     history (snd (snd (Tx_stmtContext drv ctx query t c))) @
       (case fst (Tx_stmtContext drv ctx query t c) of Inl err \<Rightarrow> [] | Inr h \<Rightarrow> [EvRun]) \<and>
   history (snd (snd (Tx_NamedQueryRow drv query arg t c))) =
     history (snd (snd (Tx_namedStmt drv query t c))) @
       (case fst (Tx_namedStmt drv query t c) of Inl err \<Rightarrow> [] | Inr h \<Rightarrow> [EvRun]) \<and>
   history (snd (snd (Tx_NamedQueryRowContext drv ctx query arg t c))) =
     history (snd (snd (Tx_namedStmtContext drv ctx query t c))) @
       (case fst (Tx_namedStmtContext drv ctx query t c) of Inl err \<Rightarrow> [] | Inr h \<Rightarrow> [EvRun]) \<and>
   history (snd (snd (Tx_Get drv dest query args t c))) =
     history (snd (snd (Tx_stmt drv query t c))) @
       (case fst (Tx_stmt drv query t c) of Inl err \<Rightarrow> [] | Inr h \<Rightarrow> [EvRun]) \<and>
   history (snd (snd (Tx_GetContext drv ctx dest query args t c))) =
     history (snd (snd (Tx_stmtContext drv ctx query t c))) @
       (case fst (Tx_stmtContext drv ctx query t c) of Inl err \<Rightarrow> [] | Inr h \<Rightarrow> [EvRun]) \<and>
   history (snd (snd (Tx_Select drv dest query args t c))) =
     history (snd (snd (Tx_stmt drv query t c))) @
       (case fst (Tx_stmt drv query t c) of Inl err \<Rightarrow> [] | Inr h \<Rightarrow> [EvRun]) \<and>
   history (snd (snd (Tx_SelectContext drv ctx dest query args t c))) =
     history (snd (snd (Tx_stmtContext drv ctx query t c))) @
       (case fst (Tx_stmtContext drv ctx query t c) of Inl err \<Rightarrow> [] | Inr h \<Rightarrow> [EvRun])"
  by (simp_all add: Tx_Exec_def Tx_ExecContext_def Tx_NamedExec_def Tx_NamedExecContext_def
      Tx_Query_def Tx_QueryContext_def Tx_NamedQuery_def Tx_NamedQueryContext_def
      Tx_Queryx_def Tx_QueryxContext_def Tx_NamedQueryx_def Tx_NamedQueryxContext_def
      Tx_QueryxRow_def Tx_QueryRowxContext_def Tx_NamedQueryRow_def Tx_NamedQueryRowContext_def
      Tx_Get_def Tx_GetContext_def Tx_Select_def Tx_SelectContext_def
      driver_call_eq split: prod.split sum.split)

lemma Tx_methods_that_bind_again:
  "history (snd (snd (Tx_NamedGet drv dest query arg t c))) =
     history (snd (snd (Tx_namedStmt drv query t c))) @
       (case fst (Tx_namedStmt drv query t c) of Inl err \<Rightarrow> [] | Inr h \<Rightarrow> [EvNamedStmt, EvRun]) \<and>
   history (snd (snd (Tx_NamedGetContext drv ctx dest query arg t c))) =
     history (snd (snd (Tx_namedStmtContext drv ctx query t c))) @
       (case fst (Tx_namedStmtContext drv ctx query t c) of Inl err \<Rightarrow> [] | Inr h \<Rightarrow> [EvNamedStmt, EvRun]) \<and>
   history (snd (snd (Tx_NamedSelect drv dest query arg t c))) =
     history (snd (snd (Tx_namedStmt drv query t c))) @
       (case fst (Tx_namedStmt drv query t c) of Inl err \<Rightarrow> [] | Inr h \<Rightarrow> [EvNamedStmt, EvRun]) \<and>
   history (snd (snd (Tx_NamedSelectContext drv ctx dest query arg t c))) =
     history (snd (snd (Tx_namedStmtContext drv ctx query t c))) @
       (case fst (Tx_namedStmtContext drv ctx query t c) of Inl err \<Rightarrow> [] | Inr h \<Rightarrow> [EvNamedStmt, EvRun])"
  by (simp_all add: Tx_NamedGet_def Tx_NamedGetContext_def Tx_NamedSelect_def Tx_NamedSelectContext_def
      driver_call_eq split: prod.split sum.split)


text \<open>
  Claim C7 says that every forwarding method of a transaction runs exactly the handle
  its resolution returned and never binds it a second time. \<^verbatim>\<open>Tx.NamedGet\<close>,
  \<^verbatim>\<open>Tx.NamedGetContext\<close>, \<^verbatim>\<open>Tx.NamedSelect\<close> and
  \<^verbatim>\<open>Tx.NamedSelectContext\<close> do bind it a second time: they pass the handle that
  \<^verbatim>\<open>tx.namedStmt\<close> returned, which is already bound and stored, to
  \<^verbatim>\<open>tx.tx.NamedStmt\<close> again and run the result (lines 920, 929, 956 and 965), as
  the first version did with the pool-level handle. The other named methods of the same
  version (\<^verbatim>\<open>NamedExec\<close>, \<^verbatim>\<open>NamedQuery\<close>, \<^verbatim>\<open>NamedQueryx\<close>,
  \<^verbatim>\<open>NamedQueryRow\<close>) run the resolved handle itself. On the driver double, in a
  transaction just begun from a new cache: the resolution stores and returns the bound
  statement; \<^verbatim>\<open>NamedGet\<close> records two re-bind calls and runs a statement bound
  twice, which is not the stored one; \<^verbatim>\<open>NamedExec\<close> records one re-bind call and
  runs the stored one.
\<close>

theorem C7_NamedGet_binds_a_second_time:
  "fst (Cache_Begin fake (New fake_db0)) =
     Inr \<lparr>tx = 0, tx_stmts = Map.empty, tx_namedStmts = Map.empty\<rparr> \<and>
   fst (Tx_namedStmt fake ''SELECT :a''
          \<lparr>tx = 0, tx_stmts = Map.empty, tx_namedStmts = Map.empty\<rparr>
          (snd (Cache_Begin fake (New fake_db0)))) =
     Inr (NamedBound 0 (NamedPrepared ''SELECT :a'')) \<and>
   Tx_NamedGet fake 0 ''SELECT :a'' 7
       \<lparr>tx = 0, tx_stmts = Map.empty, tx_namedStmts = Map.empty\<rparr>
       (snd (Cache_Begin fake (New fake_db0))) =
     (None,
      \<lparr>tx = 0, tx_stmts = Map.empty,
         tx_namedStmts = [''SELECT :a'' \<mapsto> NamedBound 0 (NamedPrepared ''SELECT :a'')]\<rparr>,
      \<lparr>db = \<lparr>outage = 0, begun = 1,
              executed = [Inr (NamedBound 0 (NamedBound 0 (NamedPrepared ''SELECT :a'')))]\<rparr>,
         stmts = Map.empty,
         namedStmts = [''SELECT :a'' \<mapsto> NamedPrepared ''SELECT :a''],
         history = [EvBeginx, EvLock namedStmtsLock, EvPrepareNamed ''SELECT :a'',
                    EvUnlock namedStmtsLock, EvNamedStmt, EvNamedStmt, EvRun]\<rparr>) \<and>
   Tx_NamedExec fake ''SELECT :a'' 7
       \<lparr>tx = 0, tx_stmts = Map.empty, tx_namedStmts = Map.empty\<rparr>
       (snd (Cache_Begin fake (New fake_db0))) =
     (Inr (NamedRan (NamedBound 0 (NamedPrepared ''SELECT :a'')) 7),
      \<lparr>tx = 0, tx_stmts = Map.empty,
         tx_namedStmts = [''SELECT :a'' \<mapsto> NamedBound 0 (NamedPrepared ''SELECT :a'')]\<rparr>,
      \<lparr>db = \<lparr>outage = 0, begun = 1,
              executed = [Inr (NamedBound 0 (NamedPrepared ''SELECT :a''))]\<rparr>,
         stmts = Map.empty,
         namedStmts = [''SELECT :a'' \<mapsto> NamedPrepared ''SELECT :a''],
         history = [EvBeginx, EvLock namedStmtsLock, EvPrepareNamed ''SELECT :a'',
                    EvUnlock namedStmtsLock, EvNamedStmt, EvRun]\<rparr>) \<and>
   NamedBound 0 (NamedBound 0 (NamedPrepared ''SELECT :a''))
     \<noteq> NamedBound 0 (NamedPrepared ''SELECT :a'')"
  by (simp add: method_defs call_defs fake_defs pool_resolution_eqs driver_call_eq)

section \<open>The single-row methods\<close>

text \<open>
  Claim C8. The methods that return one row and an error are \<^verbatim>\<open>QueryRow\<close>,
  \<^verbatim>\<open>QueryRowContext\<close>, \<^verbatim>\<open>QueryxRow\<close>, \<^verbatim>\<open>QueryRowxContext\<close>,
  \<^verbatim>\<open>NamedQueryRow\<close> and \<^verbatim>\<open>NamedQueryRowContext\<close> of the cache and the last
  four of these of the transaction (a transaction has no \<^verbatim>\<open>QueryRow\<close> and no
  \<^verbatim>\<open>QueryRowContext\<close>). Each returns an error exactly when its resolution of the
  statement returns one, and then that error; when the resolution returns a handle, it
  returns the row the driver made for that handle and the arguments, with a nil error,
  whatever that row holds.
\<close>

theorem C8_single_row_methods_fail_only_in_resolution:
  "fst (Cache_QueryRow drv query args c) =
     (case fst (Cache_stmt drv query c) of
        Inl err \<Rightarrow> Inl err
      | Inr stmt \<Rightarrow>
          Inr (fst (Stmt_QueryRow drv None stmt args (db (snd (Cache_stmt drv query c)))))) \<and>
   fst (Cache_QueryRowContext drv ctx query args c) =
     (case fst (Cache_stmtContext drv ctx query c) of
        Inl err \<Rightarrow> Inl err
      | Inr stmt \<Rightarrow>
          Inr (fst (Stmt_QueryRow drv (Some ctx) stmt args (db (snd (Cache_stmtContext drv ctx query c)))))) \<and>
   fst (Cache_QueryxRow drv query args c) =
     (case fst (Cache_stmt drv query c) of
        Inl err \<Rightarrow> Inl err
      | Inr stmt \<Rightarrow>
          Inr (fst (Stmt_QueryRowx drv None stmt args (db (snd (Cache_stmt drv query c)))))) \<and>
   fst (Cache_QueryRowxContext drv ctx query args c) =
     (case fst (Cache_stmtContext drv ctx query c) of
        Inl err \<Rightarrow> Inl err
      | Inr stmt \<Rightarrow>
          Inr (fst (Stmt_QueryRowx drv (Some ctx) stmt args (db (snd (Cache_stmtContext drv ctx query c)))))) \<and>
   fst (Cache_NamedQueryRow drv query arg c) =
     (case fst (Cache_namedStmt drv query c) of
        Inl err \<Rightarrow> Inl err
      | Inr namedStmt \<Rightarrow>
          Inr (fst (Named_QueryRow drv None namedStmt arg (db (snd (Cache_namedStmt drv query c)))))) \<and>
   fst (Cache_NamedQueryRowContext drv ctx query arg c) =
     (case fst (Cache_namedStmtContext drv ctx query c) of
        Inl err \<Rightarrow> Inl err
      | Inr namedStmt \<Rightarrow>
          Inr (fst (Named_QueryRow drv (Some ctx) namedStmt arg (db (snd (Cache_namedStmtContext drv ctx query c)))))) \<and>
   fst (Tx_QueryxRow drv query args t c) =
     (case fst (Tx_stmt drv query t c) of
        Inl err \<Rightarrow> Inl err
      | Inr stmt \<Rightarrow>
          Inr (fst (Stmt_QueryRowx drv None stmt args (db (snd (snd (Tx_stmt drv query t c))))))) \<and>
   fst (Tx_QueryRowxContext drv ctx query args t c) =
     (case fst (Tx_stmtContext drv ctx query t c) of
        Inl err \<Rightarrow> Inl err
      | Inr stmt \<Rightarrow>
          Inr (fst (Stmt_QueryRowx drv (Some ctx) stmt args (db (snd (snd (Tx_stmtContext drv ctx query t c))))))) \<and>
   fst (Tx_NamedQueryRow drv query arg t c) =
     (case fst (Tx_namedStmt drv query t c) of
        Inl err \<Rightarrow> Inl err
      | Inr namedStmt \<Rightarrow>
          Inr (fst (Named_QueryRow drv None namedStmt arg (db (snd (snd (Tx_namedStmt drv query t c))))))) \<and>
   fst (Tx_NamedQueryRowContext drv ctx query arg t c) =
     (case fst (Tx_namedStmtContext drv ctx query t c) of
        Inl err \<Rightarrow> Inl err
      | Inr namedStmt \<Rightarrow>
          Inr (fst (Named_QueryRow drv (Some ctx) namedStmt arg (db (snd (snd (Tx_namedStmtContext drv ctx query t c)))))))"
  by (simp_all add: Cache_QueryRow_def Cache_QueryRowContext_def Cache_QueryxRow_def Cache_QueryRowxContext_def
      Cache_NamedQueryRow_def Cache_NamedQueryRowContext_def Tx_QueryxRow_def Tx_QueryRowxContext_def
      Tx_NamedQueryRow_def Tx_NamedQueryRowContext_def
      driver_call_eq split: prod.split sum.split)

section \<open>Ending a transaction, closing the cache\<close>

text \<open>
  Claim C9. \<^verbatim>\<open>Tx.Commit\<close> and \<^verbatim>\<open>Tx.Rollback\<close> hand the call to the
  \<^verbatim>\<open>*sqlx.Tx\<close> and change nothing else: the error returned and the driver state are
  the driver's, the one event recorded is that call, the transaction (its handle and
  both of its maps) is the one it was, and both maps of the cache are the ones they
  were. \<^verbatim>\<open>Cache.Close\<close> hands the call to the \<^verbatim>\<open>*sqlx.DB\<close> and leaves both
  maps of the cache as they were. No entry is removed, closed or replaced.
\<close>

theorem C9_commit_rollback_close_frame:
  "fst (Tx_Commit drv t c) = fst (SqlxTx_Commit drv (tx t) (db c)) \<and>
   db (snd (snd (Tx_Commit drv t c))) = snd (SqlxTx_Commit drv (tx t) (db c)) \<and>
   history (snd (snd (Tx_Commit drv t c))) = history c @ [EvCommit] \<and>
   fst (snd (Tx_Commit drv t c)) = t \<and>
   stmts (snd (snd (Tx_Commit drv t c))) = stmts c \<and>
   namedStmts (snd (snd (Tx_Commit drv t c))) = namedStmts c \<and>
   fst (Tx_Rollback drv t c) = fst (SqlxTx_Rollback drv (tx t) (db c)) \<and>
   db (snd (snd (Tx_Rollback drv t c))) = snd (SqlxTx_Rollback drv (tx t) (db c)) \<and>
   history (snd (snd (Tx_Rollback drv t c))) = history c @ [EvRollback] \<and>
   fst (snd (Tx_Rollback drv t c)) = t \<and>
   stmts (snd (snd (Tx_Rollback drv t c))) = stmts c \<and>
   namedStmts (snd (snd (Tx_Rollback drv t c))) = namedStmts c \<and>
   fst (Cache_Close drv c) = fst (DB_Close drv (db c)) \<and>
   db (snd (Cache_Close drv c)) = snd (DB_Close drv (db c)) \<and>
   history (snd (Cache_Close drv c)) = history c @ [EvClose] \<and>
   stmts (snd (Cache_Close drv c)) = stmts c \<and>
   namedStmts (snd (Cache_Close drv c)) = namedStmts c"
  by (simp add: Tx_Commit_def Tx_Rollback_def Cache_Close_def driver_call_eq)

section \<open>The two versions of the transaction, step by step\<close>

lemma bound_entries_cong:
  "stmts c = stmts c' \<Longrightarrow> namedStmts c = namedStmts c' \<Longrightarrow>
     bound_entries bind nbind t c = bound_entries bind nbind t c'"
  by (simp add: bound_entries_def)

lemma same_pool_history [simp]:
  "same_pool (c1\<lparr>history := h\<rparr>) c2 = same_pool c1 c2"
  "same_pool c1 (c2\<lparr>history := h\<rparr>) = same_pool c1 c2"
  by (simp_all add: same_pool_def)



lemma bound_entries_frame [simp]:
  "bound_entries bind nbind t (c\<lparr>history := h\<rparr>) = bound_entries bind nbind t c"
  "bound_entries bind nbind t (c\<lparr>db := d\<rparr>) = bound_entries bind nbind t c"
  by (simp_all add: bound_entries_def)





















section \<open>The two versions of the transaction compared\<close>

text \<open>The defining equations of the first version, for evaluating it.\<close>

lemmas first_version_defs =
  Tx1_Exec_def Tx1_ExecContext_def Tx1_NamedExec_def Tx1_NamedExecContext_def
  Tx1_Query_def Tx1_QueryContext_def Tx1_NamedQuery_def Tx1_NamedQueryContext_def
  Tx1_Queryx_def Tx1_QueryxContext_def Tx1_NamedQueryx_def Tx1_NamedQueryxContext_def
  Tx1_Get_def Tx1_GetContext_def Tx1_GetNamed_def Tx1_GetNamedContext_def Tx1_Select_def
  Tx1_SelectContext_def Tx1_NamedSelect_def Tx1_NamedSelectContext_def Tx1_Rollback_def
  Tx1_Commit_def Tx1_call_def value_or_panic_def



text \<open>
  The methods the amended claim leaves out, on the driver double. In the first version
  \<^verbatim>\<open>NamedQuery\<close> hands the named statement to \<^verbatim>\<open>Stmtx\<close>, which panics
  in sqlx, where the second version returns rows. \<^verbatim>\<open>NamedGet\<close> runs the
  statement bound once in the first version and a statement bound twice in the second.
\<close>

lemma first_version_NamedQuery_panics:
  "run_Tx1 fake [NamedQuery None ''SELECT :a'' 7] 0 (New fake_db0) = [Panic] \<and>
   run_Tx fake [NamedQuery None ''SELECT :a'' 7]
     \<lparr>tx = 0, tx_stmts = Map.empty, tx_namedStmts = Map.empty\<rparr> (New fake_db0) =
     [Value (Inr (NamedRan (NamedBound 0 (NamedPrepared ''SELECT :a'')) 7))]"
  by (simp add: method_defs first_version_defs call_defs fake_defs pool_resolution_eqs
      driver_call_eq)

lemma second_version_NamedGet_runs_another_statement:
  "executed (db (snd (Tx1_GetNamed fake 0 ''SELECT :a'' 7 0 (New fake_db0)))) =
     [Inr (NamedBound 0 (NamedPrepared ''SELECT :a''))] \<and>
   executed (db (snd (snd (Tx_NamedGet fake 0 ''SELECT :a'' 7
     \<lparr>tx = 0, tx_stmts = Map.empty, tx_namedStmts = Map.empty\<rparr> (New fake_db0))))) =
     [Inr (NamedBound 0 (NamedBound 0 (NamedPrepared ''SELECT :a'')))]"
  by (simp add: method_defs first_version_defs call_defs fake_defs pool_resolution_eqs
      driver_call_eq)



end
